theory Spec2Isabelle
  imports Complex_Main "HOL-Library.Word" "HOL-Library.AList"
begin

section \<open>JavaScript values, errors and effects\<close>

text \<open>
  The library manipulates JOSE headers, JWKs and flattened containers as plain JavaScript
  values. They are modelled by one datatype: objects are association lists in insertion
  order (property names are distinct in a JavaScript object), byte sequences
  (\<^verbatim>\<open>Uint8Array\<close>) are lists of 8-bit words, and strings are held as their UTF-8 bytes,
  one \<^typ>\<open>char\<close> per byte. An object is an ordinary one, as an object literal, object
  spread and \<^verbatim>\<open>JSON.parse\<close> make it: its prototype is \<^verbatim>\<open>Object.prototype\<close>, unmodified.
  \<open>JBuiltin k\<close> is the value that \<^verbatim>\<open>Object.prototype\<close> holds under the name \<open>k\<close>, a built-in
  function or, under \<^verbatim>\<open>__proto__\<close>, the prototype itself; class instances are not modelled.
\<close>

type_synonym byte = "8 word"
type_synonym bytes = "byte list"

datatype jsval =
    JUndefined
  | JNull
  | JBool bool
  | JNum int
  | JStr string
  | JBytes bytes
  | JArr "jsval list"
  | JObj "(string \<times> jsval) list"
  | JBuiltin string

type_synonym jsobj = "(string \<times> jsval) list"

text \<open>The error classes of \<^verbatim>\<open>errors.ts\<close>, with the built-in errors the code throws.\<close>

datatype error =
    JoseInvalid string
  | JoseNotSupported string
  | JweInvalid string
  | JweNotSupported string
  | JwsInvalid string
  | JwsNotSupported string
  | JwsSignatureVerificationFailed string
  | TypeError string
  | RangeError string
  | GenericError string

text \<open>Truthiness (\<^verbatim>\<open>!x\<close>, \<^verbatim>\<open>x ? a : b\<close>, \<^verbatim>\<open>filter(Boolean)\<close>).\<close>

fun truthy :: "jsval \<Rightarrow> bool" where
  "truthy JUndefined = False"
| "truthy JNull = False"
| "truthy (JBool b) = b"
| "truthy (JNum n) = (n \<noteq> 0)"
| "truthy (JStr s) = (s \<noteq> [])"
| "truthy (JBytes _) = True"
| "truthy (JArr _) = True"
| "truthy (JObj _) = True"
| "truthy (JBuiltin _) = True"

text \<open>\<^verbatim>\<open>x == null\<close>: true of \<^verbatim>\<open>null\<close> and of \<^verbatim>\<open>undefined\<close>.\<close>

fun is_nullish :: "jsval \<Rightarrow> bool" where
  "is_nullish JUndefined = True"
| "is_nullish JNull = True"
| "is_nullish _ = False"

fun isPlainObject :: "jsval \<Rightarrow> bool" where
  "isPlainObject (JObj _) = True"
| "isPlainObject _ = False"

fun isUint8Array :: "jsval \<Rightarrow> bool" where
  "isUint8Array (JBytes _) = True"
| "isUint8Array _ = False"

fun is_string :: "jsval \<Rightarrow> bool" where
  "is_string (JStr _) = True"
| "is_string _ = False"

text \<open>Decimal rendering of an index, for the property names of arrays.\<close>

fun string_of_nat :: "nat \<Rightarrow> string" where
  "string_of_nat n =
     (if n < 10 then [char_of (48 + n)]
      else string_of_nat (n div 10) @ [char_of (48 + n mod 10)])"

declare string_of_nat.simps [simp del]

text \<open>
  The own enumerable properties of a value, in order: what \<^verbatim>\<open>Object.keys\<close>,
  \<^verbatim>\<open>Object.entries\<close> and object spread see. An association list stands for the object
  that \<^const>\<open>map_of\<close> reads off it: a repeated name counts once, with its first value.
\<close>

fun own_entries :: "jsval \<Rightarrow> jsobj" where
  "own_entries (JObj kvs) = AList.clearjunk kvs"
| "own_entries (JArr xs) = zip (map string_of_nat [0..<length xs]) xs"
| "own_entries (JBytes bs) =
     zip (map string_of_nat [0..<length bs]) (map (\<lambda>b. JNum (uint b)) bs)"
| "own_entries (JStr s) = zip (map string_of_nat [0..<length s]) (map (\<lambda>c. JStr [c]) s)"
| "own_entries _ = []"

definition Object_keys :: "jsval \<Rightarrow> string list" where
  "Object_keys v = map fst (own_entries v)"

text \<open>Property read \<^verbatim>\<open>o[k]\<close> on an object: \<^verbatim>\<open>undefined\<close> when \<open>k\<close> is not a property.\<close>

definition obj_get :: "jsobj \<Rightarrow> string \<Rightarrow> jsval" where
  "obj_get kvs k = (case map_of kvs k of None \<Rightarrow> JUndefined | Some v \<Rightarrow> v)"

text \<open>
  Property read \<^verbatim>\<open>v?.k\<close> / \<^verbatim>\<open>v.k\<close> under a name the code fixes (\<^verbatim>\<open>alg\<close>, \<^verbatim>\<open>enc\<close>, \<^verbatim>\<open>crit\<close>,
  \<^verbatim>\<open>zip\<close>, \<^verbatim>\<open>b64\<close>, \<^verbatim>\<open>crv\<close>, ...), none of which \<^verbatim>\<open>Object.prototype\<close> has: the own property
  of a plain object; \<^verbatim>\<open>undefined\<close> for every other value.
\<close>

fun get_prop :: "jsval \<Rightarrow> string \<Rightarrow> jsval" where
  "get_prop (JObj kvs) k = obj_get kvs k"
| "get_prop _ k = JUndefined"

text \<open>
  Property read \<^verbatim>\<open>o[k]\<close> under a name the caller chooses: the own property when the object
  has one (also when its value is \<^verbatim>\<open>undefined\<close>), otherwise what the prototype chain gives,
  the property of \<^verbatim>\<open>Object.prototype\<close> when \<open>k\<close> is one of its names.
\<close>

definition Object_prototype_names :: "string list" where
  "Object_prototype_names =
     [''constructor'', ''__defineGetter__'', ''__defineSetter__'', ''hasOwnProperty'',
      ''__lookupGetter__'', ''__lookupSetter__'', ''isPrototypeOf'', ''propertyIsEnumerable'',
      ''toString'', ''valueOf'', ''__proto__'', ''toLocaleString'']"

definition obj_read :: "jsobj \<Rightarrow> string \<Rightarrow> jsval" where
  "obj_read kvs k =
     (case map_of kvs k of
        Some v \<Rightarrow> v
      | None \<Rightarrow> if k \<in> set Object_prototype_names then JBuiltin k else JUndefined)"

fun prop_read :: "jsval \<Rightarrow> string \<Rightarrow> jsval" where
  "prop_read (JObj kvs) k = obj_read kvs k"
| "prop_read _ k = JUndefined"

text \<open>
  Object spread \<^verbatim>\<open>{ ...target, ...src }\<close>: the properties of \<open>src\<close> are written over
  \<open>target\<close>; a name already there keeps its position and takes the new value, a new
  name is appended.
\<close>

definition js_spread :: "jsobj \<Rightarrow> jsval \<Rightarrow> jsobj" where
  "js_spread target src = fold (\<lambda>(k, v). AList.update k v) (own_entries src) target"

text \<open>\<^verbatim>\<open>new Map(entries)\<close>: a later entry replaces an earlier one with the same key.\<close>

definition js_Map :: "(string \<times> 'v) list \<Rightarrow> (string \<rightharpoonup> 'v)" where
  "js_Map entries = fold (\<lambda>(k, v) m. m(k \<mapsto> v)) entries Map.empty"

text \<open>A defaulted record parameter (\<^verbatim>\<open>recognizedDefault = {}\<close>): its entries, none when omitted.\<close>

definition default_record :: "(string \<times> 'v) list option \<Rightarrow> (string \<times> 'v) list" where
  "default_record r = (case r of None \<Rightarrow> [] | Some d \<Rightarrow> d)"

section \<open>Critical header parameters (\<^verbatim>\<open>utils/validateCrit.ts\<close>)\<close>

fun is_nonempty_string :: "jsval \<Rightarrow> bool" where
  "is_nonempty_string (JStr s) = (s \<noteq> [])"
| "is_nonempty_string _ = False"

fun strings_of :: "jsval list \<Rightarrow> string list" where
  "strings_of [] = []"
| "strings_of (JStr s # xs) = s # strings_of xs"
| "strings_of (_ # xs) = strings_of xs"

text \<open>
  The body of the \<^verbatim>\<open>for (const parameter of protectedHeader.crit)\<close> loop; the first
  failing check of the first failing name is the error thrown. \<^verbatim>\<open>joseHeader[parameter]\<close> and
  \<^verbatim>\<open>protectedHeader[parameter]\<close> read under a name of the caller's, through the prototype
  chain. The loop runs only when \<^verbatim>\<open>protectedHeader.crit\<close> is an array, so the protected header
  is an object there.
\<close>

fun validateCrit_loop ::
  "(string \<Rightarrow> error) \<Rightarrow> (string \<rightharpoonup> bool) \<Rightarrow> jsval \<Rightarrow> jsobj \<Rightarrow> string list \<Rightarrow> error + unit"
where
  "validateCrit_loop Err recognized protectedHeader joseHeader [] = Inr ()"
| "validateCrit_loop Err recognized protectedHeader joseHeader (parameter # rest) =
     (if recognized parameter = None then
        Inl (Err (''\"crit\" (Critical) header parameter \"'' @ parameter @ ''\" is not recognized''))
      else if obj_read joseHeader parameter = JUndefined then
        Inl (Err (''\"crit\" (Critical) header parameter \"'' @ parameter
                  @ ''\" is missing in the JOSE header''))
      else if recognized parameter = Some True \<and> is_nullish (prop_read protectedHeader parameter) then
        Inl (Err (''\"crit\" (Critical) header parameter \"'' @ parameter
                  @ ''\" MUST be integrity protected''))
      else validateCrit_loop Err recognized protectedHeader joseHeader rest)"

definition validateCrit ::
  "(string \<Rightarrow> error) \<Rightarrow> (string \<times> bool) list option \<Rightarrow> (string \<times> bool) list option
     \<Rightarrow> jsval \<Rightarrow> jsobj \<Rightarrow> error + string set"
where
  "validateCrit Err recognizedDefault recognizedOption protectedHeader joseHeader =
     (let recognizedDefault' = default_record recognizedDefault;
          recognizedOption' = default_record recognizedOption
      in
      if obj_get joseHeader ''crit'' \<noteq> JUndefined
           \<and> get_prop protectedHeader ''crit'' = JUndefined then
        Inl (Err ''\"crit\" (Critical) Header Parameter MUST be integrity protected'')
      else if \<not> truthy protectedHeader \<or> get_prop protectedHeader ''crit'' = JUndefined then
        Inr {}
      else
        (case get_prop protectedHeader ''crit'' of
           JArr crit \<Rightarrow>
             if crit = [] \<or> list_ex (\<lambda>input. \<not> is_nonempty_string input) crit then
               Inl (Err ''\"crit\" (Critical) Header Parameter MUST be an array of non-empty strings when present'')
             else
               (let recognized = js_Map (recognizedDefault' @ recognizedOption') in
                case validateCrit_loop Err recognized protectedHeader joseHeader (strings_of crit) of
                  Inl e \<Rightarrow> Inl e
                | Inr _ \<Rightarrow> Inr (set (strings_of crit)))
         | _ \<Rightarrow>
             Inl (Err ''\"crit\" (Critical) Header Parameter MUST be an array of non-empty strings when present'')))"


section \<open>Byte and string codecs\<close>

text \<open>
  Modelled from the spec: \<^verbatim>\<open>TextEncoder.encode\<close> (a platform built-in). Strings are held
  as their UTF-8 bytes, so encoding is the byte-wise conversion.
\<close>

definition TextEncoder_encode :: "string \<Rightarrow> bytes" where
  "TextEncoder_encode s = map (\<lambda>c. of_nat (of_char c)) s"

text \<open>Modelled from the spec: \<^verbatim>\<open>TextDecoder.decode\<close>, the inverse conversion.\<close>

definition TextDecoder_decode :: "bytes \<Rightarrow> string" where
  "TextDecoder_decode bs = map (\<lambda>b. char_of (unat b)) bs"

text \<open>
  JavaScript numbers that the code inspects with \<^verbatim>\<open>Number.isInteger\<close> or shifts are
  modelled as reals (\<^verbatim>\<open>NaN\<close> and the infinities are left out). \<^verbatim>\<open>ToUint32\<close> and
  \<^verbatim>\<open>ToInt32\<close> truncate towards zero and wrap modulo \<open>2^32\<close>.
\<close>

definition Number_isInteger :: "real \<Rightarrow> bool" where
  "Number_isInteger x = (x = of_int \<lfloor>x\<rfloor>)"

definition js_ToUint32 :: "real \<Rightarrow> nat" where
  "js_ToUint32 x = nat ((if 0 \<le> x then \<lfloor>x\<rfloor> else \<lceil>x\<rceil>) mod 2 ^ 32)"

definition js_ToInt32 :: "real \<Rightarrow> int" where
  "js_ToInt32 x =
     (let n = int (js_ToUint32 x) in if 2 ^ 31 \<le> n then n - 2 ^ 32 else n)"

text \<open>\<^verbatim>\<open>x >> n\<close>: arithmetic shift of the 32-bit signed value.\<close>

definition js_shr :: "real \<Rightarrow> nat \<Rightarrow> int" where
  "js_shr x n = js_ToInt32 x div 2 ^ n"

text \<open>
  Modelled from the spec: \<^verbatim>\<open>toUint32BE\<close> of the package \<^verbatim>\<open>u8a-utils\<close>, the four bytes
  of a 32-bit unsigned value, most significant first.
\<close>

definition toUint32BE :: "real \<Rightarrow> bytes" where
  "toUint32BE x =
     (let n = js_ToUint32 x
      in [of_nat (n div 2 ^ 24), of_nat (n div 2 ^ 16), of_nat (n div 2 ^ 8), of_nat n])"

text \<open>
  Modelled from the spec: \<^verbatim>\<open>encodeBase64Url\<close> of the package \<^verbatim>\<open>u8a-utils\<close>, base64url
  (RFC 4648 section 5) without padding.
\<close>

definition b64url_alphabet :: string where
  "b64url_alphabet = ''ABCDEFGHIJKLMNOPQRSTUVWXYZabcdefghijklmnopqrstuvwxyz0123456789-_''"

definition b64url_char :: "nat \<Rightarrow> char" where
  "b64url_char n = b64url_alphabet ! (n mod 64)"

fun encodeBase64Url :: "bytes \<Rightarrow> string" where
  "encodeBase64Url [] = []"
| "encodeBase64Url [a] =
     [b64url_char (unat a div 4), b64url_char (unat a mod 4 * 16)]"
| "encodeBase64Url [a, b] =
     [b64url_char (unat a div 4), b64url_char (unat a mod 4 * 16 + unat b div 16),
      b64url_char (unat b mod 16 * 4)]"
| "encodeBase64Url (a # b # c # rest) =
     [b64url_char (unat a div 4), b64url_char (unat a mod 4 * 16 + unat b div 16),
      b64url_char (unat b mod 16 * 4 + unat c div 64), b64url_char (unat c mod 64)]
     @ encodeBase64Url rest"

text \<open>
  \<^verbatim>\<open>TypedArray.prototype.set(src, offset)\<close>: copies \<open>src\<close> into the buffer at \<open>offset\<close>;
  a source that does not fit raises \<^verbatim>\<open>RangeError\<close>.
\<close>

definition u8a_set :: "bytes \<Rightarrow> bytes \<Rightarrow> nat \<Rightarrow> error + bytes" where
  "u8a_set buf src offset =
     (if length buf < offset + length src then Inl (RangeError ''offset is out of bounds'')
      else Inr (take offset buf @ src @ drop (offset + length src) buf))"

text \<open>\<^verbatim>\<open>TypedArray.prototype.slice(0, end)\<close>: a negative \<open>end\<close> counts from the end.\<close>

definition u8a_slice0 :: "bytes \<Rightarrow> int \<Rightarrow> bytes" where
  "u8a_slice0 buf e =
     (if e < 0 then take (nat (int (length buf) + e)) buf else take (nat e) buf)"

section \<open>Concat KDF and OtherInfo (\<^verbatim>\<open>jwe/key-management/ecdhes\<close>)\<close>

text \<open>
  Modelled from the spec: \<^verbatim>\<open>isEnc\<close> of the package \<^verbatim>\<open>aes-universal\<close>, the six supported
  content-encryption algorithm names.
\<close>

definition isEnc :: "string \<Rightarrow> bool" where
  "isEnc enc = (enc \<in> set [''A128GCM'', ''A192GCM'', ''A256GCM'',
                             ''A128CBC-HS256'', ''A192CBC-HS384'', ''A256CBC-HS512''])"

definition cekBitLengthByEnc :: "string \<Rightarrow> error + nat" where
  "cekBitLengthByEnc enc =
     (if enc = ''A128GCM'' then Inr 128
      else if enc = ''A192GCM'' then Inr 192
      else if enc = ''A256GCM'' \<or> enc = ''A128CBC-HS256'' then Inr 256
      else if enc = ''A192CBC-HS384'' then Inr 384
      else if enc = ''A256CBC-HS512'' then Inr 512
      else Inl (GenericError (''Unsupported JWE Encryption Algorithm: '' @ enc)))"

definition lengthAndInput :: "bytes \<Rightarrow> error + bytes" where
  "lengthAndInput input =
     (if length input > 0xffffffff then Inl (RangeError ''Input too large'')
      else Inr (toUint32BE (real (length input)) @ input))"

definition buildKdfOtherInfo ::
  "string \<Rightarrow> bytes option \<Rightarrow> bytes option \<Rightarrow> real \<Rightarrow> error + bytes"
where
  "buildKdfOtherInfo algorithm apu_opt apv_opt keyBitLength =
     (let apu = (case apu_opt of None \<Rightarrow> [] | Some a \<Rightarrow> a);
          apv = (case apv_opt of None \<Rightarrow> [] | Some a \<Rightarrow> a)
      in
      if length apu > 32 \<or> length apv > 32 then
        Inl (JweInvalid (''APU/APV must be '' @ [CHR 0xE2, CHR 0x89, CHR 0xA4] @ ''32 bytes''))
      else if \<not> isEnc algorithm then
        Inl (JweNotSupported ''\"enc\" (Content Encryption Algorithm) is not supported'')
      else
        (case lengthAndInput (TextEncoder_encode algorithm) of
           Inl e \<Rightarrow> Inl e
         | Inr algorithmID \<Rightarrow>
             (case lengthAndInput apu of
                Inl e \<Rightarrow> Inl e
              | Inr partyUInfo \<Rightarrow>
                  (case lengthAndInput apv of
                     Inl e \<Rightarrow> Inl e
                   | Inr partyVInfo \<Rightarrow>
                       Inr (algorithmID @ partyUInfo @ partyVInfo @ toUint32BE keyBitLength)))))"

text \<open>
  One round of the loop of \<^verbatim>\<open>concatKdf\<close>: the hash input is assembled in a fresh buffer
  of \<open>4 + |Z| + |OtherInfo|\<close> zero bytes, and the digest is written into \<open>res\<close> at
  \<open>iter * 32\<close>. The hash function of \<^verbatim>\<open>@noble/hashes\<close> is a parameter.
\<close>

definition concatKdf_round ::
  "(bytes \<Rightarrow> bytes) \<Rightarrow> bytes \<Rightarrow> bytes \<Rightarrow> nat \<Rightarrow> bytes \<Rightarrow> error + bytes"
where
  "concatKdf_round sha256 sharedSecret otherInfo iter res =
     (let buf0 = replicate (4 + length sharedSecret + length otherInfo) (0 :: byte) in
      case u8a_set buf0 (toUint32BE (real (iter + 1))) 0 of
        Inl e \<Rightarrow> Inl e
      | Inr buf1 \<Rightarrow>
          (case u8a_set buf1 sharedSecret 4 of
             Inl e \<Rightarrow> Inl e
           | Inr buf2 \<Rightarrow>
               (case u8a_set buf2 otherInfo (4 + length sharedSecret) of
                  Inl e \<Rightarrow> Inl e
                | Inr buf \<Rightarrow> u8a_set res (sha256 buf) (iter * 32))))"

function concatKdf_loop ::
  "(bytes \<Rightarrow> bytes) \<Rightarrow> bytes \<Rightarrow> bytes \<Rightarrow> nat \<Rightarrow> nat \<Rightarrow> bytes \<Rightarrow> error + bytes"
where
  "concatKdf_loop sha256 sharedSecret otherInfo iterations iter res =
     (if iter < iterations then
        (case concatKdf_round sha256 sharedSecret otherInfo iter res of
           Inl e \<Rightarrow> Inl e
         | Inr res' \<Rightarrow> concatKdf_loop sha256 sharedSecret otherInfo iterations (iter + 1) res')
      else Inr res)"
  by pat_completeness auto
termination
  by (relation "measure (\<lambda>(sha256, sharedSecret, otherInfo, iterations, iter, res). iterations - iter)")
     auto

declare concatKdf_loop.simps [simp del]

definition concatKdf :: "(bytes \<Rightarrow> bytes) \<Rightarrow> bytes \<Rightarrow> real \<Rightarrow> bytes \<Rightarrow> error + bytes" where
  "concatKdf sha256 sharedSecret keyBitLength otherInfo =
     (if \<not> Number_isInteger keyBitLength \<or> keyBitLength \<le> 0 then
        Inl (RangeError ''keyBitLength must be a positive integer'')
      else
        (let iterations = \<lceil>real_of_int (js_shr keyBitLength 3) / 32\<rceil> in
         if iterations < 0 then Inl (RangeError ''Invalid typed array length'')
         else
           (case concatKdf_loop sha256 sharedSecret otherInfo (nat iterations) 0
                   (replicate (nat iterations * 32) 0) of
              Inl e \<Rightarrow> Inl e
            | Inr res \<Rightarrow> Inr (u8a_slice0 res (js_shr keyBitLength 3)))))"


section \<open>Header composition\<close>

text \<open>\<^verbatim>\<open>utils/areDisjoint.ts\<close>: the loop over \<open>sources[1..]\<close>, \<open>acc\<close> the names seen so far.\<close>

fun areDisjoint_loop :: "string set \<Rightarrow> jsval list \<Rightarrow> bool" where
  "areDisjoint_loop acc [] = True"
| "areDisjoint_loop acc (source # rest) =
     (let parameters = Object_keys source in
      if list_ex (\<lambda>parameter. parameter \<in> acc) parameters then False
      else areDisjoint_loop (acc \<union> set parameters) rest)"

definition areDisjoint :: "jsval list \<Rightarrow> bool" where
  "areDisjoint headers =
     (let sources = filter truthy headers in
      if length sources = 0 \<or> length sources = 1 then True
      else areDisjoint_loop (set (Object_keys (hd sources))) (tl sources))"

definition verifyJweHeaders :: "jsval \<Rightarrow> jsval \<Rightarrow> jsval \<Rightarrow> error + unit" where
  "verifyJweHeaders protectedHeader sharedUnprotectedHeader unprotectedHeader =
     (if \<not> truthy protectedHeader then
        Inl (JweInvalid ''JWE Protected Header is missing'')
      else if \<not> isPlainObject protectedHeader then
        Inl (JweInvalid ''JWE Protected Header is not a plain object'')
      else if length (Object_keys protectedHeader) = 0 then
        Inl (JweInvalid ''JWE Protected Header is empty'')
      else if truthy sharedUnprotectedHeader \<and> \<not> isPlainObject sharedUnprotectedHeader then
        Inl (JweInvalid ''JWE Shared Unprotected Header is not a plain object'')
      else if truthy unprotectedHeader \<and> \<not> isPlainObject unprotectedHeader then
        Inl (JweInvalid ''JWE Per-Recipient Unprotected Header is not a plain object'')
      else if \<not> areDisjoint [protectedHeader, sharedUnprotectedHeader, unprotectedHeader] then
        Inl (JweInvalid ''JWE Protected, JWE Shared Unprotected and JWE Per-Recipient Header Parameter names must be disjoint'')
      else Inr ())"

definition mergeJweHeaders :: "jsval \<Rightarrow> jsval \<Rightarrow> jsval \<Rightarrow> error + jsobj" where
  "mergeJweHeaders protectedHeader sharedUnprotectedHeader unprotectedHeader =
     (case verifyJweHeaders protectedHeader sharedUnprotectedHeader unprotectedHeader of
        Inl e \<Rightarrow> Inl e
      | Inr _ \<Rightarrow>
          (let joseHeader =
                 js_spread (js_spread (js_spread [] unprotectedHeader) sharedUnprotectedHeader)
                   protectedHeader
           in if obj_get joseHeader ''zip'' \<noteq> JUndefined then
                Inl (JweNotSupported ''JWE \"zip\" (Compression Algorithm) Header Parameter is not supported.'')
              else Inr joseHeader))"

definition verifyJwsHeaders :: "jsval \<Rightarrow> jsval \<Rightarrow> error + unit" where
  "verifyJwsHeaders protectedHeader unprotectedHeader =
     (if \<not> truthy protectedHeader then
        Inl (JwsInvalid ''JWS Protected Header is missing'')
      else if \<not> isPlainObject protectedHeader then
        Inl (JwsInvalid ''JWS Protected Header is not a plain object'')
      else if length (Object_keys protectedHeader) = 0 then
        Inl (JwsInvalid ''JWS Protected Header is empty'')
      else if truthy unprotectedHeader \<and> \<not> isPlainObject unprotectedHeader then
        Inl (JwsInvalid ''JWS Unprotected Header is not a plain object'')
      else if \<not> areDisjoint [protectedHeader, unprotectedHeader] then
        Inl (JwsInvalid ''JWS Protected and JWS Unprotected Header Parameter names must be disjoint'')
      else Inr ())"

definition mergeJwsHeaders :: "jsval \<Rightarrow> jsval \<Rightarrow> error + jsobj" where
  "mergeJwsHeaders protectedHeader unprotectedHeader =
     (case verifyJwsHeaders protectedHeader unprotectedHeader of
        Inl e \<Rightarrow> Inl e
      | Inr _ \<Rightarrow> Inr (js_spread (js_spread [] unprotectedHeader) protectedHeader))"

section \<open>Algorithm and party-info validation\<close>

definition isJweAlg :: "jsval \<Rightarrow> bool" where
  "isJweAlg alg = (alg = JStr ''ECDH-ES'')"

definition validateJweAlg :: "jsval \<Rightarrow> error + string" where
  "validateJweAlg alg =
     (if is_nullish alg then Inl (JweInvalid ''\"alg\" (Key Management Algorithm) is invalid'')
      else if alg = JStr [] then Inl (JweInvalid ''\"alg\" (Key Management Algorithm) is invalid'')
      else
        (case alg of
           JStr a \<Rightarrow>
             if \<not> isJweAlg alg then
               Inl (JweNotSupported ''The specified \"alg\" (Key Management Algorithm) is not supported'')
             else Inr a
         | _ \<Rightarrow> Inl (JweInvalid ''\"alg\" (Key Management Algorithm) is invalid'')))"

definition validateJweEnc :: "jsval \<Rightarrow> error + string" where
  "validateJweEnc enc =
     (if is_nullish enc then Inl (JweInvalid ''\"enc\" (Content Encryption Algorithm) is invalid'')
      else if enc = JStr [] then Inl (JweInvalid ''\"enc\" (Content Encryption Algorithm) is invalid'')
      else
        (case enc of
           JStr a \<Rightarrow>
             if \<not> isEnc a then
               Inl (JweNotSupported ''The specified \"enc\" (Content Encryption Algorithm) is not supported'')
             else Inr a
         | _ \<Rightarrow> Inl (JweInvalid ''\"enc\" (Content Encryption Algorithm) is invalid'')))"

definition JWS_ALGS :: "string list" where
  "JWS_ALGS = [''ES256'', ''ES384'', ''ES512'', ''ES256K'', ''EdDSA'']"

definition isJwsAlg :: "jsval \<Rightarrow> bool" where
  "isJwsAlg alg = (alg \<in> set (map JStr JWS_ALGS))"

definition validateJwsAlg :: "jsval \<Rightarrow> string \<Rightarrow> error + string" where
  "validateJwsAlg alg expectedAlg =
     (if is_nullish alg then Inl (JwsInvalid ''\"alg\" (Algorithm) is missing'')
      else if alg = JStr [] then Inl (JwsInvalid ''\"alg\" (Algorithm) is empty'')
      else
        (case alg of
           JStr a \<Rightarrow>
             if \<not> isJwsAlg alg then
               Inl (JwsNotSupported ''The specified \"alg\" (Algorithm) is not supported'')
             else if a \<noteq> expectedAlg then
               Inl (JwsInvalid ''\"alg\" (Algorithm) does not match JWK parameters'')
             else Inr a
         | _ \<Rightarrow> Inl (JwsInvalid ''\"alg\" (Algorithm) must be a string'')))"

text \<open>\<^verbatim>\<open>jwe/utils/validateJweApi.ts\<close>; \<open>label\<close> is the quoted name of the parameter.\<close>

definition validatePartyInfo :: "jsval \<Rightarrow> string \<Rightarrow> error + bytes option" where
  "validatePartyInfo v label =
     (if \<not> truthy v then Inr None
      else
        (case v of
           JBytes valueU8a \<Rightarrow>
             if length valueU8a > 32 then
               Inl (JweInvalid (label @ '' must be less than or equal to 32 bytes''))
             else Inr (Some valueU8a)
         | _ \<Rightarrow> Inl (JweInvalid (label @ '' must be a Uint8Array''))))"

definition validateJweApu :: "jsval \<Rightarrow> error + bytes option" where
  "validateJweApu apu = validatePartyInfo apu ''\"apu (Agreement PartyUInfo)\"''"

definition validateJweApv :: "jsval \<Rightarrow> error + bytes option" where
  "validateJweApv apv = validatePartyInfo apv ''\"apv (Agreement PartyVInfo)\"''"

text \<open>
  \<^verbatim>\<open>utils/decodeBase64Url.ts\<close>. The decoder of \<^verbatim>\<open>u8a-utils\<close> is a parameter; \<open>None\<close>
  stands for its throwing.
\<close>

definition decodeBase64Url ::
  "(string \<Rightarrow> bytes option) \<Rightarrow> jsval \<Rightarrow> string \<Rightarrow> bool \<Rightarrow> error + bytes option"
where
  "decodeBase64Url decodeB64U b64u label required =
     (if is_nullish b64u then
        (if required then Inl (JoseInvalid (''\"'' @ label @ ''\" is missing'')) else Inr None)
      else
        (case b64u of
           JStr s \<Rightarrow>
             (case decodeB64U s of
                None \<Rightarrow> Inl (JoseInvalid (''Failed to base64url decode \"'' @ label @ ''\"''))
              | Some bs \<Rightarrow> Inr (Some bs))
         | _ \<Rightarrow> Inl (JoseInvalid (''\"'' @ label @ ''\" must be a string''))))"

definition decodeOptionalBase64Url ::
  "(string \<Rightarrow> bytes option) \<Rightarrow> jsval \<Rightarrow> string \<Rightarrow> error + bytes option"
where
  "decodeOptionalBase64Url decodeB64U b64u label = decodeBase64Url decodeB64U b64u label False"

text \<open>
  \<^verbatim>\<open>decodeRequiredBase64Url\<close> returns \<^verbatim>\<open>result!\<close>; with \<open>required\<close> set the result is
  never \<^verbatim>\<open>undefined\<close>, and the model returns the empty sequence in that unreachable case.
\<close>

definition decodeRequiredBase64Url ::
  "(string \<Rightarrow> bytes option) \<Rightarrow> jsval \<Rightarrow> string \<Rightarrow> error + bytes"
where
  "decodeRequiredBase64Url decodeB64U b64u label =
     (case decodeBase64Url decodeB64U b64u label True of
        Inl e \<Rightarrow> Inl e
      | Inr None \<Rightarrow> Inr []
      | Inr (Some bs) \<Rightarrow> Inr bs)"

definition keyLengthByCrv :: "string \<Rightarrow> error + nat" where
  "keyLengthByCrv crv =
     (if crv = ''P-256'' then Inr 32
      else if crv = ''P-384'' then Inr 48
      else if crv = ''P-521'' then Inr 66
      else if crv = ''secp256k1'' then Inr 32
      else if crv = ''Ed25519'' then Inr 32
      else if crv = ''X25519'' then Inr 32
      else Inl (JoseNotSupported (''The specified \"crv\" (Curve) is not supported: '' @ crv)))"

definition validateKeyLengthByCrv :: "bytes \<Rightarrow> string \<Rightarrow> string \<Rightarrow> error + unit" where
  "validateKeyLengthByCrv key crv label =
     (case keyLengthByCrv crv of
        Inl e \<Rightarrow> Inl e
      | Inr n \<Rightarrow>
          if length key \<noteq> n then Inl (JoseInvalid (''\"'' @ label @ ''\" is invalid''))
          else Inr ())"

definition isJweCrv :: "jsval \<Rightarrow> bool" where
  "isJweCrv crv =
     (crv = JStr ''P-256'' \<or> crv = JStr ''P-384'' \<or> crv = JStr ''P-521'' \<or> crv = JStr ''X25519'')"

definition validateJweEpk :: "(string \<Rightarrow> bytes option) \<Rightarrow> jsval \<Rightarrow> error + jsval" where
  "validateJweEpk decodeB64U epk =
     (if is_nullish epk then Inl (JweInvalid ''\"epk\" (Ephemeral Public Key) is missing'')
      else if \<not> isPlainObject epk then
        Inl (JweInvalid ''\"epk\" (Ephemeral Public Key) is not a plain object'')
      else if get_prop epk ''kty'' \<noteq> JStr ''EC'' \<and> get_prop epk ''kty'' \<noteq> JStr ''OKP'' then
        Inl (JweInvalid ''The kty of \"epk\" (Ephemeral Public Key) is invalid'')
      else
        (case get_prop epk ''crv'' of
           JStr crv \<Rightarrow>
             if \<not> isJweCrv (JStr crv) then
               Inl (JweInvalid ''The crv of \"epk\" (Ephemeral Public Key) is invalid'')
             else
               (case decodeRequiredBase64Url decodeB64U (get_prop epk ''x'')
                       ''The x of \"epk\" (Ephemeral Public Key)'' of
                  Inl e \<Rightarrow> Inl e
                | Inr x \<Rightarrow>
                    (case validateKeyLengthByCrv x crv ''The x of \"epk\" (Ephemeral Public Key)'' of
                       Inl e \<Rightarrow> Inl e
                     | Inr _ \<Rightarrow>
                         if get_prop epk ''kty'' = JStr ''EC'' then
                           (case decodeRequiredBase64Url decodeB64U (get_prop epk ''y'')
                                   ''The y of \"epk\" (Ephemeral Public Key)'' of
                              Inl e \<Rightarrow> Inl e
                            | Inr y \<Rightarrow>
                                (case validateKeyLengthByCrv y crv
                                        ''The y of \"epk\" (Ephemeral Public Key)'' of
                                   Inl e \<Rightarrow> Inl e
                                 | Inr _ \<Rightarrow> Inr epk))
                         else Inr epk))
         | _ \<Rightarrow> Inl (JweInvalid ''The crv of \"epk\" (Ephemeral Public Key) is invalid'')))"


section \<open>Providers and their calls\<close>

text \<open>
  The external collaborators are parameters. A method that may throw returns an option,
  \<open>None\<close> standing for an exception of the provider; the random draws of one run
  (the ephemeral key, \<^verbatim>\<open>Math.random()\<close>) are fields too.
\<close>

record EcdhCurve =
  ecdh_randomPrivateKey :: "bytes option"
  ecdh_getPublicKey :: "bytes \<Rightarrow> bytes option"
  ecdh_toJwkPublicKey :: "bytes \<Rightarrow> jsval option"
  ecdh_toRawPublicKey :: "jsval \<Rightarrow> bytes option"
  ecdh_toRawPrivateKey :: "jsval \<Rightarrow> bytes option"
  ecdh_getSharedSecret :: "bytes \<Rightarrow> bytes \<Rightarrow> bytes option"
  ecdh_randomBytes :: "nat \<Rightarrow> bytes"

record SignatureCurve =
  sig_toRawPublicKey :: "jsval \<Rightarrow> bytes option"
  sig_toRawPrivateKey :: "jsval \<Rightarrow> bytes option"
  sig_sign :: "bytes \<Rightarrow> bytes \<Rightarrow> bytes option"
  sig_verify :: "bytes \<Rightarrow> bytes \<Rightarrow> bytes \<Rightarrow> bool option"
  sig_signatureAlgorithmName :: string

record AesCipher =
  aes_encrypt :: "string \<Rightarrow> bytes \<Rightarrow> bytes \<Rightarrow> bytes \<Rightarrow> (bytes \<times> bytes \<times> bytes) option"
  aes_decrypt :: "string \<Rightarrow> bytes \<Rightarrow> bytes \<Rightarrow> bytes \<Rightarrow> bytes \<Rightarrow> bytes \<Rightarrow> bytes option"
  aes_randomBytes :: "nat \<Rightarrow> bytes"

record platform =
  createEcdhCurve :: "jsval \<Rightarrow> (nat \<Rightarrow> bytes) \<Rightarrow> EcdhCurve option"
  createSignatureCurve :: "jsval \<Rightarrow> (nat \<Rightarrow> bytes) \<Rightarrow> SignatureCurve option"
  sha256 :: "bytes \<Rightarrow> bytes"
  JSON_stringify :: "jsval \<Rightarrow> string"
  JSON_parse :: "string \<Rightarrow> jsval option"
  decodeB64U :: "string \<Rightarrow> bytes option"
  Math_random :: real

text \<open>
  What a run does besides returning: the calls it makes to the curve and AEAD providers,
  with their arguments, and the delay it sleeps. Console output is left out.
\<close>

datatype event =
    Call_createEcdhCurve jsval
  | Call_toRawPublicKey jsval
  | Call_toRawPrivateKey jsval
  | Call_randomPrivateKey
  | Call_getPublicKey bytes
  | Call_toJwkPublicKey bytes
  | Call_getSharedSecret bytes bytes
  | Call_randomBytes nat
  | Call_aes_encrypt string bytes bytes bytes
  | Call_aes_decrypt string bytes bytes bytes bytes bytes
  | Call_createSignatureCurve jsval
  | Call_sign bytes bytes
  | Call_verify bytes bytes bytes
  | Sleep real

type_synonym 'a comp = "event list \<times> (error + 'a)"

definition ret :: "'a \<Rightarrow> 'a comp" where
  "ret x = ([], Inr x)"

definition throw :: "error \<Rightarrow> 'a comp" where
  "throw e = ([], Inl e)"

definition lift :: "error + 'a \<Rightarrow> 'a comp" where
  "lift r = ([], r)"

definition bnd :: "'a comp \<Rightarrow> ('a \<Rightarrow> 'b comp) \<Rightarrow> 'b comp" where
  "bnd m f =
     (case m of
        (es, Inl e) \<Rightarrow> (es, Inl e)
      | (es, Inr x) \<Rightarrow> (case f x of (es', r) \<Rightarrow> (es @ es', r)))"

text \<open>\<^verbatim>\<open>try { m } catch (error) { h(error) }\<close>\<close>

definition try_catch :: "'a comp \<Rightarrow> (error \<Rightarrow> 'a comp) \<Rightarrow> 'a comp" where
  "try_catch m h =
     (case m of
        (es, Inl e) \<Rightarrow> (case h e of (es', r) \<Rightarrow> (es @ es', r))
      | (es, Inr x) \<Rightarrow> (es, Inr x))"

text \<open>A provider call: the event is recorded, a provider exception becomes an error.\<close>

definition call :: "event \<Rightarrow> 'a option \<Rightarrow> 'a comp" where
  "call ev r =
     ([ev], case r of None \<Rightarrow> Inl (GenericError ''provider'') | Some x \<Rightarrow> Inr x)"

definition sleep :: "real \<Rightarrow> unit comp" where
  "sleep ms = ([Sleep ms], Inr ())"

section \<open>ECDH-ES key agreement (\<^verbatim>\<open>jwe/key-management\<close>)\<close>

definition ecdhesDeriveEncryptionKey ::
  "platform \<Rightarrow> string \<Rightarrow> EcdhCurve \<Rightarrow> bytes \<Rightarrow> jsval \<Rightarrow> (bytes \<times> bytes option \<times> jsobj) comp"
where
  "ecdhesDeriveEncryptionKey pf enc curve yourPublicKey providedParameters =
     bnd (call Call_randomPrivateKey (ecdh_randomPrivateKey curve)) (\<lambda>myPrivateKey.
     bnd (call (Call_getPublicKey myPrivateKey) (ecdh_getPublicKey curve myPrivateKey)) (\<lambda>myPublicKey.
     bnd (call (Call_toJwkPublicKey myPublicKey) (ecdh_toJwkPublicKey curve myPublicKey)) (\<lambda>epk.
     bnd (lift (validateJweApu (get_prop providedParameters ''apu''))) (\<lambda>apu.
     bnd (lift (validateJweApv (get_prop providedParameters ''apv''))) (\<lambda>apv.
       let parameters0 = [(''epk'', epk)];
           parameters1 = (case apu of None \<Rightarrow> parameters0
                          | Some a \<Rightarrow> AList.update ''apu'' (JStr (encodeBase64Url a)) parameters0);
           parameters = (case apv of None \<Rightarrow> parameters1
                          | Some a \<Rightarrow> AList.update ''apv'' (JStr (encodeBase64Url a)) parameters1)
       in
     bnd (lift (validateJweEnc (JStr enc))) (\<lambda>enc'.
     bnd (lift (cekBitLengthByEnc enc')) (\<lambda>keyBitLength.
     bnd (call (Call_getSharedSecret myPrivateKey yourPublicKey)
            (ecdh_getSharedSecret curve myPrivateKey yourPublicKey)) (\<lambda>sharedSecret.
     bnd (lift (buildKdfOtherInfo enc' apu apv (real keyBitLength))) (\<lambda>otherInfo.
     bnd (lift (concatKdf (sha256 pf) sharedSecret (real keyBitLength) otherInfo)) (\<lambda>cek.
       ret (cek, None, parameters)))))))))))"

definition deriveEncryptionKey ::
  "platform \<Rightarrow> string \<Rightarrow> string \<Rightarrow> EcdhCurve \<Rightarrow> bytes \<Rightarrow> jsval
     \<Rightarrow> (bytes \<times> bytes option \<times> jsobj) comp"
where
  "deriveEncryptionKey pf alg enc curve yourPublicKey providedParameters =
     (if alg = ''ECDH-ES'' then
        ecdhesDeriveEncryptionKey pf enc curve yourPublicKey providedParameters
      else throw (JweNotSupported ''Unsupported JWE Key Management Algorithm''))"

definition ecdhesDeriveDecryptionKey ::
  "platform \<Rightarrow> string \<Rightarrow> EcdhCurve \<Rightarrow> bytes \<Rightarrow> jsval \<Rightarrow> bytes comp"
where
  "ecdhesDeriveDecryptionKey pf enc curve myPrivateKey protectedHeader =
     bnd (lift (validateJweEpk (decodeB64U pf) (get_prop protectedHeader ''epk''))) (\<lambda>epk.
     bnd (call (Call_toRawPublicKey epk) (ecdh_toRawPublicKey curve epk)) (\<lambda>yourPublicKey.
     bnd (lift (decodeOptionalBase64Url (decodeB64U pf) (get_prop protectedHeader ''apu'')
                  ''apu (Agreement PartyUInfo)'')) (\<lambda>apu.
     bnd (lift (decodeOptionalBase64Url (decodeB64U pf) (get_prop protectedHeader ''apv'')
                  ''apv (Agreement PartyVInfo)'')) (\<lambda>apv.
     bnd (lift (case apu of None \<Rightarrow> Inr None | Some a \<Rightarrow> validateJweApu (JBytes a))) (\<lambda>_.
     bnd (lift (case apv of None \<Rightarrow> Inr None | Some a \<Rightarrow> validateJweApv (JBytes a))) (\<lambda>_.
     bnd (lift (validateJweEnc (JStr enc))) (\<lambda>enc'.
     bnd (lift (cekBitLengthByEnc enc')) (\<lambda>keyBitLength.
     bnd (call (Call_getSharedSecret myPrivateKey yourPublicKey)
            (ecdh_getSharedSecret curve myPrivateKey yourPublicKey)) (\<lambda>sharedSecret.
     bnd (lift (buildKdfOtherInfo enc' apu apv (real keyBitLength))) (\<lambda>otherInfo.
       lift (concatKdf (sha256 pf) sharedSecret (real keyBitLength) otherInfo)))))))))))"

definition deriveDecryptionKey ::
  "platform \<Rightarrow> string \<Rightarrow> string \<Rightarrow> EcdhCurve \<Rightarrow> bytes \<Rightarrow> bytes option \<Rightarrow> jsval \<Rightarrow> bytes comp"
where
  "deriveDecryptionKey pf alg enc curve myPrivateKey encryptedKey protectedHeader =
     (if alg = ''ECDH-ES'' then
        ecdhesDeriveDecryptionKey pf enc curve myPrivateKey protectedHeader
      else throw (JweNotSupported ''Unsupported JWE key management algorithm''))"

section \<open>Timing mitigation (RFC 7516 section 11.5)\<close>

definition generateMitigatedCek :: "platform \<Rightarrow> EcdhCurve \<Rightarrow> string \<Rightarrow> bytes comp" where
  "generateMitigatedCek pf curve enc =
     bnd (sleep (200 + Math_random pf * 300)) (\<lambda>_.
     bnd (lift (cekBitLengthByEnc enc)) (\<lambda>cekBitLength.
       let n = nat (js_shr (real cekBitLength) 3)
       in bnd (call (Call_randomBytes n) (Some (ecdh_randomBytes curve n))) ret))"

definition deriveDecryptionKeyWithMitigation ::
  "platform \<Rightarrow> string \<Rightarrow> string \<Rightarrow> EcdhCurve \<Rightarrow> bytes \<Rightarrow> bytes option \<Rightarrow> jsval \<Rightarrow> bytes comp"
where
  "deriveDecryptionKeyWithMitigation pf alg enc curve myPrivateKey encryptedKey protectedHeader =
     try_catch (deriveDecryptionKey pf alg enc curve myPrivateKey encryptedKey protectedHeader)
       (\<lambda>err. generateMitigatedCek pf curve enc)"


section \<open>JWE flattened encryption (\<^verbatim>\<open>jwe/flattened/FlattenedEncrypter.ts\<close>)\<close>

definition encodeBase64UrlHeader :: "platform \<Rightarrow> jsval \<Rightarrow> string" where
  "encodeBase64UrlHeader pf header =
     (if \<not> truthy header then []
      else encodeBase64Url (TextEncoder_encode (JSON_stringify pf header)))"

text \<open>
  \<^verbatim>\<open>encodeAesAad\<close>: the test \<^verbatim>\<open>aadB64U ? ... : ...\<close> is on the truthiness of a string,
  so the empty string takes the branch of \<^verbatim>\<open>undefined\<close>.
\<close>

definition encodeAesAad :: "string \<Rightarrow> string option \<Rightarrow> bytes" where
  "encodeAesAad protectedHeaderB64U aadB64U =
     (let aadString =
            (case aadB64U of
               None \<Rightarrow> protectedHeaderB64U
             | Some a \<Rightarrow> if a \<noteq> [] then protectedHeaderB64U @ ''.'' @ a else protectedHeaderB64U)
      in TextEncoder_encode aadString)"

text \<open>
  The private fields of the builder. Headers and key-management parameters are checked
  at run time, so they are arbitrary values (\<^verbatim>\<open>undefined\<close> when unset); the additional
  authenticated data is used unchecked, at its declared type.
\<close>

record FlattenedEncrypter =
  fe_aes :: AesCipher
  fe_protectedHeader :: jsval
  fe_sharedUnprotectedHeader :: jsval
  fe_unprotectedHeader :: jsval
  fe_aad :: "bytes option"
  fe_keyManagementParameters :: jsval

definition new_FlattenedEncrypter :: "AesCipher \<Rightarrow> FlattenedEncrypter" where
  "new_FlattenedEncrypter aes =
     \<lparr>fe_aes = aes, fe_protectedHeader = JUndefined, fe_sharedUnprotectedHeader = JUndefined,
      fe_unprotectedHeader = JUndefined, fe_aad = None, fe_keyManagementParameters = JUndefined\<rparr>"

definition FlattenedEncrypter_keyManagementParameters :: "FlattenedEncrypter \<Rightarrow> jsval \<Rightarrow> error + FlattenedEncrypter" where
  "FlattenedEncrypter_keyManagementParameters this parameters =
     (if truthy (fe_keyManagementParameters this) then
        Inl (JweInvalid ''keyManagementParameters can only be called once'')
      else Inr (this\<lparr>fe_keyManagementParameters := parameters\<rparr>))"

definition FlattenedEncrypter_protectedHeader :: "FlattenedEncrypter \<Rightarrow> jsval \<Rightarrow> error + FlattenedEncrypter" where
  "FlattenedEncrypter_protectedHeader this h =
     (if truthy (fe_protectedHeader this) then
        Inl (JweInvalid ''protectedHeader can only be called once'')
      else Inr (this\<lparr>fe_protectedHeader := h\<rparr>))"

definition FlattenedEncrypter_sharedUnprotectedHeader :: "FlattenedEncrypter \<Rightarrow> jsval \<Rightarrow> error + FlattenedEncrypter" where
  "FlattenedEncrypter_sharedUnprotectedHeader this h =
     (if truthy (fe_sharedUnprotectedHeader this) then
        Inl (JweInvalid ''sharedUnprotectedHeader can only be called once'')
      else Inr (this\<lparr>fe_sharedUnprotectedHeader := h\<rparr>))"

definition FlattenedEncrypter_unprotectedHeader :: "FlattenedEncrypter \<Rightarrow> jsval \<Rightarrow> error + FlattenedEncrypter" where
  "FlattenedEncrypter_unprotectedHeader this h =
     (if truthy (fe_unprotectedHeader this) then
        Inl (JweInvalid ''unprotectedHeader can only be called once'')
      else Inr (this\<lparr>fe_unprotectedHeader := h\<rparr>))"

definition FlattenedEncrypter_additionalAuthenticatedData :: "FlattenedEncrypter \<Rightarrow> bytes \<Rightarrow> FlattenedEncrypter" where
  "FlattenedEncrypter_additionalAuthenticatedData this aad = this\<lparr>fe_aad := Some aad\<rparr>"

definition updateProtectedHeader :: "FlattenedEncrypter \<Rightarrow> jsval \<Rightarrow> error + FlattenedEncrypter" where
  "updateProtectedHeader this parameters =
     (if truthy parameters then
        (if \<not> truthy (fe_protectedHeader this) then FlattenedEncrypter_protectedHeader this parameters
         else Inr (this\<lparr>fe_protectedHeader :=
                          JObj (js_spread (js_spread [] (fe_protectedHeader this)) parameters)\<rparr>))
      else Inr this)"

record FlattenedJwe =
  jwe_ciphertext :: string
  jwe_iv :: string
  jwe_tag :: string
  jwe_protected :: string
  jwe_encrypted_key :: "string option"
  jwe_aad :: "string option"
  jwe_unprotected :: "jsval option"
  jwe_header :: "jsval option"

record EncryptOptions =
  eo_crit :: "(string \<times> bool) list option"

definition ensureUint8Array :: "jsval \<Rightarrow> bytes" where
  "ensureUint8Array v = (case v of JBytes bs \<Rightarrow> bs | _ \<Rightarrow> [])"

text \<open>
  The \<^verbatim>\<open>try\<close> block of \<^verbatim>\<open>encrypt\<close>. On success it yields the builder as the run leaves
  it (its protected header extended) with the flattened JWE.
\<close>

definition encrypt_body ::
  "platform \<Rightarrow> FlattenedEncrypter \<Rightarrow> jsval \<Rightarrow> jsval \<Rightarrow> EncryptOptions option
     \<Rightarrow> (FlattenedEncrypter \<times> FlattenedJwe) comp"
where
  "encrypt_body pf this plaintext0 yourJwkPublicKey options =
     (let plaintext = ensureUint8Array plaintext0 in
     bnd (call (Call_createEcdhCurve (get_prop yourJwkPublicKey ''crv''))
            (createEcdhCurve pf (get_prop yourJwkPublicKey ''crv'') (aes_randomBytes (fe_aes this))))
       (\<lambda>ecdhCurve.
     bnd (call (Call_toRawPublicKey yourJwkPublicKey) (ecdh_toRawPublicKey ecdhCurve yourJwkPublicKey))
       (\<lambda>yourPublicKey.
     bnd (lift (mergeJweHeaders (fe_protectedHeader this) (fe_sharedUnprotectedHeader this)
                  (fe_unprotectedHeader this))) (\<lambda>joseHeader.
     bnd (lift (validateCrit JweInvalid None (case options of None \<Rightarrow> None | Some opts \<Rightarrow> eo_crit opts)
                  (fe_protectedHeader this) joseHeader)) (\<lambda>_.
     bnd (lift (validateJweAlg (get_prop (fe_protectedHeader this) ''alg''))) (\<lambda>alg.
     bnd (lift (validateJweEnc (get_prop (fe_protectedHeader this) ''enc''))) (\<lambda>enc.
     bnd (deriveEncryptionKey pf alg enc ecdhCurve yourPublicKey (fe_keyManagementParameters this))
       (\<lambda>(cek, encryptedKey, parameters).
     bnd (lift (updateProtectedHeader this (JObj parameters))) (\<lambda>this'.
       let protectedHeaderB64U = encodeBase64UrlHeader pf (fe_protectedHeader this');
           aadB64U = (case fe_aad this' of None \<Rightarrow> None | Some a \<Rightarrow> Some (encodeBase64Url a));
           aad = encodeAesAad protectedHeaderB64U aadB64U
       in
     bnd (call (Call_aes_encrypt enc plaintext cek aad)
            (aes_encrypt (fe_aes this') enc plaintext cek aad)) (\<lambda>(ciphertext, tag, iv).
       ret (this',
            \<lparr>jwe_ciphertext = encodeBase64Url ciphertext,
             jwe_iv = encodeBase64Url iv,
             jwe_tag = encodeBase64Url tag,
             jwe_protected = protectedHeaderB64U,
             jwe_encrypted_key = (case encryptedKey of None \<Rightarrow> None
                                  | Some k \<Rightarrow> Some (encodeBase64Url k)),
             jwe_aad = (case fe_aad this' of None \<Rightarrow> None | Some _ \<Rightarrow> aadB64U),
             jwe_unprotected = (if truthy (fe_sharedUnprotectedHeader this')
                                then Some (fe_sharedUnprotectedHeader this') else None),
             jwe_header = (if truthy (fe_unprotectedHeader this')
                           then Some (fe_unprotectedHeader this') else None)\<rparr>)))))))))))"

definition encrypt ::
  "platform \<Rightarrow> FlattenedEncrypter \<Rightarrow> jsval \<Rightarrow> jsval \<Rightarrow> EncryptOptions option
     \<Rightarrow> (FlattenedEncrypter \<times> FlattenedJwe) comp"
where
  "encrypt pf this plaintext yourJwkPublicKey options =
     (if \<not> truthy plaintext then throw (JweInvalid ''plaintext is missing'')
      else if \<not> isUint8Array plaintext then throw (JweInvalid ''plaintext must be a Uint8Array'')
      else if \<not> truthy yourJwkPublicKey then throw (JweInvalid ''yourJwkPublicKey is missing'')
      else if \<not> isPlainObject yourJwkPublicKey then
        throw (JweInvalid ''yourJwkPublicKey must be a plain object'')
      else if \<not> truthy (get_prop yourJwkPublicKey ''crv'') then
        throw (JweInvalid ''yourJwkPublicKey.crv is missing'')
      else
        try_catch (encrypt_body pf this plaintext yourJwkPublicKey options)
          (\<lambda>error. throw (JweInvalid ''Failed to encrypt plaintext'')))"


section \<open>JWE flattened decryption (\<^verbatim>\<open>jwe/flattened/FlattenedDecrypter.ts\<close>)\<close>

text \<open>
  \<^verbatim>\<open>parseBase64UrlHeader\<close>: every failure after the base64url decoding, the failed
  plain-object test included, is rethrown as the same \<^verbatim>\<open>JoseInvalid\<close>.
\<close>

definition parseBase64UrlHeader :: "platform \<Rightarrow> jsval \<Rightarrow> string \<Rightarrow> error + jsval" where
  "parseBase64UrlHeader pf headerB64U label =
     (case decodeRequiredBase64Url (decodeB64U pf) headerB64U label of
        Inl e \<Rightarrow> Inl e
      | Inr decoded \<Rightarrow>
          (case JSON_parse pf (TextDecoder_decode decoded) of
             None \<Rightarrow> Inl (JoseInvalid (''Failed to parse base64url encoded \"'' @ label @ ''\"''))
           | Some parsed \<Rightarrow>
               if isPlainObject parsed then Inr parsed
               else Inl (JoseInvalid (''Failed to parse base64url encoded \"'' @ label @ ''\"''))))"

record ValidateFlattenedJweResult =
  vr_iv :: bytes
  vr_ciphertext :: bytes
  vr_tag :: bytes
  vr_encryptedKey :: "bytes option"
  vr_aad :: "bytes option"
  vr_joseHeader :: jsobj
  vr_parsedProtected :: jsval

definition validateFlattenedJwe :: "platform \<Rightarrow> jsval \<Rightarrow> error + ValidateFlattenedJweResult" where
  "validateFlattenedJwe pf jwe =
     (if is_nullish jwe then Inl (JweInvalid ''Flattened JWE is missing'')
      else if \<not> isPlainObject jwe then Inl (JweInvalid ''Flattened JWE must be a plain object'')
      else
        (case decodeRequiredBase64Url (decodeB64U pf) (get_prop jwe ''iv'')
                ''JWE Initialization Vector'' of
           Inl e \<Rightarrow> Inl e
         | Inr iv \<Rightarrow>
        (case decodeRequiredBase64Url (decodeB64U pf) (get_prop jwe ''ciphertext'')
                ''JWE Ciphertext'' of
           Inl e \<Rightarrow> Inl e
         | Inr ciphertext \<Rightarrow>
        (case decodeRequiredBase64Url (decodeB64U pf) (get_prop jwe ''tag'')
                ''JWE Authentication Tag'' of
           Inl e \<Rightarrow> Inl e
         | Inr tag \<Rightarrow>
        (case decodeOptionalBase64Url (decodeB64U pf) (get_prop jwe ''encrypted_key'')
                ''JWE Encrypted Key'' of
           Inl e \<Rightarrow> Inl e
         | Inr encryptedKey \<Rightarrow>
        (case decodeOptionalBase64Url (decodeB64U pf) (get_prop jwe ''aad'')
                ''JWE Additional Authenticated Data'' of
           Inl e \<Rightarrow> Inl e
         | Inr aad \<Rightarrow>
             if get_prop jwe ''header'' \<noteq> JUndefined \<and> \<not> isPlainObject (get_prop jwe ''header'') then
               Inl (JweInvalid ''JWE Per-Recipient Unprotected Header is invalid'')
             else if get_prop jwe ''unprotected'' \<noteq> JUndefined
                       \<and> \<not> isPlainObject (get_prop jwe ''unprotected'') then
               Inl (JweInvalid ''JWE Shared Unprotected Header is invalid'')
             else
               (case parseBase64UrlHeader pf (get_prop jwe ''protected'') ''JWE Protected Header'' of
                  Inl e \<Rightarrow> Inl e
                | Inr parsedProtected \<Rightarrow>
                    (case mergeJweHeaders parsedProtected (get_prop jwe ''unprotected'')
                            (get_prop jwe ''header'') of
                       Inl e \<Rightarrow> Inl e
                     | Inr joseHeader \<Rightarrow>
                         Inr \<lparr>vr_iv = iv, vr_ciphertext = ciphertext, vr_tag = tag,
                              vr_encryptedKey = encryptedKey, vr_aad = aad,
                              vr_joseHeader = joseHeader,
                              vr_parsedProtected = parsedProtected\<rparr>))))))))"

definition validateStringArrayAsSet :: "jsval \<Rightarrow> string \<Rightarrow> error + string set option" where
  "validateStringArrayAsSet v name =
     (if v = JUndefined then Inr None
      else
        (case v of
           JArr xs \<Rightarrow>
             if list_ex (\<lambda>x. \<not> is_string x) xs then
               Inl (TypeError (name @ '' must be an array of strings''))
             else Inr (Some (set (strings_of xs)))
         | _ \<Rightarrow> Inl (TypeError (name @ '' must be an array''))))"

definition checkJweAlgAllowed :: "string \<Rightarrow> jsval \<Rightarrow> error + unit" where
  "checkJweAlgAllowed alg keyManagementAlgorithms =
     (case validateStringArrayAsSet keyManagementAlgorithms ''keyManagementAlgorithms'' of
        Inl e \<Rightarrow> Inl e
      | Inr allowedAlgorithms \<Rightarrow>
          if (case allowedAlgorithms of Some allowed \<Rightarrow> alg \<notin> allowed | None \<Rightarrow> False)
             \<or> (allowedAlgorithms = None \<and> take 5 alg = ''PBES2'') then
            Inl (JweInvalid ''The specified \"alg\" (Key Management Algorithm) is not allowed'')
          else Inr ())"

definition checkJweEncAllowed :: "string \<Rightarrow> jsval \<Rightarrow> error + unit" where
  "checkJweEncAllowed enc contentEncryptionAlgorithms =
     (case validateStringArrayAsSet contentEncryptionAlgorithms ''contentEncryptionAlgorithms'' of
        Inl e \<Rightarrow> Inl e
      | Inr allowedAlgorithms \<Rightarrow>
          if (case allowedAlgorithms of Some allowed \<Rightarrow> enc \<notin> allowed | None \<Rightarrow> False) then
            Inl (JweInvalid ''The specified \"enc\" (Content Encryption Algorithm) is not allowed'')
          else Inr ())"

record DecryptOptions =
  do_crit :: "(string \<times> bool) list option"
  do_keyManagementAlgorithms :: jsval
  do_contentEncryptionAlgorithms :: jsval

record FlattenedDecryptResult =
  dr_plaintext :: bytes
  dr_protectedHeader :: jsval
  dr_additionalAuthenticatedData :: "bytes option"
  dr_sharedUnprotectedHeader :: "jsval option"
  dr_unprotectedHeader :: "jsval option"

text \<open>A field of the input that validation has shown to be a string or absent.\<close>

definition string_field :: "jsval \<Rightarrow> string option" where
  "string_field v = (case v of JStr s \<Rightarrow> Some s | _ \<Rightarrow> None)"

definition decrypt_body ::
  "platform \<Rightarrow> AesCipher \<Rightarrow> jsval \<Rightarrow> jsval \<Rightarrow> DecryptOptions option \<Rightarrow> FlattenedDecryptResult comp"
where
  "decrypt_body pf aes jwe myJwkPrivateKey options =
     bnd (call (Call_createEcdhCurve (get_prop myJwkPrivateKey ''crv''))
            (createEcdhCurve pf (get_prop myJwkPrivateKey ''crv'') (aes_randomBytes aes)))
       (\<lambda>ecdhCurve.
     bnd (call (Call_toRawPrivateKey myJwkPrivateKey) (ecdh_toRawPrivateKey ecdhCurve myJwkPrivateKey))
       (\<lambda>myPrivateKey.
     bnd (lift (validateFlattenedJwe pf jwe)) (\<lambda>v.
     bnd (lift (validateCrit JweInvalid None (case options of None \<Rightarrow> None | Some opts \<Rightarrow> do_crit opts)
                  (vr_parsedProtected v) (vr_joseHeader v))) (\<lambda>_.
     bnd (lift (validateJweAlg (obj_get (vr_joseHeader v) ''alg''))) (\<lambda>alg.
     bnd (lift (validateJweEnc (obj_get (vr_joseHeader v) ''enc''))) (\<lambda>enc.
     bnd (lift (checkJweAlgAllowed alg
                  (case options of None \<Rightarrow> JUndefined | Some opts \<Rightarrow> do_keyManagementAlgorithms opts)))
       (\<lambda>_.
     bnd (lift (checkJweEncAllowed enc
                  (case options of None \<Rightarrow> JUndefined | Some opts \<Rightarrow> do_contentEncryptionAlgorithms opts)))
       (\<lambda>_.
     bnd (deriveDecryptionKeyWithMitigation pf alg enc ecdhCurve myPrivateKey (vr_encryptedKey v)
            (vr_parsedProtected v)) (\<lambda>cek.
       let aesAad = encodeAesAad (case string_field (get_prop jwe ''protected'') of
                                    None \<Rightarrow> [] | Some p \<Rightarrow> p)
                      (string_field (get_prop jwe ''aad''))
       in
     bnd (call (Call_aes_decrypt enc cek (vr_ciphertext v) (vr_iv v) (vr_tag v) aesAad)
            (aes_decrypt aes enc cek (vr_ciphertext v) (vr_iv v) (vr_tag v) aesAad)) (\<lambda>plaintext.
       ret \<lparr>dr_plaintext = plaintext,
            dr_protectedHeader = vr_parsedProtected v,
            dr_additionalAuthenticatedData =
              (if get_prop jwe ''aad'' \<noteq> JUndefined then vr_aad v else None),
            dr_sharedUnprotectedHeader =
              (if get_prop jwe ''unprotected'' \<noteq> JUndefined then Some (get_prop jwe ''unprotected'')
               else None),
            dr_unprotectedHeader =
              (if get_prop jwe ''header'' \<noteq> JUndefined then Some (get_prop jwe ''header'')
               else None)\<rparr>))))))))))"

definition decrypt ::
  "platform \<Rightarrow> AesCipher \<Rightarrow> jsval \<Rightarrow> jsval \<Rightarrow> DecryptOptions option \<Rightarrow> FlattenedDecryptResult comp"
where
  "decrypt pf aes jwe myJwkPrivateKey options =
     (if \<not> truthy jwe then throw (JweInvalid ''Flattened JWE is missing'')
      else if \<not> isPlainObject jwe then throw (JweInvalid ''Flattened JWE must be a plain object'')
      else if \<not> truthy myJwkPrivateKey then throw (JweInvalid ''myJwkPrivateKey is missing'')
      else if \<not> isPlainObject myJwkPrivateKey then
        throw (JweInvalid ''myJwkPrivateKey must be a plain object'')
      else if \<not> truthy (get_prop myJwkPrivateKey ''crv'') then
        throw (JweInvalid ''myJwkPrivateKey.crv is missing'')
      else
        try_catch (decrypt_body pf aes jwe myJwkPrivateKey options)
          (\<lambda>error. throw (JweInvalid ''Failed to decrypt JWE'')))"


section \<open>JWS flattened signing and verification (\<^verbatim>\<open>jws/flattened\<close>)\<close>

definition parseB64 :: "jsval \<Rightarrow> string set \<Rightarrow> error + bool" where
  "parseB64 b64 criticalParamNames =
     (if ''b64'' \<in> criticalParamNames then
        (let b64' = (if is_nullish b64 then JBool True else b64) in
         case b64' of
           JBool b \<Rightarrow> Inr b
         | _ \<Rightarrow> Inl (JwsInvalid ''The \"b64\" (base64url-encode payload) Header Parameter must be a boolean''))
      else Inr True)"

definition encodeSignTarget :: "platform \<Rightarrow> jsval \<Rightarrow> bytes \<Rightarrow> bool \<Rightarrow> bytes \<times> string \<times> string" where
  "encodeSignTarget pf header payload b64 =
     (let protectedHeaderB64U = encodeBase64UrlHeader pf header in
      if b64 then
        (let payloadB64U = encodeBase64Url payload
         in (TextEncoder_encode (protectedHeaderB64U @ ''.'' @ payloadB64U),
             protectedHeaderB64U, payloadB64U))
      else
        (TextEncoder_encode (protectedHeaderB64U @ ''.'') @ payload, protectedHeaderB64U, []))"

definition encodeVerifyTarget ::
  "platform \<Rightarrow> string \<Rightarrow> jsval \<Rightarrow> bool \<Rightarrow> (bytes \<times> bytes) comp"
where
  "encodeVerifyTarget pf protectedHeaderB64U payload b64 =
     (if b64 then
        (case payload of
           JStr payloadB64U \<Rightarrow>
             (case decodeB64U pf payloadB64U of
                None \<Rightarrow> throw (GenericError ''provider'')
              | Some decoded \<Rightarrow>
                  ret (TextEncoder_encode (protectedHeaderB64U @ ''.'' @ payloadB64U), decoded))
         | _ \<Rightarrow> throw (GenericError ''Payload must be a string when b64=true''))
      else
        (case payload of
           JBytes payloadU8A \<Rightarrow>
             ret (TextEncoder_encode (protectedHeaderB64U @ ''.'') @ payloadU8A, payloadU8A)
         | _ \<Rightarrow> throw (GenericError ''Payload must be a Uint8Array when b64=false'')))"

record FlattenedSigner =
  fs_randomBytes :: "nat \<Rightarrow> bytes"
  fs_protectedHeader :: jsval
  fs_unprotectedHeader :: jsval

record FlattenedJws =
  jws_signature :: string
  jws_protected :: string
  jws_payload :: string
  jws_header :: "jsval option"

record SignOptions =
  so_crit :: "(string \<times> bool) list option"

definition sign_body ::
  "platform \<Rightarrow> FlattenedSigner \<Rightarrow> jsval \<Rightarrow> jsval \<Rightarrow> SignOptions option \<Rightarrow> FlattenedJws comp"
where
  "sign_body pf this payload jwkPrivateKey options =
     bnd (call (Call_createSignatureCurve (get_prop jwkPrivateKey ''crv''))
            (createSignatureCurve pf (get_prop jwkPrivateKey ''crv'') (fs_randomBytes this)))
       (\<lambda>signatureCurve.
     bnd (call (Call_toRawPrivateKey jwkPrivateKey) (sig_toRawPrivateKey signatureCurve jwkPrivateKey))
       (\<lambda>privateKey.
     bnd (lift (mergeJwsHeaders (fs_protectedHeader this) (fs_unprotectedHeader this))) (\<lambda>joseHeader.
     bnd (lift (validateCrit JweInvalid (Some [(''b64'', True)])
                  (case options of None \<Rightarrow> None | Some opts \<Rightarrow> so_crit opts)
                  (fs_protectedHeader this) joseHeader)) (\<lambda>criticalParamNames.
     bnd (lift (parseB64 (get_prop (fs_protectedHeader this) ''b64'') criticalParamNames)) (\<lambda>b64.
     bnd (lift (validateJwsAlg (get_prop (fs_protectedHeader this) ''alg'')
                  (sig_signatureAlgorithmName signatureCurve))) (\<lambda>_.
       case encodeSignTarget pf (fs_protectedHeader this) (ensureUint8Array payload) b64 of
         (signTarget, protectedHeaderB64U, payloadB64U) \<Rightarrow>
     bnd (call (Call_sign privateKey signTarget) (sig_sign signatureCurve privateKey signTarget))
       (\<lambda>signature.
       ret \<lparr>jws_signature = encodeBase64Url signature,
            jws_protected = protectedHeaderB64U,
            jws_payload = payloadB64U,
            jws_header = (if truthy (fs_unprotectedHeader this)
                          then Some (fs_unprotectedHeader this) else None)\<rparr>)))))))"

definition sign ::
  "platform \<Rightarrow> FlattenedSigner \<Rightarrow> jsval \<Rightarrow> jsval \<Rightarrow> SignOptions option \<Rightarrow> FlattenedJws comp"
where
  "sign pf this payload jwkPrivateKey options =
     (if is_nullish payload then throw (JwsInvalid ''payload is missing'')
      else if \<not> isUint8Array payload then throw (JwsInvalid ''payload must be a Uint8Array'')
      else if is_nullish jwkPrivateKey then throw (JwsInvalid ''jwkPrivateKey is missing'')
      else if \<not> isPlainObject jwkPrivateKey then
        throw (JwsInvalid ''jwkPrivateKey must be a plain object'')
      else if \<not> truthy (get_prop jwkPrivateKey ''crv'') then
        throw (JwsInvalid ''jwkPrivateKey.crv is missing'')
      else
        try_catch (sign_body pf this payload jwkPrivateKey options)
          (\<lambda>error. throw (JwsInvalid ''Failed to sign payload'')))"

record ValidateFlattenedJwsResult =
  vs_signature :: bytes
  vs_joseHeader :: jsobj
  vs_parsedProtected :: jsval

definition validateFlattenedJws :: "platform \<Rightarrow> jsval \<Rightarrow> error + ValidateFlattenedJwsResult" where
  "validateFlattenedJws pf jws =
     (if is_nullish jws then Inl (JwsInvalid ''Flattened JWS is missing'')
      else if \<not> isPlainObject jws then Inl (JwsInvalid ''Flattened JWS must be a plain object'')
      else
        (case decodeRequiredBase64Url (decodeB64U pf) (get_prop jws ''signature'')
                ''JWS Signature'' of
           Inl e \<Rightarrow> Inl e
         | Inr signature \<Rightarrow>
             if get_prop jws ''header'' \<noteq> JUndefined \<and> \<not> isPlainObject (get_prop jws ''header'') then
               Inl (JwsInvalid ''JWS Unprotected Header is invalid'')
             else
               (case parseBase64UrlHeader pf (get_prop jws ''protected'') ''JWS Protected Header'' of
                  Inl e \<Rightarrow> Inl e
                | Inr parsedProtected \<Rightarrow>
                    (case mergeJwsHeaders parsedProtected (get_prop jws ''header'') of
                       Inl e \<Rightarrow> Inl e
                     | Inr joseHeader \<Rightarrow>
                         if is_nullish (get_prop jws ''payload'') then
                           Inl (JwsInvalid ''JWS Payload is missing'')
                         else if \<not> is_string (get_prop jws ''payload'')
                                   \<and> \<not> isUint8Array (get_prop jws ''payload'') then
                           Inl (JwsInvalid ''JWS Payload must be a string or Uint8Array'')
                         else
                           Inr \<lparr>vs_signature = signature, vs_joseHeader = joseHeader,
                                vs_parsedProtected = parsedProtected\<rparr>))))"

record VerifyOptions =
  vo_crit :: "(string \<times> bool) list option"

record FlattenedVerifyResult =
  vfr_payload :: bytes
  vfr_protectedHeader :: "jsval option"
  vfr_unprotectedHeader :: "jsval option"

definition verify_body ::
  "platform \<Rightarrow> (nat \<Rightarrow> bytes) \<Rightarrow> jsval \<Rightarrow> jsval \<Rightarrow> VerifyOptions option \<Rightarrow> FlattenedVerifyResult comp"
where
  "verify_body pf randomBytes jws jwkPublicKey options =
     bnd (call (Call_createSignatureCurve (get_prop jwkPublicKey ''crv''))
            (createSignatureCurve pf (get_prop jwkPublicKey ''crv'') randomBytes))
       (\<lambda>signatureCurve.
     bnd (call (Call_toRawPublicKey jwkPublicKey) (sig_toRawPublicKey signatureCurve jwkPublicKey))
       (\<lambda>publicKey.
     bnd (lift (validateFlattenedJws pf jws)) (\<lambda>v.
     bnd (lift (validateCrit JwsInvalid (Some [(''b64'', True)])
                  (case options of None \<Rightarrow> None | Some opts \<Rightarrow> vo_crit opts)
                  (vs_parsedProtected v) (vs_joseHeader v))) (\<lambda>criticalParamNames.
     bnd (lift (parseB64 (get_prop (vs_parsedProtected v) ''b64'') criticalParamNames)) (\<lambda>b64.
     bnd (lift (validateJwsAlg (get_prop (vs_parsedProtected v) ''alg'')
                  (sig_signatureAlgorithmName signatureCurve))) (\<lambda>_.
     bnd (encodeVerifyTarget pf
            (case string_field (get_prop jws ''protected'') of None \<Rightarrow> [] | Some p \<Rightarrow> p)
            (get_prop jws ''payload'') b64) (\<lambda>(verifyTarget, payload).
     bnd (call (Call_verify publicKey verifyTarget (vs_signature v))
            (sig_verify signatureCurve publicKey verifyTarget (vs_signature v))) (\<lambda>verified.
       if \<not> verified then
         throw (JwsSignatureVerificationFailed ''JWS signature verification failed'')
       else
         ret \<lparr>vfr_payload = payload,
              vfr_protectedHeader =
                (if get_prop jws ''protected'' \<noteq> JUndefined then Some (vs_parsedProtected v)
                 else None),
              vfr_unprotectedHeader =
                (if get_prop jws ''header'' \<noteq> JUndefined then Some (get_prop jws ''header'')
                 else None)\<rparr>))))))))"

fun is_JwsSignatureVerificationFailed :: "error \<Rightarrow> bool" where
  "is_JwsSignatureVerificationFailed (JwsSignatureVerificationFailed _) = True"
| "is_JwsSignatureVerificationFailed _ = False"

definition verify ::
  "platform \<Rightarrow> (nat \<Rightarrow> bytes) \<Rightarrow> jsval \<Rightarrow> jsval \<Rightarrow> VerifyOptions option \<Rightarrow> FlattenedVerifyResult comp"
where
  "verify pf randomBytes jws jwkPublicKey options =
     (if is_nullish jws then throw (JwsInvalid ''Flattened JWS is missing'')
      else if \<not> isPlainObject jws then throw (JwsInvalid ''Flattened JWS must be a plain object'')
      else if is_nullish jwkPublicKey then throw (JwsInvalid ''jwkPublicKey is missing'')
      else if \<not> isPlainObject jwkPublicKey then
        throw (JwsInvalid ''jwkPublicKey must be a plain object'')
      else if \<not> truthy (get_prop jwkPublicKey ''crv'') then
        throw (JwsInvalid ''jwkPublicKey.crv is missing'')
      else
        try_catch (verify_body pf randomBytes jws jwkPublicKey options)
          (\<lambda>error.
             if is_JwsSignatureVerificationFailed error then throw error
             else throw (JwsInvalid ''Failed to verify JWS signature'')))"


section \<open>The rules of the specification, as predicates\<close>






text \<open>
  The CEK bit-length table of the specification: 128 for \<^verbatim>\<open>A128GCM\<close>, 192 for \<^verbatim>\<open>A192GCM\<close>,
  256 for \<^verbatim>\<open>A256GCM\<close> and \<^verbatim>\<open>A128CBC-HS256\<close>, 384 for \<^verbatim>\<open>A192CBC-HS384\<close>, 512 for
  \<^verbatim>\<open>A256CBC-HS512\<close>; no other name has a length.
\<close>

definition cek_bits_as_specified :: "(string \<times> nat) list" where
  "cek_bits_as_specified =
     [(''A128GCM'', 128), (''A192GCM'', 192), (''A256GCM'', 256), (''A128CBC-HS256'', 256),
      (''A192CBC-HS384'', 384), (''A256CBC-HS512'', 512)]"

text \<open>
  The \<open>i\<close>-th hash of the key derivation, \<open>SHA-256(u32be(i) || Z || OtherInfo)\<close>, and the
  first \<open>n\<close> of them in a row.
\<close>

definition kdf_hash :: "(bytes \<Rightarrow> bytes) \<Rightarrow> bytes \<Rightarrow> bytes \<Rightarrow> nat \<Rightarrow> bytes" where
  "kdf_hash sha Z OI i = sha (toUint32BE (real i) @ Z @ OI)"

definition kdf_blocks :: "(bytes \<Rightarrow> bytes) \<Rightarrow> bytes \<Rightarrow> bytes \<Rightarrow> nat \<Rightarrow> bytes" where
  "kdf_blocks sha Z OI n = concat (map (kdf_hash sha Z OI) [1..<Suc n])"

section \<open>Sample providers\<close>

text \<open>
  Fixed stand-ins for the external providers, on which the operations can be run: a curve
  and an AEAD that answer every call with constant bytes, a hash with 32-byte digests,
  and a JSON codec that ignores its input.
\<close>

definition sample_epk :: jsval where
  "sample_epk = JObj [(''kty'', JStr ''EC''), (''crv'', JStr ''P-256''),
                       (''x'', JStr ''eA''), (''y'', JStr ''eQ'')]"

definition sample_curve :: EcdhCurve where
  "sample_curve =
     \<lparr>ecdh_randomPrivateKey = Some [1],
      ecdh_getPublicKey = (\<lambda>_. Some [2]),
      ecdh_toJwkPublicKey = (\<lambda>_. Some sample_epk),
      ecdh_toRawPublicKey = (\<lambda>_. Some [3]),
      ecdh_toRawPrivateKey = (\<lambda>_. Some [4]),
      ecdh_getSharedSecret = (\<lambda>_ _. Some [5]),
      ecdh_randomBytes = (\<lambda>n. replicate n 0)\<rparr>"

definition sample_aes :: AesCipher where
  "sample_aes =
     \<lparr>aes_encrypt = (\<lambda>enc plaintext cek aad. Some (plaintext, [7], [8])),
      aes_decrypt = (\<lambda>enc cek ciphertext iv tag aad. Some ciphertext),
      aes_randomBytes = (\<lambda>n. replicate n 0)\<rparr>"

definition sample_signature_curve :: "bool \<Rightarrow> SignatureCurve" where
  "sample_signature_curve verdict =
     \<lparr>sig_toRawPublicKey = (\<lambda>_. Some [3]),
      sig_toRawPrivateKey = (\<lambda>_. Some [4]),
      sig_sign = (\<lambda>_ _. Some [6]),
      sig_verify = (\<lambda>_ _ _. Some verdict),
      sig_signatureAlgorithmName = ''ES256''\<rparr>"

definition sample_platform :: "jsval \<Rightarrow> bool \<Rightarrow> platform" where
  "sample_platform parsed verdict =
     \<lparr>createEcdhCurve = (\<lambda>_ _. Some sample_curve),
      createSignatureCurve = (\<lambda>_ _. Some (sample_signature_curve verdict)),
      sha256 = (\<lambda>_. replicate 32 0),
      JSON_stringify = (\<lambda>_. ''{}''),
      JSON_parse = (\<lambda>_. Some parsed),
      decodeB64U = (\<lambda>_. Some []),
      Math_random = 1 / 2\<rparr>"

text \<open>Two header positions share a parameter name; some two of the three positions do.\<close>

definition share_name :: "jsval \<Rightarrow> jsval \<Rightarrow> bool" where
  "share_name a b = (set (Object_keys a) \<inter> set (Object_keys b) \<noteq> {})"

definition headers_overlap :: "jsval \<Rightarrow> jsval \<Rightarrow> jsval \<Rightarrow> bool" where
  "headers_overlap ph sh uh = (share_name ph sh \<or> share_name ph uh \<or> share_name sh uh)"

definition sample_jwk :: jsval where
  "sample_jwk = JObj [(''kty'', JStr ''EC''), (''crv'', JStr ''P-256''),
                       (''x'', JStr ''eA''), (''y'', JStr ''eQ'')]"

text \<open>A builder on the sample AEAD with the given headers and additional authenticated data.\<close>

definition sample_encrypter :: "jsval \<Rightarrow> jsval \<Rightarrow> jsval \<Rightarrow> bytes option \<Rightarrow> FlattenedEncrypter" where
  "sample_encrypter ph sh uh aad =
     \<lparr>fe_aes = sample_aes, fe_protectedHeader = ph, fe_sharedUnprotectedHeader = sh,
      fe_unprotectedHeader = uh, fe_aad = aad, fe_keyManagementParameters = JUndefined\<rparr>"

text \<open>A header position has a value for the \<^verbatim>\<open>zip\<close> parameter.\<close>

definition has_zip :: "jsval \<Rightarrow> bool" where
  "has_zip h = (get_prop h ''zip'' \<noteq> JUndefined)"

text \<open>
  A protected header that lists \<^verbatim>\<open>b64\<close> as critical without having it, a signer whose
  unprotected header has \<^verbatim>\<open>b64\<close>, and a flattened JWS with that unprotected header.
\<close>

definition sample_b64_protected :: jsval where
  "sample_b64_protected = JObj [(''alg'', JStr ''ES256''), (''crit'', JArr [JStr ''b64''])]"

definition sample_b64_signer :: FlattenedSigner where
  "sample_b64_signer =
     \<lparr>fs_randomBytes = (\<lambda>n. replicate n 0), fs_protectedHeader = sample_b64_protected,
      fs_unprotectedHeader = JObj [(''b64'', JBool False)]\<rparr>"

definition sample_b64_jws :: jsval where
  "sample_b64_jws =
     JObj [(''protected'', JStr ''e30''), (''header'', JObj [(''b64'', JBool False)]),
           (''payload'', JStr ''SGk''), (''signature'', JStr ''Bg'')]"

text \<open>
  A protected header with a critical \<^verbatim>\<open>b64\<close> of false, and a flattened JWS under it whose
  payload is given as bytes.
\<close>

definition sample_detached_protected :: jsval where
  "sample_detached_protected =
     JObj [(''alg'', JStr ''ES256''), (''b64'', JBool False), (''crit'', JArr [JStr ''b64''])]"

definition sample_detached_jws :: jsval where
  "sample_detached_jws =
     JObj [(''protected'', JStr ''e30''), (''payload'', JBytes [72, 105]),
           (''signature'', JStr ''Bg'')]"

section \<open>Properties of the \<^verbatim>\<open>crit\<close> rule\<close>

lemma js_Map_fold: "fold (\<lambda>(k, v) m. m(k \<mapsto> v)) xs m = m ++ map_of (rev xs)"
  by (induction xs arbitrary: m) (auto simp: map_add_def fun_eq_iff split: option.splits)

lemma js_Map_rev: "js_Map xs = map_of (rev xs)"
  by (simp add: js_Map_def js_Map_fold)

lemma js_Map_append:
  "js_Map (d @ opt) p = (case js_Map opt p of Some f \<Rightarrow> Some f | None \<Rightarrow> js_Map d p)"
  by (simp add: js_Map_rev map_add_def split: option.splits)

lemma js_Map_None: "js_Map xs p = None \<longleftrightarrow> p \<notin> fst ` set xs"
  by (simp add: js_Map_rev map_of_eq_None_iff)

lemma obj_read_own: "k \<notin> set Object_prototype_names \<Longrightarrow> obj_read kvs k = obj_get kvs k"
  by (simp add: obj_read_def obj_get_def split: option.splits)

lemma prop_read_own: "k \<notin> set Object_prototype_names \<Longrightarrow> prop_read v k = get_prop v k"
  by (cases v) (simp_all add: obj_read_own)

lemma b64_not_inherited: "''b64'' \<notin> set Object_prototype_names"
  by (simp add: Object_prototype_names_def)

lemma validateCrit_loop_Inl:
  "validateCrit_loop Err r ph jh ps = Inl e \<Longrightarrow> \<exists>m. e = Err m"
  by (induction ps) (auto split: if_splits)



lemma list_ex_not_all: "list_ex (\<lambda>x. \<not> P x) xs \<longleftrightarrow> \<not> list_all P xs"
  by (induction xs) auto


lemma validateCrit_array:
  assumes "get_prop ph ''crit'' = JArr xs"
  shows "validateCrit Err d opt ph jh =
     (if xs = [] \<or> \<not> list_all is_nonempty_string xs then
        Inl (Err ''\"crit\" (Critical) Header Parameter MUST be an array of non-empty strings when present'')
      else case validateCrit_loop Err (js_Map (default_record d @ default_record opt)) ph jh
                  (strings_of xs) of
             Inl e \<Rightarrow> Inl e | Inr _ \<Rightarrow> Inr (set (strings_of xs)))"
proof -
  have "truthy ph" using assms by (cases ph) auto
  then show ?thesis using assms
    by (simp add: validateCrit_def Let_def list_ex_not_all)
qed






section \<open>Properties of the key derivation\<close>

lemma length_toUint32BE [simp]: "length (toUint32BE x) = 4"
  by (simp add: toUint32BE_def Let_def)

lemma u8a_set_fits:
  "offset + length src \<le> length buf \<Longrightarrow>
     u8a_set buf src offset = Inr (take offset buf @ src @ drop (offset + length src) buf)"
  by (simp add: u8a_set_def)

lemma concatKdf_round_eq:
  assumes sha: "\<And>m. length (sha m) = 32" and fits: "iter * 32 + 32 \<le> length res"
  shows "concatKdf_round sha Z OI iter res =
           Inr (take (iter * 32) res @ kdf_hash sha Z OI (iter + 1) @ drop (iter * 32 + 32) res)"
proof -
  let ?u = "toUint32BE (real (iter + 1))"
  have 1: "u8a_set (replicate (4 + length Z + length OI) (0::byte)) ?u 0
             = Inr (?u @ replicate (length Z + length OI) 0)"
    by (simp add: u8a_set_fits)
  have 2: "u8a_set (?u @ replicate (length Z + length OI) 0) Z 4 = Inr (?u @ Z @ replicate (length OI) 0)"
    by (simp add: u8a_set_fits)
  have 3: "u8a_set (?u @ Z @ replicate (length OI) 0) OI (4 + length Z) = Inr (?u @ Z @ OI)"
    by (simp add: u8a_set_fits)
  have 4: "u8a_set res (sha (?u @ Z @ OI)) (iter * 32)
             = Inr (take (iter * 32) res @ sha (?u @ Z @ OI) @ drop (iter * 32 + 32) res)"
    using fits by (simp add: u8a_set_fits sha)
  show ?thesis
    unfolding concatKdf_round_def Let_def kdf_hash_def
    by (simp only: 1 2 3 4 sum.case)
qed

lemma kdf_blocks_Suc:
  "kdf_blocks sha Z OI (Suc n) = kdf_blocks sha Z OI n @ kdf_hash sha Z OI (Suc n)"
  by (simp add: kdf_blocks_def)

lemma length_kdf_blocks:
  assumes sha: "\<And>m. length (sha m) = 32"
  shows "length (kdf_blocks sha Z OI n) = n * 32"
  by (induction n) (simp_all add: kdf_blocks_def kdf_hash_def sha)

text \<open>
  The loop invariant: after \<open>iter\<close> rounds the buffer holds the first \<open>iter\<close> hashes,
  followed by zeros.
\<close>

lemma concatKdf_loop_inv:
  assumes sha: "\<And>m. length (sha m) = 32"
  shows "iter \<le> n \<Longrightarrow>
     concatKdf_loop sha Z OI n iter (kdf_blocks sha Z OI iter @ replicate ((n - iter) * 32) 0)
       = Inr (kdf_blocks sha Z OI n)"
proof (induction "n - iter" arbitrary: iter)
  case 0
  then show ?case by (simp add: concatKdf_loop.simps)
next
  case (Suc d)
  then have lt: "iter < n" and d: "d = n - Suc iter" by auto
  let ?done = "kdf_blocks sha Z OI iter"
  let ?res = "?done @ replicate ((n - iter) * 32) 0"
  have len: "length ?done = iter * 32" by (rule length_kdf_blocks [OF sha])
  have rest: "(n - iter) * 32 = 32 + (n - Suc iter) * 32" using lt by (simp add: Suc_diff_Suc)
  have tk: "take (iter * 32) ?res = ?done" using len by simp
  have dr: "drop (iter * 32 + 32) ?res = replicate ((n - Suc iter) * 32) 0"
    using len by (simp add: rest)
  have fits: "iter * 32 + 32 \<le> length ?res" using len by (simp add: rest)
  have round: "concatKdf_round sha Z OI iter ?res
      = Inr (kdf_blocks sha Z OI (Suc iter) @ replicate ((n - Suc iter) * 32) 0)"
  proof -
    have "concatKdf_round sha Z OI iter ?res
            = Inr (take (iter * 32) ?res @ kdf_hash sha Z OI (iter + 1) @ drop (iter * 32 + 32) ?res)"
      by (rule concatKdf_round_eq [OF sha fits])
    also have "\<dots> = Inr (?done @ kdf_hash sha Z OI (iter + 1) @ replicate ((n - Suc iter) * 32) 0)"
      unfolding tk dr ..
    finally show ?thesis by (simp add: kdf_blocks_Suc)
  qed
  have "concatKdf_loop sha Z OI n (Suc iter)
          (kdf_blocks sha Z OI (Suc iter) @ replicate ((n - Suc iter) * 32) 0)
        = Inr (kdf_blocks sha Z OI n)"
    using Suc.hyps(1) [OF d] lt by simp
  then show ?case
    using lt round by (subst concatKdf_loop.simps) simp
qed

lemma concatKdf_loop_total:
  assumes sha: "\<And>m. length (sha m) = 32"
  shows "concatKdf_loop sha Z OI n 0 (replicate (n * 32) 0) = Inr (kdf_blocks sha Z OI n)"
  using concatKdf_loop_inv [OF sha, where iter = 0 and n = n and Z = Z and OI = OI]
  by (simp add: kdf_blocks_def)

lemma js_shr_small:
  assumes "Number_isInteger k" "0 < k" "k < 2 ^ 31"
  shows "js_shr k 3 = \<lfloor>k\<rfloor> div 8"
proof -
  have "0 \<le> \<lfloor>k\<rfloor>" "\<lfloor>k\<rfloor> < 2 ^ 31" using assms by (auto simp: floor_less_iff)
  then show ?thesis using assms
    by (simp add: js_shr_def js_ToInt32_def js_ToUint32_def Let_def)
qed

lemma concatKdf_general:
  assumes sha: "\<And>m. length (sha m) = 32"
    and k: "Number_isInteger k" "0 < k" "k < 2 ^ 31"
  shows "concatKdf sha Z k OI =
           Inr (take (nat (\<lfloor>k\<rfloor> div 8))
                  (kdf_blocks sha Z OI (nat \<lceil>real_of_int (\<lfloor>k\<rfloor> div 8) / 32\<rceil>)))"
proof -
  have nonneg: "0 \<le> \<lfloor>k\<rfloor> div 8" using k by (simp add: pos_imp_zdiv_nonneg_iff)
  then have it: "\<not> \<lceil>real_of_int (\<lfloor>k\<rfloor> div 8) / 32\<rceil> < 0"
    by (simp add: not_less ceiling_le_iff)
  show ?thesis
    using k nonneg it
    by (simp add: concatKdf_def js_shr_small [OF k] Let_def concatKdf_loop_total [OF sha]
        u8a_slice0_def)
qed

lemma ceiling_half: "\<lceil>1 / 2 :: real\<rceil> = 1"
  by (simp add: ceiling_eq_iff)

lemma five: assumes "k \<in> {128, 192, 256, 384, 512 :: real}"
  shows "Number_isInteger k" "0 < k" "k < 2 ^ 31"
    "nat (\<lfloor>k\<rfloor> div 8) = nat \<lfloor>k / 8\<rfloor>"
    "nat \<lceil>real_of_int (\<lfloor>k\<rfloor> div 8) / 32\<rceil> = nat \<lceil>k / 8 / 32\<rceil>"
    "real (nat \<lfloor>k / 8\<rfloor>) * 8 = k"
    "nat \<lfloor>k / 8\<rfloor> \<le> nat \<lceil>k / 8 / 32\<rceil> * 32"
    "int (nat \<lfloor>k / 8\<rfloor>) = js_shr k 3"
  using assms by (auto simp: Number_isInteger_def js_shr_def js_ToInt32_def js_ToUint32_def Let_def ceiling_half)

text \<open>
  C3. For a hash with 32-byte digests, every shared secret \<open>Z\<close>, every \<open>OtherInfo\<close> and
  every \<open>keyBitLength\<close> among 128, 192, 256, 384 and 512, \<^verbatim>\<open>concatKdf\<close> returns the first
  \<open>keyBitLength / 8\<close> bytes of \<open>H(u32be(1) || Z || OtherInfo) || H(u32be(2) || Z || OtherInfo) || ...\<close>
  taken over \<open>ceil(keyBitLength / 8 / 32)\<close> hashes; the output has \<open>keyBitLength >> 3\<close> bytes;
  and a \<open>keyBitLength\<close> that is not an integer or not positive is rejected.
\<close>

theorem concatKdf_output:
  assumes sha: "\<forall>m. length (sha m) = 32"
  shows "(k \<in> {128, 192, 256, 384, 512} \<longrightarrow>
            (\<exists>out. concatKdf sha Z k OI = Inr out
               \<and> out = take (nat \<lfloor>k / 8\<rfloor>)
                       (concat (map (\<lambda>i. sha (toUint32BE (real i) @ Z @ OI))
                                  [1..<Suc (nat \<lceil>k / 8 / 32\<rceil>)]))
               \<and> int (length out) = js_shr k 3
               \<and> real (length out) * 8 = k))
       \<and> (\<not> Number_isInteger k \<or> k \<le> 0 \<longrightarrow>
            concatKdf sha Z k OI = Inl (RangeError ''keyBitLength must be a positive integer''))"
proof (intro conjI impI)
  assume k: "k \<in> {128, 192, 256, 384, 512}"
  have sha': "\<And>m. length (sha m) = 32" using sha by simp
  let ?n = "nat \<lceil>k / 8 / 32\<rceil>"
  let ?out = "take (nat \<lfloor>k / 8\<rfloor>) (kdf_blocks sha Z OI ?n)"
  have res: "concatKdf sha Z k OI = Inr ?out"
    using concatKdf_general [OF sha' five(1-3) [OF k], where Z = Z and OI = OI] by (simp add: five(4,5) [OF k])
  have len: "length ?out = nat \<lfloor>k / 8\<rfloor>"
    using five(7) [OF k] by (simp add: length_kdf_blocks [OF sha'])
  show "\<exists>out. concatKdf sha Z k OI = Inr out
               \<and> out = take (nat \<lfloor>k / 8\<rfloor>)
                       (concat (map (\<lambda>i. sha (toUint32BE (real i) @ Z @ OI))
                                  [1..<Suc (nat \<lceil>k / 8 / 32\<rceil>)]))
               \<and> int (length out) = js_shr k 3
               \<and> real (length out) * 8 = k"
  proof (intro exI conjI)
    show "concatKdf sha Z k OI = Inr ?out" by (rule res)
    show "?out = take (nat \<lfloor>k / 8\<rfloor>)
                       (concat (map (\<lambda>i. sha (toUint32BE (real i) @ Z @ OI))
                                  [1..<Suc (nat \<lceil>k / 8 / 32\<rceil>)]))"
    proof -
      have "kdf_hash sha Z OI = (\<lambda>i. sha (toUint32BE (real i) @ Z @ OI))"
        by (rule ext) (simp add: kdf_hash_def)
      then show ?thesis by (simp only: kdf_blocks_def)
    qed
    show "int (length ?out) = js_shr k 3" unfolding len by (rule five(8) [OF k])
    show "real (length ?out) * 8 = k" unfolding len by (rule five(6) [OF k])
  qed
next
  assume "\<not> Number_isInteger k \<or> k \<le> 0"
  then show "concatKdf sha Z k OI = Inl (RangeError ''keyBitLength must be a positive integer'')"
    by (simp add: concatKdf_def)
qed

theorem concatKdf_output_witness:
  "concatKdf (\<lambda>m. replicate 32 7) [1, 2] 128 [3] = Inr (replicate 16 7)
   \<and> concatKdf (\<lambda>m. replicate 32 7) [1, 2] (-8) [3]
       = Inl (RangeError ''keyBitLength must be a positive integer'')"
  using concatKdf_output [of "\<lambda>m. replicate 32 7" 128 "[1, 2]" "[3]"]
    concatKdf_output [of "\<lambda>m. replicate 32 7" "-8" "[1, 2]" "[3]"]
  by (simp add: ceiling_half)

lemma toUint32BE_small: "n < 256 \<Longrightarrow> toUint32BE (real n) = [0, 0, 0, of_nat n]"
  by (simp add: toUint32BE_def js_ToUint32_def Let_def)

lemma lengthAndInput_small:
  "length input < 256 \<Longrightarrow> lengthAndInput input = Inr ([0, 0, 0, of_nat (length input)] @ input)"
  by (simp add: lengthAndInput_def toUint32BE_small)

lemma isEnc_length: "isEnc a \<Longrightarrow> length (TextEncoder_encode a) < 256"
  by (auto simp: isEnc_def TextEncoder_encode_def)

text \<open>
  C4 (as the code has it). \<^verbatim>\<open>buildKdfOtherInfo\<close> first rejects an \<open>apu\<close> or \<open>apv\<close> longer than
  32 bytes as \<open>invalid\<close>; then, the party infos being within 32 bytes, it rejects an
  unrecognized algorithm as \<open>not supported\<close>; otherwise it returns
  \<open>len(algID) || algID || len(apu) || apu || len(apv) || apv || u32be(keyBitLength)\<close>, each
  length a big-endian 32-bit byte count, \<open>algID\<close> the UTF-8 bytes of the algorithm name, an
  absent \<open>apu\<close> or \<open>apv\<close> taken as the empty byte string.
\<close>

theorem buildKdfOtherInfo_layout:
  "(32 < length (case apu of None \<Rightarrow> [] | Some a \<Rightarrow> a)
      \<or> 32 < length (case apv of None \<Rightarrow> [] | Some a \<Rightarrow> a) \<longrightarrow>
      buildKdfOtherInfo algorithm apu apv keyBitLength
        = Inl (JweInvalid (''APU/APV must be '' @ [CHR 0xE2, CHR 0x89, CHR 0xA4] @ ''32 bytes'')))
   \<and> (length (case apu of None \<Rightarrow> [] | Some a \<Rightarrow> a) \<le> 32
        \<and> length (case apv of None \<Rightarrow> [] | Some a \<Rightarrow> a) \<le> 32 \<and> \<not> isEnc algorithm \<longrightarrow>
      buildKdfOtherInfo algorithm apu apv keyBitLength
        = Inl (JweNotSupported ''\"enc\" (Content Encryption Algorithm) is not supported''))
   \<and> (length (case apu of None \<Rightarrow> [] | Some a \<Rightarrow> a) \<le> 32
        \<and> length (case apv of None \<Rightarrow> [] | Some a \<Rightarrow> a) \<le> 32 \<and> isEnc algorithm \<longrightarrow>
      buildKdfOtherInfo algorithm apu apv keyBitLength
        = Inr ([0, 0, 0, of_nat (length (TextEncoder_encode algorithm))] @ TextEncoder_encode algorithm
               @ [0, 0, 0, of_nat (length (case apu of None \<Rightarrow> [] | Some a \<Rightarrow> a))]
               @ (case apu of None \<Rightarrow> [] | Some a \<Rightarrow> a)
               @ [0, 0, 0, of_nat (length (case apv of None \<Rightarrow> [] | Some a \<Rightarrow> a))]
               @ (case apv of None \<Rightarrow> [] | Some a \<Rightarrow> a)
               @ toUint32BE keyBitLength))"
  by (auto simp: buildKdfOtherInfo_def Let_def lengthAndInput_small isEnc_length)

theorem buildKdfOtherInfo_layout_witness:
  "buildKdfOtherInfo ''A128GCM'' None None 128
     = Inr [0, 0, 0, 7, 0x41, 0x31, 0x32, 0x38, 0x47, 0x43, 0x4D, 0, 0, 0, 0, 0, 0, 0, 0, 0, 0, 0, 0x80]
   \<and> buildKdfOtherInfo ''A256GCM'' (Some [1, 2, 3]) (Some [4, 5, 6]) 256
     = Inr [0, 0, 0, 7, 65, 50, 53, 54, 71, 67, 77, 0, 0, 0, 3, 1, 2, 3, 0, 0, 0, 3, 4, 5, 6, 0, 0, 1, 0]"
  using buildKdfOtherInfo_layout [of None None "''A128GCM''" 128]
    buildKdfOtherInfo_layout [of "Some [1, 2, 3]" "Some [4, 5, 6]" "''A256GCM''" 256]
  by (simp add: isEnc_def TextEncoder_encode_def toUint32BE_def js_ToUint32_def)

text \<open>
  An unrecognized algorithm together with a 33-byte \<open>apu\<close> fails \<open>invalid\<close>, not
  \<open>not supported\<close>: the length check comes first.
\<close>

theorem buildKdfOtherInfo_precedence_counterexample:
  "\<not> isEnc ''RSA-OAEP''
   \<and> buildKdfOtherInfo ''RSA-OAEP'' (Some (replicate 33 0)) None 256
       = Inl (JweInvalid (''APU/APV must be '' @ [CHR 0xE2, CHR 0x89, CHR 0xA4] @ ''32 bytes''))"
  by (simp add: isEnc_def buildKdfOtherInfo_def)

section \<open>Properties of the timing mitigation\<close>

lemma cekBitLengthByEnc_isEnc:
  "isEnc enc \<Longrightarrow> \<exists>n. cekBitLengthByEnc enc = Inr (8 * n) \<and> nat (js_shr (real (8 * n)) 3) = n \<and> n \<in> {16, 24, 32, 48, 64}"
  by (auto simp: isEnc_def cekBitLengthByEnc_def js_shr_def js_ToInt32_def js_ToUint32_def Let_def)

lemma cekBitLengthByEnc_table:
  "cekBitLengthByEnc enc = Inr bits \<longleftrightarrow> map_of cek_bits_as_specified enc = Some bits"
  by (simp add: cekBitLengthByEnc_def cek_bits_as_specified_def)

text \<open>
  C6. When \<^verbatim>\<open>deriveDecryptionKey\<close> throws, \<^verbatim>\<open>deriveDecryptionKeyWithMitigation\<close> does not
  rethrow: after the calls the derivation made, it sleeps \<open>200 + Math.random() * 300\<close>
  milliseconds, a delay in \<open>[200, 500)\<close>, asks the curve's random source for as many bytes
  as the CEK of \<open>enc\<close> has, and returns them: 16 bytes for \<^verbatim>\<open>A128GCM\<close>, 24 for \<^verbatim>\<open>A192GCM\<close>, 32
  for \<^verbatim>\<open>A256GCM\<close> and \<^verbatim>\<open>A128CBC-HS256\<close>, 48 for \<^verbatim>\<open>A192CBC-HS384\<close>, 64 for
  \<^verbatim>\<open>A256CBC-HS512\<close>, an eighth of the bit length that the table of the specification gives.
  The random source returns as many bytes as it is asked for, and \<^verbatim>\<open>Math.random()\<close> lies in
  \<open>[0, 1)\<close>.
\<close>

theorem mitigation_suppresses_error:
  assumes fail: "deriveDecryptionKey pf alg enc curve myPrivateKey encryptedKey ph = (evs, Inl err)"
    and enc: "isEnc enc"
    and r: "0 \<le> Math_random pf \<and> Math_random pf < 1"
    and rb: "\<forall>n. length (ecdh_randomBytes curve n) = n"
  shows "\<exists>delay cek.
           deriveDecryptionKeyWithMitigation pf alg enc curve myPrivateKey encryptedKey ph
             = (evs @ [Sleep delay, Call_randomBytes (length cek)], Inr cek)
           \<and> delay = 200 + Math_random pf * 300 \<and> 200 \<le> delay \<and> delay < 500
           \<and> cek = ecdh_randomBytes curve (length cek)
           \<and> cekBitLengthByEnc enc = Inr (8 * length cek)
           \<and> map_of cek_bits_as_specified enc = Some (8 * length cek)
           \<and> length cek
               = (if enc = ''A128GCM'' then 16 else if enc = ''A192GCM'' then 24
                  else if enc = ''A256GCM'' then 32 else if enc = ''A128CBC-HS256'' then 32
                  else if enc = ''A192CBC-HS384'' then 48 else 64)"
proof -
  from cekBitLengthByEnc_isEnc [OF enc] obtain n where
    n: "cekBitLengthByEnc enc = Inr (8 * n)" "nat (js_shr (real (8 * n)) 3) = n" by blast
  have len: "length (ecdh_randomBytes curve n) = n" using rb by simp
  have gen: "generateMitigatedCek pf curve enc
               = ([Sleep (200 + Math_random pf * 300), Call_randomBytes n],
                  Inr (ecdh_randomBytes curve n))"
    using n by (simp add: generateMitigatedCek_def bnd_def sleep_def lift_def call_def ret_def Let_def)
  have "deriveDecryptionKeyWithMitigation pf alg enc curve myPrivateKey encryptedKey ph
          = (evs @ [Sleep (200 + Math_random pf * 300), Call_randomBytes n],
             Inr (ecdh_randomBytes curve n))"
    by (simp add: deriveDecryptionKeyWithMitigation_def try_catch_def fail gen)
  moreover have "map_of cek_bits_as_specified enc = Some (8 * n)"
    using n(1) by (simp add: cekBitLengthByEnc_table)
  moreover from this have "n = (if enc = ''A128GCM'' then 16 else if enc = ''A192GCM'' then 24
                  else if enc = ''A256GCM'' then 32 else if enc = ''A128CBC-HS256'' then 32
                  else if enc = ''A192CBC-HS384'' then 48 else 64)"
    by (auto simp: cek_bits_as_specified_def split: if_splits)
  ultimately show ?thesis using r n(1) len
    by (intro exI [of _ "200 + Math_random pf * 300"] exI [of _ "ecdh_randomBytes curve n"])
       (simp only: len, simp)
qed

lemma sample_derive_fails:
  "deriveDecryptionKey (sample_platform JNull True) ''ECDH-ES'' ''A256GCM'' sample_curve [4] None
       (JObj [(''alg'', JStr ''ECDH-ES''), (''enc'', JStr ''A256GCM'')])
     = ([], Inl (JweInvalid ''\"epk\" (Ephemeral Public Key) is missing''))"
  by (simp add: deriveDecryptionKey_def ecdhesDeriveDecryptionKey_def bnd_def lift_def
      validateJweEpk_def obj_get_def)

theorem mitigation_suppresses_error_witness:
  "deriveDecryptionKeyWithMitigation (sample_platform JNull True) ''ECDH-ES'' ''A256GCM'' sample_curve
       [4] None (JObj [(''alg'', JStr ''ECDH-ES''), (''enc'', JStr ''A256GCM'')])
     = ([Sleep 350, Call_randomBytes 32], Inr (replicate 32 0))"
proof -
  have r: "0 \<le> Math_random (sample_platform JNull True) \<and> Math_random (sample_platform JNull True) < 1"
    by (simp add: sample_platform_def)
  have rb: "\<forall>n. length (ecdh_randomBytes sample_curve n) = n"
    by (simp add: sample_curve_def)
  have enc: "isEnc ''A256GCM''" by (simp add: isEnc_def)
  from mitigation_suppresses_error [OF sample_derive_fails enc r rb]
  show ?thesis
    by (auto simp: cekBitLengthByEnc_def sample_platform_def sample_curve_def)
qed

section \<open>Properties of header composition and of encryption\<close>

lemma falsy_no_keys: "\<not> truthy v \<Longrightarrow> Object_keys v = []"
  by (cases v) (auto simp: Object_keys_def)

lemma areDisjoint3:
  "areDisjoint [a, b, c] \<longleftrightarrow> \<not> headers_overlap a b c"
  by (cases "truthy a"; cases "truthy b"; cases "truthy c")
     (auto simp: areDisjoint_def headers_overlap_def share_name_def falsy_no_keys list_ex_iff Let_def)

lemma areDisjoint2:
  "areDisjoint [a, b] \<longleftrightarrow> \<not> share_name a b"
  by (cases "truthy a"; cases "truthy b")
     (auto simp: areDisjoint_def share_name_def falsy_no_keys list_ex_iff Let_def)

lemma verifyJweHeaders_Inl: "verifyJweHeaders ph sh uh = Inl e \<Longrightarrow> \<exists>msg. e = JweInvalid msg"
  by (auto simp: verifyJweHeaders_def split: if_splits)

lemma verifyJweHeaders_Inr:
  "verifyJweHeaders ph sh uh = Inr u \<longleftrightarrow>
     truthy ph \<and> isPlainObject ph \<and> Object_keys ph \<noteq> []
     \<and> (truthy sh \<longrightarrow> isPlainObject sh) \<and> (truthy uh \<longrightarrow> isPlainObject uh)
     \<and> \<not> headers_overlap ph sh uh"
  by (auto simp: verifyJweHeaders_def areDisjoint3)

lemma mergeJweHeaders_overlap:
  assumes "headers_overlap ph sh uh"
  shows "\<exists>msg. mergeJweHeaders ph sh uh = Inl (JweInvalid msg)"
proof (cases "verifyJweHeaders ph sh uh")
  case (Inl e)
  then show ?thesis using verifyJweHeaders_Inl [OF Inl] by (auto simp: mergeJweHeaders_def)
next
  case (Inr u)
  then show ?thesis using assms by (simp add: verifyJweHeaders_Inr)
qed

lemma mergeJweHeaders_Inr:
  "mergeJweHeaders ph sh uh = Inr jh \<Longrightarrow> verifyJweHeaders ph sh uh = Inr ()"
  by (auto simp: mergeJweHeaders_def split: sum.splits)

lemma encrypt_body_merge_fails:
  assumes "mergeJweHeaders (fe_protectedHeader this) (fe_sharedUnprotectedHeader this)
             (fe_unprotectedHeader this) = Inl e"
  shows "\<exists>evs e'. encrypt_body pf this plaintext jwk options = (evs, Inl e')
           \<and> set evs \<subseteq> {Call_createEcdhCurve (get_prop jwk ''crv''), Call_toRawPublicKey jwk}"
proof (cases "createEcdhCurve pf (get_prop jwk ''crv'') (aes_randomBytes (fe_aes this))")
  case None
  then show ?thesis by (simp add: encrypt_body_def bnd_def call_def)
next
  case (Some curve)
  then show ?thesis using assms
    by (cases "ecdh_toRawPublicKey curve jwk")
       (simp_all add: encrypt_body_def bnd_def call_def lift_def)
qed

lemma encrypt_fails_of_body:
  assumes "encrypt_body pf this plaintext jwk options = (evs, Inl e)"
  shows "\<exists>msg. encrypt pf this plaintext jwk options = (evs, Inl (JweInvalid msg))
            \<or> encrypt pf this plaintext jwk options = ([], Inl (JweInvalid msg))"
  using assms by (auto simp: encrypt_def throw_def try_catch_def)

lemma sample_platform_fields:
  "createEcdhCurve (sample_platform p v) = (\<lambda>_ _. Some sample_curve)"
  "createSignatureCurve (sample_platform p v) = (\<lambda>_ _. Some (sample_signature_curve v))"
  "sha256 (sample_platform p v) = (\<lambda>_. replicate 32 0)"
  "JSON_stringify (sample_platform p v) = (\<lambda>_. ''{}'')"
  "JSON_parse (sample_platform p v) = (\<lambda>_. Some p)"
  "decodeB64U (sample_platform p v) = (\<lambda>_. Some [])"
  "Math_random (sample_platform p v) = 1 / 2"
  by (simp_all add: sample_platform_def)

lemma sample_jwk_facts:
  "get_prop sample_jwk ''crv'' = JStr ''P-256''" "truthy sample_jwk" "isPlainObject sample_jwk"
  "ecdh_toRawPublicKey sample_curve sample_jwk = Some [3]"
  "ecdh_toRawPrivateKey sample_curve sample_jwk = Some [4]"
  by (simp_all add: sample_jwk_def obj_get_def sample_curve_def)

lemma sample_encrypt_merge_fails:
  assumes "mergeJweHeaders (fe_protectedHeader this) (fe_sharedUnprotectedHeader this)
             (fe_unprotectedHeader this) = Inl e"
  shows "encrypt (sample_platform p v) this (JBytes pt) sample_jwk opts
           = ([Call_createEcdhCurve (JStr ''P-256''), Call_toRawPublicKey sample_jwk],
              Inl (JweInvalid ''Failed to encrypt plaintext''))"
  using assms
  by (simp add: encrypt_def encrypt_body_def sample_jwk_facts sample_platform_fields
      bnd_def call_def lift_def try_catch_def throw_def)

text \<open>
  C7. When some parameter name appears in more than one of the three header positions,
  \<^verbatim>\<open>encrypt\<close> fails with a JWE \<open>invalid\<close> error, having called the curve provider at most to
  resolve the curve and to convert the recipient key: no key is generated, no secret
  agreed, nothing derived or encrypted. Header merging fails \<open>invalid\<close> on such headers and
  when the protected header is absent, not a plain object or empty; when it succeeds, the
  protected header is a non-empty plain object and no name is shared.
\<close>

theorem encrypt_rejects_shared_names:
  "(headers_overlap (fe_protectedHeader this) (fe_sharedUnprotectedHeader this)
       (fe_unprotectedHeader this) \<longrightarrow>
      (\<exists>evs msg. encrypt pf this plaintext jwk options = (evs, Inl (JweInvalid msg))
         \<and> set evs \<subseteq> {Call_createEcdhCurve (get_prop jwk ''crv''), Call_toRawPublicKey jwk}))
   \<and> (headers_overlap ph sh uh \<or> \<not> truthy ph \<or> \<not> isPlainObject ph \<or> Object_keys ph = [] \<longrightarrow>
        (\<exists>msg. mergeJweHeaders ph sh uh = Inl (JweInvalid msg)))
   \<and> (mergeJweHeaders ph sh uh = Inr jh \<longrightarrow>
        truthy ph \<and> isPlainObject ph \<and> Object_keys ph \<noteq> [] \<and> \<not> headers_overlap ph sh uh)"
proof -
  have A: "\<exists>evs msg. encrypt pf this plaintext jwk options = (evs, Inl (JweInvalid msg))
         \<and> set evs \<subseteq> {Call_createEcdhCurve (get_prop jwk ''crv''), Call_toRawPublicKey jwk}"
    if ov: "headers_overlap (fe_protectedHeader this) (fe_sharedUnprotectedHeader this)
                (fe_unprotectedHeader this)"
  proof -
    from mergeJweHeaders_overlap [OF ov] obtain m where
      "mergeJweHeaders (fe_protectedHeader this) (fe_sharedUnprotectedHeader this)
         (fe_unprotectedHeader this) = Inl (JweInvalid m)" by blast
    from encrypt_body_merge_fails [OF this, of pf plaintext jwk options] obtain evs e' where
      body: "encrypt_body pf this plaintext jwk options = (evs, Inl e')"
      and evs: "set evs \<subseteq> {Call_createEcdhCurve (get_prop jwk ''crv''), Call_toRawPublicKey jwk}"
      by blast
    from encrypt_fails_of_body [OF body] evs show ?thesis
      by (metis empty_set empty_subsetI)
  qed
  have B: "\<exists>msg. mergeJweHeaders ph sh uh = Inl (JweInvalid msg)"
    if "headers_overlap ph sh uh \<or> \<not> truthy ph \<or> \<not> isPlainObject ph \<or> Object_keys ph = []"
  proof -
    from that have "\<not> (\<exists>u. verifyJweHeaders ph sh uh = Inr u)" by (auto simp: verifyJweHeaders_Inr)
    then obtain e where e: "verifyJweHeaders ph sh uh = Inl e"
      by (cases "verifyJweHeaders ph sh uh") auto
    with verifyJweHeaders_Inl [OF e] show ?thesis by (auto simp: mergeJweHeaders_def)
  qed
  have C: "truthy ph \<and> isPlainObject ph \<and> Object_keys ph \<noteq> [] \<and> \<not> headers_overlap ph sh uh"
    if "mergeJweHeaders ph sh uh = Inr jh"
    using mergeJweHeaders_Inr [OF that] by (simp add: verifyJweHeaders_Inr)
  from A B C show ?thesis by blast
qed

theorem encrypt_rejects_shared_names_witness:
  "headers_overlap (JObj [(''alg'', JStr ''ECDH-ES''), (''enc'', JStr ''A256GCM'')])
       (JObj [(''enc'', JStr ''A128GCM'')]) JUndefined
   \<and> encrypt (sample_platform JNull True)
         (sample_encrypter (JObj [(''alg'', JStr ''ECDH-ES''), (''enc'', JStr ''A256GCM'')])
            (JObj [(''enc'', JStr ''A128GCM'')]) JUndefined None)
         (JBytes [72, 105]) sample_jwk None
       = ([Call_createEcdhCurve (JStr ''P-256''), Call_toRawPublicKey sample_jwk],
          Inl (JweInvalid ''Failed to encrypt plaintext''))
   \<and> mergeJweHeaders (JObj [(''alg'', JStr ''ECDH-ES'')]) JUndefined JUndefined
       = Inr [(''alg'', JStr ''ECDH-ES'')]"
proof -
  let ?ph = "JObj [(''alg'', JStr ''ECDH-ES''), (''enc'', JStr ''A256GCM'')]"
  let ?sh = "JObj [(''enc'', JStr ''A128GCM'')]"
  let ?builder = "sample_encrypter ?ph ?sh JUndefined None"
  have ov: "headers_overlap ?ph ?sh JUndefined"
    by (simp add: headers_overlap_def share_name_def Object_keys_def AList.delete_eq)
  have fields: "fe_protectedHeader ?builder = ?ph" "fe_sharedUnprotectedHeader ?builder = ?sh"
    "fe_unprotectedHeader ?builder = JUndefined"
    by (simp_all add: sample_encrypter_def)
  from encrypt_rejects_shared_names
    [of ?builder "sample_platform JNull True" "JBytes [72, 105]" sample_jwk None ?ph ?sh JUndefined "[]"]
    ov
  obtain m where m: "mergeJweHeaders ?ph ?sh JUndefined = Inl (JweInvalid m)"
    by (auto simp: fields)
  have run: "encrypt (sample_platform JNull True) ?builder (JBytes [72, 105]) sample_jwk None
       = ([Call_createEcdhCurve (JStr ''P-256''), Call_toRawPublicKey sample_jwk],
          Inl (JweInvalid ''Failed to encrypt plaintext''))"
    by (rule sample_encrypt_merge_fails) (simp add: fields m)
  have ok: "mergeJweHeaders (JObj [(''alg'', JStr ''ECDH-ES'')]) JUndefined JUndefined
       = Inr [(''alg'', JStr ''ECDH-ES'')]"
    by (simp add: mergeJweHeaders_def verifyJweHeaders_def areDisjoint_def Object_keys_def
        js_spread_def obj_get_def)
  from ov run ok show ?thesis by simp
qed

lemma fold_update_map_of:
  "map_of (fold (\<lambda>(k, v). AList.update k v) ps t) = map_of t ++ map_of (rev ps)"
proof (induction ps arbitrary: t)
  case Nil
  show ?case by simp
next
  case (Cons p ps)
  obtain k v where p: "p = (k, v)" by (cases p)
  show ?case
    by (simp add: p Cons.IH update_conv' map_add_def fun_eq_iff split: option.splits)
qed

lemma map_of_rev_distinct: "distinct (map fst ps) \<Longrightarrow> map_of (rev ps) = map_of ps"
proof -
  assume d: "distinct (map fst ps)"
  then have "distinct (map fst (rev ps))" by (simp add: rev_map [symmetric])
  then show ?thesis using d by (simp add: map_of_inject_set)
qed

lemma obj_get_spread_obj:
  "obj_get (js_spread t (JObj kvs)) k
     = (if k \<in> fst ` set kvs then obj_get kvs k else obj_get t k)"
proof -
  have "map_of (js_spread t (JObj kvs)) = map_of t ++ map_of kvs"
    by (simp add: js_spread_def fold_update_map_of map_of_rev_distinct map_of_clearjunk)
  then have m: "map_of (js_spread t (JObj kvs)) k
                  = (case map_of kvs k of None \<Rightarrow> map_of t k | Some v \<Rightarrow> Some v)"
    by (simp add: map_add_def)
  show ?thesis
  proof (cases "map_of kvs k")
    case None
    then have "k \<notin> fst ` set kvs" by (simp add: map_of_eq_None_iff)
    with None m show ?thesis by (simp add: obj_get_def)
  next
    case (Some v)
    then have "k \<in> fst ` set kvs" using map_of_eq_None_iff [of kvs k] by simp
    with Some m show ?thesis by (simp add: obj_get_def)
  qed
qed

lemma js_spread_falsy: "\<not> truthy src \<Longrightarrow> js_spread t src = t"
  by (cases src) (auto simp: js_spread_def)

lemma js_spread_plain:
  "truthy src \<longrightarrow> isPlainObject src \<Longrightarrow>
     obj_get (js_spread t src) k
       = (if k \<in> set (Object_keys src) then get_prop src k else obj_get t k)"
proof (cases "truthy src")
  case False
  then show ?thesis by (simp add: js_spread_falsy falsy_no_keys)
next
  case True
  assume "truthy src \<longrightarrow> isPlainObject src"
  with True obtain kvs where "src = JObj kvs" by (cases src) auto
  then show ?thesis
    by (simp add: obj_get_spread_obj Object_keys_def dom_clearjunk)
qed

lemma has_zip_key: "has_zip h \<Longrightarrow> ''zip'' \<in> set (Object_keys h)"
proof (cases h)
  case (JObj kvs)
  assume "has_zip h"
  with JObj have "map_of kvs ''zip'' \<noteq> None"
    by (cases "map_of kvs ''zip''") (auto simp: has_zip_def obj_get_def)
  then have "''zip'' \<in> fst ` set kvs" using map_of_eq_None_iff [of kvs "''zip''"] by simp
  with JObj show ?thesis by (simp add: Object_keys_def dom_clearjunk)
qed (auto simp: has_zip_def)

lemma mergeJweHeaders_zip:
  assumes ok: "verifyJweHeaders ph sh uh = Inr ()"
    and zip: "has_zip ph \<or> has_zip sh \<or> has_zip uh"
  shows "mergeJweHeaders ph sh uh
           = Inl (JweNotSupported ''JWE \"zip\" (Compression Algorithm) Header Parameter is not supported.'')"
proof -
  from ok have plain: "truthy ph \<longrightarrow> isPlainObject ph" "truthy sh \<longrightarrow> isPlainObject sh"
      "truthy uh \<longrightarrow> isPlainObject uh"
    and disj: "\<not> share_name ph sh" "\<not> share_name ph uh" "\<not> share_name sh uh"
    by (auto simp: verifyJweHeaders_Inr headers_overlap_def)
  let ?jh = "js_spread (js_spread (js_spread [] uh) sh) ph"
  have "obj_get ?jh ''zip'' \<noteq> JUndefined"
  proof -
    consider (p) "has_zip ph" | (s) "has_zip sh" | (u) "has_zip uh" using zip by blast
    then show ?thesis
    proof cases
      case p
      then show ?thesis
        using has_zip_key [OF p] by (simp add: js_spread_plain [OF plain(1)] has_zip_def)
    next
      case s
      from has_zip_key [OF s] disj(1) have "''zip'' \<notin> set (Object_keys ph)"
        by (auto simp: share_name_def)
      then show ?thesis
        using has_zip_key [OF s] s
        by (simp add: js_spread_plain [OF plain(1)] js_spread_plain [OF plain(2)] has_zip_def)
    next
      case u
      from has_zip_key [OF u] disj(2,3)
      have "''zip'' \<notin> set (Object_keys ph)" "''zip'' \<notin> set (Object_keys sh)"
        by (auto simp: share_name_def)
      then show ?thesis
        using has_zip_key [OF u] u
        by (simp add: js_spread_plain [OF plain(1)] js_spread_plain [OF plain(2)]
            js_spread_plain [OF plain(3)] has_zip_def)
    qed
  qed
  then show ?thesis by (simp add: mergeJweHeaders_def ok Let_def)
qed

lemma mergeJweHeaders_zip_fails:
  assumes "has_zip ph \<or> has_zip sh \<or> has_zip uh"
  shows "\<exists>e. mergeJweHeaders ph sh uh = Inl e"
proof (cases "verifyJweHeaders ph sh uh")
  case (Inl e)
  then show ?thesis by (simp add: mergeJweHeaders_def)
next
  case (Inr u)
  then show ?thesis using mergeJweHeaders_zip [OF _ assms] by simp
qed

lemma decrypt_fails_of_body:
  assumes "decrypt_body pf aes jwe key options = (evs, Inl e)"
  shows "\<exists>evs' msg. decrypt pf aes jwe key options = (evs', Inl (JweInvalid msg))"
  using assms by (auto simp: decrypt_def throw_def try_catch_def)

lemma validateFlattenedJwe_Inr:
  assumes "validateFlattenedJwe pf jwe = Inr v"
  shows "\<exists>pp jh. parseBase64UrlHeader pf (get_prop jwe ''protected'') ''JWE Protected Header'' = Inr pp
           \<and> mergeJweHeaders pp (get_prop jwe ''unprotected'') (get_prop jwe ''header'') = Inr jh"
  using assms by (auto simp: validateFlattenedJwe_def split: if_splits sum.splits)

lemma decrypt_body_validate_fails:
  assumes "validateFlattenedJwe pf jwe = Inl e"
  shows "\<exists>evs e'. decrypt_body pf aes jwe key options = (evs, Inl e')"
proof (cases "createEcdhCurve pf (get_prop key ''crv'') (aes_randomBytes aes)")
  case None
  then show ?thesis by (simp add: decrypt_body_def bnd_def call_def)
next
  case (Some curve)
  then show ?thesis using assms
    by (cases "ecdh_toRawPrivateKey curve key")
       (simp_all add: decrypt_body_def bnd_def call_def lift_def)
qed

text \<open>
  C2 (as the code has it). \<^verbatim>\<open>mergeJweHeaders\<close> raises \<open>not supported\<close> when a header position
  has a value for \<^verbatim>\<open>zip\<close> and the headers are otherwise well formed (protected header a
  non-empty plain object, names disjoint). The public \<^verbatim>\<open>encrypt\<close> and \<^verbatim>\<open>decrypt\<close> catch every
  internal error: with \<^verbatim>\<open>zip\<close> in any header position they fail, and the error they raise is
  the uniform JWE \<open>invalid\<close> error.
\<close>

theorem zip_rejection:
  "(verifyJweHeaders ph sh uh = Inr () \<and> (has_zip ph \<or> has_zip sh \<or> has_zip uh) \<longrightarrow>
      mergeJweHeaders ph sh uh
        = Inl (JweNotSupported ''JWE \"zip\" (Compression Algorithm) Header Parameter is not supported.''))
   \<and> (has_zip (fe_protectedHeader this) \<or> has_zip (fe_sharedUnprotectedHeader this)
        \<or> has_zip (fe_unprotectedHeader this) \<longrightarrow>
        (\<exists>evs msg. encrypt pf this plaintext jwk options = (evs, Inl (JweInvalid msg))))
   \<and> ((\<exists>pp. parseBase64UrlHeader pf (get_prop jwe ''protected'') ''JWE Protected Header'' = Inr pp
              \<and> has_zip pp)
        \<or> has_zip (get_prop jwe ''unprotected'') \<or> has_zip (get_prop jwe ''header'') \<longrightarrow>
        (\<exists>evs msg. decrypt pf aes jwe key doptions = (evs, Inl (JweInvalid msg))))"
proof -
  have A: "mergeJweHeaders ph sh uh
        = Inl (JweNotSupported ''JWE \"zip\" (Compression Algorithm) Header Parameter is not supported.'')"
    if "verifyJweHeaders ph sh uh = Inr () \<and> (has_zip ph \<or> has_zip sh \<or> has_zip uh)"
    using that mergeJweHeaders_zip by blast
  have B: "\<exists>evs msg. encrypt pf this plaintext jwk options = (evs, Inl (JweInvalid msg))"
    if z: "has_zip (fe_protectedHeader this) \<or> has_zip (fe_sharedUnprotectedHeader this)
        \<or> has_zip (fe_unprotectedHeader this)"
  proof -
    from mergeJweHeaders_zip_fails [OF z] obtain e where
      "mergeJweHeaders (fe_protectedHeader this) (fe_sharedUnprotectedHeader this)
         (fe_unprotectedHeader this) = Inl e" by blast
    from encrypt_body_merge_fails [OF this, of pf plaintext jwk options] obtain evs e' where
      "encrypt_body pf this plaintext jwk options = (evs, Inl e')" by blast
    from encrypt_fails_of_body [OF this] show ?thesis by blast
  qed
  have C: "\<exists>evs msg. decrypt pf aes jwe key doptions = (evs, Inl (JweInvalid msg))"
    if z: "(\<exists>pp. parseBase64UrlHeader pf (get_prop jwe ''protected'') ''JWE Protected Header'' = Inr pp
              \<and> has_zip pp)
        \<or> has_zip (get_prop jwe ''unprotected'') \<or> has_zip (get_prop jwe ''header'')"
  proof -
    have "\<not> (\<exists>v. validateFlattenedJwe pf jwe = Inr v)"
    proof
      assume "\<exists>v. validateFlattenedJwe pf jwe = Inr v"
      then obtain v where "validateFlattenedJwe pf jwe = Inr v" ..
      from validateFlattenedJwe_Inr [OF this] obtain pp jh where
        pp: "parseBase64UrlHeader pf (get_prop jwe ''protected'') ''JWE Protected Header'' = Inr pp"
        and jh: "mergeJweHeaders pp (get_prop jwe ''unprotected'') (get_prop jwe ''header'') = Inr jh"
        by blast
      from z pp have "has_zip pp \<or> has_zip (get_prop jwe ''unprotected'')
                        \<or> has_zip (get_prop jwe ''header'')" by auto
      from mergeJweHeaders_zip_fails [OF this] jh show False by simp
    qed
    then obtain e where "validateFlattenedJwe pf jwe = Inl e"
      by (cases "validateFlattenedJwe pf jwe") auto
    from decrypt_body_validate_fails [OF this, of aes key doptions] obtain evs e' where
      "decrypt_body pf aes jwe key doptions = (evs, Inl e')" by blast
    from decrypt_fails_of_body [OF this] show ?thesis .
  qed
  from A B C show ?thesis by blast
qed


lemma bnd_InrE:
  assumes "bnd m f = (es, Inr y)"
  obtains es1 x es2 where "m = (es1, Inr x)" "f x = (es2, Inr y)" "es = es1 @ es2"
  using assms by (auto simp: bnd_def split: prod.splits sum.splits)

lemma call_InrE:
  assumes "call ev r = (es, Inr x)"
  obtains "es = [ev]" "r = Some x"
  using assms by (auto simp: call_def split: option.splits)

lemma lift_InrE:
  assumes "lift r = (es, Inr x)"
  obtains "es = []" "r = Inr x"
  using assms by (auto simp: lift_def)

lemma encrypt_InrE:
  assumes "encrypt pf this plaintext jwk options = (evs, Inr res)"
  shows "encrypt_body pf this plaintext jwk options = (evs, Inr res)"
  using assms
  by (auto simp: encrypt_def throw_def try_catch_def split: if_splits prod.splits sum.splits)

text \<open>What a successful run of \<^verbatim>\<open>encrypt\<close> went through.\<close>

lemma encrypt_success:
  assumes "encrypt pf this plaintext jwk options = (evs, Inr (this', jwe))"
  shows "\<exists>curve ypk alg enc evs1 cek ek parameters.
    createEcdhCurve pf (get_prop jwk ''crv'') (aes_randomBytes (fe_aes this)) = Some curve
    \<and> ecdh_toRawPublicKey curve jwk = Some ypk
    \<and> validateJweAlg (get_prop (fe_protectedHeader this) ''alg'') = Inr alg
    \<and> validateJweEnc (get_prop (fe_protectedHeader this) ''enc'') = Inr enc
    \<and> deriveEncryptionKey pf alg enc curve ypk (fe_keyManagementParameters this)
         = (evs1, Inr (cek, ek, parameters))
    \<and> updateProtectedHeader this (JObj parameters) = Inr this'
    \<and> jwe_protected jwe = encodeBase64UrlHeader pf (fe_protectedHeader this')
    \<and> jwe_aad jwe = (case fe_aad this' of None \<Rightarrow> None | Some a \<Rightarrow> Some (encodeBase64Url a))
    \<and> evs = [Call_createEcdhCurve (get_prop jwk ''crv''), Call_toRawPublicKey jwk] @ evs1
           @ [Call_aes_encrypt enc (ensureUint8Array plaintext) cek
                (encodeAesAad (jwe_protected jwe)
                   (case fe_aad this' of None \<Rightarrow> None | Some a \<Rightarrow> Some (encodeBase64Url a)))]
    \<and> (\<exists>jh. mergeJweHeaders (fe_protectedHeader this) (fe_sharedUnprotectedHeader this)
            (fe_unprotectedHeader this) = Inr jh)"
proof -
  from encrypt_InrE [OF assms]
  have body: "encrypt_body pf this plaintext jwk options = (evs, Inr (this', jwe))" .
  then show ?thesis
    unfolding encrypt_body_def Let_def
    by (auto simp: bnd_def call_def lift_def ret_def
        split: prod.splits sum.splits option.splits)
qed

lemma ecdhes_parameters:
  assumes "ecdhesDeriveEncryptionKey pf enc curve ypk kmp = (evs1, Inr (cek, ek, parameters))"
  shows "''epk'' \<in> fst ` set parameters \<and> fst ` set parameters \<subseteq> {''epk'', ''apu'', ''apv''}"
  using assms unfolding ecdhesDeriveEncryptionKey_def Let_def
  by (auto simp: bnd_def call_def lift_def ret_def split: prod.splits sum.splits option.splits)

lemma deriveEncryptionKey_parameters:
  assumes "deriveEncryptionKey pf alg enc curve ypk kmp = (evs1, Inr (cek, ek, parameters))"
  shows "''epk'' \<in> fst ` set parameters \<and> fst ` set parameters \<subseteq> {''epk'', ''apu'', ''apv''}"
proof (cases "alg = ''ECDH-ES''")
  case True
  with assms show ?thesis by (simp add: deriveEncryptionKey_def ecdhes_parameters)
next
  case False
  with assms show ?thesis by (simp add: deriveEncryptionKey_def throw_def)
qed

lemma obj_get_absent: "k \<notin> fst ` set kvs \<Longrightarrow> obj_get kvs k = JUndefined"
  using map_of_eq_None_iff [of kvs k] by (simp add: obj_get_def)

lemma updateProtectedHeader_lookup:
  assumes upd: "updateProtectedHeader this (JObj parameters) = Inr this'"
    and plain: "truthy (fe_protectedHeader this) \<longrightarrow> isPlainObject (fe_protectedHeader this)"
  shows "get_prop (fe_protectedHeader this') k
           = (if k \<in> fst ` set parameters then obj_get parameters k
              else get_prop (fe_protectedHeader this) k)"
proof (cases "truthy (fe_protectedHeader this)")
  case False
  then have "get_prop (fe_protectedHeader this) k = JUndefined"
    by (cases "fe_protectedHeader this") auto
  with upd False show ?thesis
    by (auto simp: updateProtectedHeader_def FlattenedEncrypter_protectedHeader_def obj_get_absent)
next
  case True
  with plain obtain kvs where kvs: "fe_protectedHeader this = JObj kvs"
    by (cases "fe_protectedHeader this") auto
  from upd True have "fe_protectedHeader this'
      = JObj (js_spread (js_spread [] (fe_protectedHeader this)) (JObj parameters))"
    by (auto simp: updateProtectedHeader_def)
  then show ?thesis
    by (simp add: kvs obj_get_spread_obj obj_get_absent)
qed

lemma validatePartyInfo_Inr:
  "validatePartyInfo v l = Inr r \<longleftrightarrow>
     (\<not> truthy v \<and> r = None) \<or> (\<exists>a. v = JBytes a \<and> length a \<le> 32 \<and> r = Some a)"
  by (cases v) (auto simp: validatePartyInfo_def)

lemma party_parameter:
  assumes "validatePartyInfo v l = Inr r"
  shows "(case r of None \<Rightarrow> [] | Some a \<Rightarrow> [(k, JStr (encodeBase64Url a))])
           = (if truthy v then [(k, JStr (encodeBase64Url (ensureUint8Array v)))] else [])"
    and "truthy v \<longrightarrow> isUint8Array v \<and> length (ensureUint8Array v) \<le> 32"
  using assms by (auto simp: validatePartyInfo_Inr ensureUint8Array_def)

lemma ecdhes_success:
  assumes "ecdhesDeriveEncryptionKey pf enc curve ypk kmp = (evs1, Inr (cek, ek, parameters))"
  shows "\<exists>sk pub epk apu apv.
      ecdh_randomPrivateKey curve = Some sk
    \<and> ecdh_getPublicKey curve sk = Some pub
    \<and> ecdh_toJwkPublicKey curve pub = Some epk
    \<and> validateJweApu (get_prop kmp ''apu'') = Inr apu
    \<and> validateJweApv (get_prop kmp ''apv'') = Inr apv
    \<and> evs1 = [Call_randomPrivateKey, Call_getPublicKey sk, Call_toJwkPublicKey pub,
               Call_getSharedSecret sk ypk]
    \<and> parameters = [(''epk'', epk)]
         @ (case apu of None \<Rightarrow> [] | Some a \<Rightarrow> [(''apu'', JStr (encodeBase64Url a))])
         @ (case apv of None \<Rightarrow> [] | Some a \<Rightarrow> [(''apv'', JStr (encodeBase64Url a))])"
  using assms unfolding ecdhesDeriveEncryptionKey_def Let_def
  by (auto simp: bnd_def call_def lift_def ret_def split: prod.splits sum.splits option.splits)

text \<open>
  C1 (as the code has it). A successful \<^verbatim>\<open>encrypt\<close> resolves the curve of the recipient key,
  generates an ephemeral key pair on it and agrees the key; the key agreement returns
  \<^verbatim>\<open>epk\<close>, the JWK of that ephemeral public key, and \<^verbatim>\<open>apu\<close>, \<^verbatim>\<open>apv\<close>, the base64url of the
  party information, each when the caller supplied it. These parameters are spread over
  the caller's protected header, and the result is the header that is encoded: \<^verbatim>\<open>epk\<close>, and
  \<^verbatim>\<open>apu\<close>, \<^verbatim>\<open>apv\<close> when supplied, take the returned value, whatever the caller had set; every
  other name keeps the caller's value.
\<close>

theorem encrypt_merges_parameters_over_protected_header:
  assumes "encrypt pf this plaintext jwk options = (evs, Inr (this', jwe))"
  shows "\<exists>curve ypk alg enc cek ek parameters sk pub epk.
      createEcdhCurve pf (get_prop jwk ''crv'') (aes_randomBytes (fe_aes this)) = Some curve
    \<and> ecdh_toRawPublicKey curve jwk = Some ypk
    \<and> validateJweAlg (get_prop (fe_protectedHeader this) ''alg'') = Inr alg
    \<and> validateJweEnc (get_prop (fe_protectedHeader this) ''enc'') = Inr enc
    \<and> ecdh_randomPrivateKey curve = Some sk
    \<and> ecdh_getPublicKey curve sk = Some pub
    \<and> ecdh_toJwkPublicKey curve pub = Some epk
    \<and> deriveEncryptionKey pf alg enc curve ypk (fe_keyManagementParameters this)
         = ([Call_randomPrivateKey, Call_getPublicKey sk, Call_toJwkPublicKey pub,
             Call_getSharedSecret sk ypk],
            Inr (cek, ek, parameters))
    \<and> evs = [Call_createEcdhCurve (get_prop jwk ''crv''), Call_toRawPublicKey jwk,
              Call_randomPrivateKey, Call_getPublicKey sk, Call_toJwkPublicKey pub,
              Call_getSharedSecret sk ypk,
              Call_aes_encrypt enc (ensureUint8Array plaintext) cek
                (encodeAesAad (jwe_protected jwe) (map_option encodeBase64Url (fe_aad this')))]
    \<and> parameters
        = [(''epk'', epk)]
          @ (if truthy (get_prop (fe_keyManagementParameters this) ''apu'')
             then [(''apu'', JStr (encodeBase64Url
                      (ensureUint8Array (get_prop (fe_keyManagementParameters this) ''apu''))))]
             else [])
          @ (if truthy (get_prop (fe_keyManagementParameters this) ''apv'')
             then [(''apv'', JStr (encodeBase64Url
                      (ensureUint8Array (get_prop (fe_keyManagementParameters this) ''apv''))))]
             else [])
    \<and> (truthy (get_prop (fe_keyManagementParameters this) ''apu'')
          \<longrightarrow> isUint8Array (get_prop (fe_keyManagementParameters this) ''apu''))
    \<and> (truthy (get_prop (fe_keyManagementParameters this) ''apv'')
          \<longrightarrow> isUint8Array (get_prop (fe_keyManagementParameters this) ''apv''))
    \<and> fe_protectedHeader this'
        = JObj (js_spread (js_spread [] (fe_protectedHeader this)) (JObj parameters))
    \<and> jwe_protected jwe = encodeBase64UrlHeader pf (fe_protectedHeader this')
    \<and> ''epk'' \<in> fst ` set parameters \<and> fst ` set parameters \<subseteq> {''epk'', ''apu'', ''apv''}
    \<and> (\<forall>k. get_prop (fe_protectedHeader this') k
             = (if k \<in> fst ` set parameters then obj_get parameters k
                else get_prop (fe_protectedHeader this) k))
    \<and> (\<forall>k. get_prop (fe_protectedHeader this') k
             = (if k = ''epk'' then epk
                else if k = ''apu'' \<and> truthy (get_prop (fe_keyManagementParameters this) ''apu'')
                  then JStr (encodeBase64Url
                         (ensureUint8Array (get_prop (fe_keyManagementParameters this) ''apu'')))
                else if k = ''apv'' \<and> truthy (get_prop (fe_keyManagementParameters this) ''apv'')
                  then JStr (encodeBase64Url
                         (ensureUint8Array (get_prop (fe_keyManagementParameters this) ''apv'')))
                else get_prop (fe_protectedHeader this) k))"
proof -
  let ?kmp = "fe_keyManagementParameters this"
  from encrypt_success [OF assms] obtain curve ypk alg enc evs1 cek ek parameters jh where
    curve: "createEcdhCurve pf (get_prop jwk ''crv'') (aes_randomBytes (fe_aes this)) = Some curve"
    and ypk: "ecdh_toRawPublicKey curve jwk = Some ypk"
    and alg: "validateJweAlg (get_prop (fe_protectedHeader this) ''alg'') = Inr alg"
    and enc: "validateJweEnc (get_prop (fe_protectedHeader this) ''enc'') = Inr enc"
    and derive: "deriveEncryptionKey pf alg enc curve ypk ?kmp = (evs1, Inr (cek, ek, parameters))"
    and upd: "updateProtectedHeader this (JObj parameters) = Inr this'"
    and prot: "jwe_protected jwe = encodeBase64UrlHeader pf (fe_protectedHeader this')"
    and evs: "evs = [Call_createEcdhCurve (get_prop jwk ''crv''), Call_toRawPublicKey jwk] @ evs1
           @ [Call_aes_encrypt enc (ensureUint8Array plaintext) cek
                (encodeAesAad (jwe_protected jwe)
                   (case fe_aad this' of None \<Rightarrow> None | Some a \<Rightarrow> Some (encodeBase64Url a)))]"
    and merge: "mergeJweHeaders (fe_protectedHeader this) (fe_sharedUnprotectedHeader this)
            (fe_unprotectedHeader this) = Inr jh"
    by blast
  have "alg = ''ECDH-ES''"
    using derive by (cases "alg = ''ECDH-ES''") (simp_all add: deriveEncryptionKey_def throw_def)
  with derive have "ecdhesDeriveEncryptionKey pf enc curve ypk ?kmp
                      = (evs1, Inr (cek, ek, parameters))"
    by (simp add: deriveEncryptionKey_def)
  from ecdhes_success [OF this] obtain sk pub epk apu apv where
    sk: "ecdh_randomPrivateKey curve = Some sk"
    and pub: "ecdh_getPublicKey curve sk = Some pub"
    and epk: "ecdh_toJwkPublicKey curve pub = Some epk"
    and apu: "validateJweApu (get_prop ?kmp ''apu'') = Inr apu"
    and apv: "validateJweApv (get_prop ?kmp ''apv'') = Inr apv"
    and evs1: "evs1 = [Call_randomPrivateKey, Call_getPublicKey sk, Call_toJwkPublicKey pub,
               Call_getSharedSecret sk ypk]"
    and par0: "parameters = [(''epk'', epk)]
         @ (case apu of None \<Rightarrow> [] | Some a \<Rightarrow> [(''apu'', JStr (encodeBase64Url a))])
         @ (case apv of None \<Rightarrow> [] | Some a \<Rightarrow> [(''apv'', JStr (encodeBase64Url a))])"
    by blast
  have par: "parameters
        = [(''epk'', epk)]
          @ (if truthy (get_prop ?kmp ''apu'')
             then [(''apu'', JStr (encodeBase64Url (ensureUint8Array (get_prop ?kmp ''apu''))))]
             else [])
          @ (if truthy (get_prop ?kmp ''apv'')
             then [(''apv'', JStr (encodeBase64Url (ensureUint8Array (get_prop ?kmp ''apv''))))]
             else [])"
    unfolding par0
      party_parameter(1) [OF apu [unfolded validateJweApu_def], of "''apu''"]
      party_parameter(1) [OF apv [unfolded validateJweApv_def], of "''apv''"] ..
  have bu: "truthy (get_prop ?kmp ''apu'') \<longrightarrow> isUint8Array (get_prop ?kmp ''apu'')"
    using party_parameter(2) [OF apu [unfolded validateJweApu_def]] by simp
  have bv: "truthy (get_prop ?kmp ''apv'') \<longrightarrow> isUint8Array (get_prop ?kmp ''apv'')"
    using party_parameter(2) [OF apv [unfolded validateJweApv_def]] by simp
  from mergeJweHeaders_Inr [OF merge]
  have t: "truthy (fe_protectedHeader this)" and pl: "isPlainObject (fe_protectedHeader this)"
    by (simp_all add: verifyJweHeaders_Inr)
  have hdr: "fe_protectedHeader this'
        = JObj (js_spread (js_spread [] (fe_protectedHeader this)) (JObj parameters))"
    using upd t by (auto simp: updateProtectedHeader_def)
  have keys: "''epk'' \<in> fst ` set parameters" "fst ` set parameters \<subseteq> {''epk'', ''apu'', ''apv''}"
    unfolding par by auto
  have look: "\<forall>k. get_prop (fe_protectedHeader this') k
                  = (if k \<in> fst ` set parameters then obj_get parameters k
                     else get_prop (fe_protectedHeader this) k)"
    using updateProtectedHeader_lookup [OF upd] pl by simp
  have look2: "\<forall>k. get_prop (fe_protectedHeader this') k
             = (if k = ''epk'' then epk
                else if k = ''apu'' \<and> truthy (get_prop ?kmp ''apu'')
                  then JStr (encodeBase64Url (ensureUint8Array (get_prop ?kmp ''apu'')))
                else if k = ''apv'' \<and> truthy (get_prop ?kmp ''apv'')
                  then JStr (encodeBase64Url (ensureUint8Array (get_prop ?kmp ''apv'')))
                else get_prop (fe_protectedHeader this) k)"
    unfolding look [rule_format] par by (auto simp: obj_get_def)
  have ev: "evs = [Call_createEcdhCurve (get_prop jwk ''crv''), Call_toRawPublicKey jwk,
              Call_randomPrivateKey, Call_getPublicKey sk, Call_toJwkPublicKey pub,
              Call_getSharedSecret sk ypk,
              Call_aes_encrypt enc (ensureUint8Array plaintext) cek
                (encodeAesAad (jwe_protected jwe) (map_option encodeBase64Url (fe_aad this')))]"
    unfolding evs evs1 by (simp add: map_option_case)
  show ?thesis
    by (intro exI conjI)
       (rule curve ypk alg enc sk pub epk derive [unfolded evs1] ev par bu bv hdr prot keys look look2)+
qed

lemma sample_concatKdf: "concatKdf (\<lambda>_. replicate 32 0) Z 256 OI = Inr (replicate 32 0)"
proof -
  have k: "Number_isInteger 256" "(0::real) < 256" "(256::real) < 2 ^ 31"
    by (simp_all add: Number_isInteger_def)
  have "concatKdf (\<lambda>_. replicate 32 0) Z 256 OI
          = Inr (take 32 (kdf_blocks (\<lambda>_. replicate 32 0) Z OI 1))"
    using concatKdf_general [OF _ k, where sha = "\<lambda>_. replicate 32 0" and Z = Z and OI = OI]
    by simp
  then show ?thesis by (simp add: kdf_blocks_def kdf_hash_def)
qed

lemma sample_deriveEncryptionKey:
  "deriveEncryptionKey (sample_platform p v) ''ECDH-ES'' ''A256GCM'' sample_curve [3] JUndefined
     = ([Call_randomPrivateKey, Call_getPublicKey [1], Call_toJwkPublicKey [2],
         Call_getSharedSecret [1] [3]],
        Inr (replicate 32 0, None, [(''epk'', sample_epk)]))"
proof -
  have oi: "\<exists>oi. buildKdfOtherInfo ''A256GCM'' None None 256 = Inr oi"
    by (simp add: buildKdfOtherInfo_def isEnc_def lengthAndInput_def TextEncoder_encode_def)
  then obtain oi where "buildKdfOtherInfo ''A256GCM'' None None 256 = Inr oi" ..
  then show ?thesis
    by (simp add: deriveEncryptionKey_def ecdhesDeriveEncryptionKey_def bnd_def call_def lift_def
      ret_def sample_curve_def sample_platform_fields validateJweApu_def validateJweApv_def
      validatePartyInfo_def validateJweEnc_def isEnc_def cekBitLengthByEnc_def
      sample_concatKdf Let_def)
qed

lemma sample_encrypt_run:
  assumes merge: "mergeJweHeaders ph JUndefined JUndefined = Inr jh"
    and crit: "validateCrit JweInvalid None None ph jh = Inr S"
    and alg: "get_prop ph ''alg'' = JStr ''ECDH-ES''"
    and enc: "get_prop ph ''enc'' = JStr ''A256GCM''"
  shows "encrypt (sample_platform p v) (sample_encrypter ph JUndefined JUndefined aad) (JBytes pt)
           sample_jwk None
     = ([Call_createEcdhCurve (JStr ''P-256''), Call_toRawPublicKey sample_jwk,
         Call_randomPrivateKey, Call_getPublicKey [1], Call_toJwkPublicKey [2],
         Call_getSharedSecret [1] [3],
         Call_aes_encrypt ''A256GCM'' pt (replicate 32 0)
           (encodeAesAad ''e30'' (map_option encodeBase64Url aad))],
        Inr (sample_encrypter (JObj (js_spread (js_spread [] ph) (JObj [(''epk'', sample_epk)])))
               JUndefined JUndefined aad,
             \<lparr>jwe_ciphertext = encodeBase64Url pt, jwe_iv = ''CA'', jwe_tag = ''Bw'',
              jwe_protected = ''e30'', jwe_encrypted_key = None,
              jwe_aad = map_option encodeBase64Url aad,
              jwe_unprotected = None, jwe_header = None\<rparr>))"
proof -
  have t: "truthy ph" using mergeJweHeaders_Inr [OF merge] by (simp add: verifyJweHeaders_Inr)
  have aes: "aes_encrypt sample_aes = (\<lambda>enc plaintext cek aad. Some (plaintext, [7], [8]))"
    by (simp add: sample_aes_def)
  have va: "validateJweAlg (JStr ''ECDH-ES'') = Inr ''ECDH-ES''"
    "validateJweEnc (JStr ''A256GCM'') = Inr ''A256GCM''"
    by (simp_all add: validateJweAlg_def isJweAlg_def validateJweEnc_def isEnc_def)
  have b64: "encodeBase64Url [8] = ''CA''" "encodeBase64Url [7] = ''Bw''"
    "encodeBase64Url (TextEncoder_encode ''{}'') = ''e30''"
    by (simp_all add: TextEncoder_encode_def b64url_char_def b64url_alphabet_def)
  show ?thesis
    unfolding encrypt_def encrypt_body_def
    by (cases aad)
       (simp_all add: sample_jwk_facts aes sample_encrypter_def merge crit alg enc va t b64
        sample_deriveEncryptionKey sample_platform_fields
        bnd_def call_def lift_def try_catch_def ret_def ensureUint8Array_def
        updateProtectedHeader_def encodeBase64UrlHeader_def Let_def
        b64url_char_def b64url_alphabet_def)
qed

lemma sample_headers:
  "mergeJweHeaders (JObj [(''alg'', JStr ''ECDH-ES''), (''enc'', JStr ''A256GCM''), (''epk'', JStr ''mine'')])
      JUndefined JUndefined
     = Inr [(''alg'', JStr ''ECDH-ES''), (''enc'', JStr ''A256GCM''), (''epk'', JStr ''mine'')]"
  "validateCrit JweInvalid None None
      (JObj [(''alg'', JStr ''ECDH-ES''), (''enc'', JStr ''A256GCM''), (''epk'', JStr ''mine'')])
      [(''alg'', JStr ''ECDH-ES''), (''enc'', JStr ''A256GCM''), (''epk'', JStr ''mine'')] = Inr {}"
  "mergeJweHeaders (JObj [(''alg'', JStr ''ECDH-ES''), (''enc'', JStr ''A256GCM'')])
      JUndefined JUndefined
     = Inr [(''alg'', JStr ''ECDH-ES''), (''enc'', JStr ''A256GCM'')]"
  "validateCrit JweInvalid None None
      (JObj [(''alg'', JStr ''ECDH-ES''), (''enc'', JStr ''A256GCM'')])
      [(''alg'', JStr ''ECDH-ES''), (''enc'', JStr ''A256GCM'')] = Inr {}"
  by (simp_all add: mergeJweHeaders_def verifyJweHeaders_def areDisjoint_def Object_keys_def
      js_spread_def obj_get_def validateCrit_def)

lemma sample_run_epk:
  "encrypt (sample_platform JNull True)
      (sample_encrypter
         (JObj [(''alg'', JStr ''ECDH-ES''), (''enc'', JStr ''A256GCM''), (''epk'', JStr ''mine'')])
         JUndefined JUndefined None)
      (JBytes [72, 105]) sample_jwk None
   = ([Call_createEcdhCurve (JStr ''P-256''), Call_toRawPublicKey sample_jwk,
       Call_randomPrivateKey, Call_getPublicKey [1], Call_toJwkPublicKey [2],
       Call_getSharedSecret [1] [3],
       Call_aes_encrypt ''A256GCM'' [72, 105] (replicate 32 0) (TextEncoder_encode ''e30'')],
      Inr (sample_encrypter
             (JObj [(''alg'', JStr ''ECDH-ES''), (''enc'', JStr ''A256GCM''), (''epk'', sample_epk)])
             JUndefined JUndefined None,
           \<lparr>jwe_ciphertext = ''SGk'', jwe_iv = ''CA'', jwe_tag = ''Bw'',
            jwe_protected = ''e30'', jwe_encrypted_key = None, jwe_aad = None,
            jwe_unprotected = None, jwe_header = None\<rparr>))"
  by (simp add: sample_encrypt_run [OF sample_headers(1) sample_headers(2)] obj_get_def
      js_spread_def encodeAesAad_def b64url_char_def b64url_alphabet_def)

theorem encrypt_merges_parameters_over_protected_header_witness:
  "\<forall>k. get_prop (JObj [(''alg'', JStr ''ECDH-ES''), (''enc'', JStr ''A256GCM''),
                        (''epk'', sample_epk)]) k
         = (if k = ''epk'' then sample_epk
            else get_prop (JObj [(''alg'', JStr ''ECDH-ES''), (''enc'', JStr ''A256GCM''),
                                 (''epk'', JStr ''mine'')]) k)"
proof -
  have f: "fe_protectedHeader (sample_encrypter h a b c) = h"
    "truthy (get_prop (fe_keyManagementParameters (sample_encrypter h a b c)) n) = False"
    "aes_randomBytes (fe_aes (sample_encrypter h a b c)) = aes_randomBytes sample_aes"
    for h a b c n
    by (simp_all add: sample_encrypter_def)
  from encrypt_merges_parameters_over_protected_header [OF sample_run_epk]
  obtain curve pub epk where
    c: "createEcdhCurve (sample_platform JNull True) (get_prop sample_jwk ''crv'')
          (aes_randomBytes sample_aes) = Some curve"
    and e: "ecdh_toJwkPublicKey curve pub = Some epk"
    and l: "\<forall>k. get_prop (JObj [(''alg'', JStr ''ECDH-ES''), (''enc'', JStr ''A256GCM''),
                        (''epk'', sample_epk)]) k
             = (if k = ''epk'' then epk
                else if k = ''apu'' \<and> False then JStr (encodeBase64Url (ensureUint8Array
                       (get_prop (fe_keyManagementParameters (sample_encrypter
                          (JObj [(''alg'', JStr ''ECDH-ES''), (''enc'', JStr ''A256GCM''),
                                 (''epk'', JStr ''mine'')]) JUndefined JUndefined None)) ''apu'')))
                else if k = ''apv'' \<and> False then JStr (encodeBase64Url (ensureUint8Array
                       (get_prop (fe_keyManagementParameters (sample_encrypter
                          (JObj [(''alg'', JStr ''ECDH-ES''), (''enc'', JStr ''A256GCM''),
                                 (''epk'', JStr ''mine'')]) JUndefined JUndefined None)) ''apv'')))
                else get_prop (JObj [(''alg'', JStr ''ECDH-ES''), (''enc'', JStr ''A256GCM''),
                                 (''epk'', JStr ''mine'')]) k)"
    unfolding f by blast
  from c have "curve = sample_curve" by (simp add: sample_platform_fields)
  with e have "epk = sample_epk" by (simp add: sample_curve_def)
  with l show ?thesis by simp
qed

theorem encrypt_overwrites_epk_counterexample:
  "encrypt (sample_platform JNull True)
      (sample_encrypter
         (JObj [(''alg'', JStr ''ECDH-ES''), (''enc'', JStr ''A256GCM''), (''epk'', JStr ''mine'')])
         JUndefined JUndefined None)
      (JBytes [72, 105]) sample_jwk None
   = ([Call_createEcdhCurve (JStr ''P-256''), Call_toRawPublicKey sample_jwk,
       Call_randomPrivateKey, Call_getPublicKey [1], Call_toJwkPublicKey [2],
       Call_getSharedSecret [1] [3],
       Call_aes_encrypt ''A256GCM'' [72, 105] (replicate 32 0) (TextEncoder_encode ''e30'')],
      Inr (sample_encrypter
             (JObj [(''alg'', JStr ''ECDH-ES''), (''enc'', JStr ''A256GCM''), (''epk'', sample_epk)])
             JUndefined JUndefined None,
           \<lparr>jwe_ciphertext = ''SGk'', jwe_iv = ''CA'', jwe_tag = ''Bw'',
            jwe_protected = encodeBase64UrlHeader (sample_platform JNull True)
               (JObj [(''alg'', JStr ''ECDH-ES''), (''enc'', JStr ''A256GCM''), (''epk'', sample_epk)]),
            jwe_encrypted_key = None, jwe_aad = None,
            jwe_unprotected = None, jwe_header = None\<rparr>))
   \<and> get_prop (JObj [(''alg'', JStr ''ECDH-ES''), (''enc'', JStr ''A256GCM''), (''epk'', sample_epk)]) ''epk''
       \<noteq> get_prop (JObj [(''alg'', JStr ''ECDH-ES''), (''enc'', JStr ''A256GCM''), (''epk'', JStr ''mine'')]) ''epk''"
  by (simp add: sample_run_epk encodeBase64UrlHeader_def sample_platform_fields
      TextEncoder_encode_def b64url_char_def b64url_alphabet_def obj_get_def sample_epk_def)

lemma zip_header:
  "verifyJweHeaders (JObj [(''alg'', JStr ''ECDH-ES''), (''enc'', JStr ''A256GCM''), (''zip'', JStr ''DEF'')])
      JUndefined JUndefined = Inr ()"
  "has_zip (JObj [(''alg'', JStr ''ECDH-ES''), (''enc'', JStr ''A256GCM''), (''zip'', JStr ''DEF'')])"
  "mergeJweHeaders (JObj [(''alg'', JStr ''ECDH-ES''), (''enc'', JStr ''A256GCM''), (''zip'', JStr ''DEF'')])
      JUndefined JUndefined
     = Inl (JweNotSupported ''JWE \"zip\" (Compression Algorithm) Header Parameter is not supported.'')"
  "parseBase64UrlHeader
      (sample_platform (JObj [(''alg'', JStr ''ECDH-ES''), (''enc'', JStr ''A256GCM''), (''zip'', JStr ''DEF'')]) True)
      (get_prop (JObj [(''protected'', JStr ''e30''), (''iv'', JStr ''CA''), (''ciphertext'', JStr ''SGk''),
                       (''tag'', JStr ''Bw'')]) ''protected'')
      ''JWE Protected Header''
     = Inr (JObj [(''alg'', JStr ''ECDH-ES''), (''enc'', JStr ''A256GCM''), (''zip'', JStr ''DEF'')])"
  by (simp_all add: mergeJweHeaders_def verifyJweHeaders_def areDisjoint_def Object_keys_def
      js_spread_def obj_get_def has_zip_def parseBase64UrlHeader_def decodeRequiredBase64Url_def
      decodeBase64Url_def sample_platform_fields)

theorem zip_rejection_witness:
  "mergeJweHeaders (JObj [(''alg'', JStr ''ECDH-ES''), (''enc'', JStr ''A256GCM''), (''zip'', JStr ''DEF'')])
      JUndefined JUndefined
     = Inl (JweNotSupported ''JWE \"zip\" (Compression Algorithm) Header Parameter is not supported.'')
   \<and> (\<exists>evs msg. encrypt
         (sample_platform (JObj [(''alg'', JStr ''ECDH-ES''), (''enc'', JStr ''A256GCM''), (''zip'', JStr ''DEF'')]) True)
         (sample_encrypter
            (JObj [(''alg'', JStr ''ECDH-ES''), (''enc'', JStr ''A256GCM''), (''zip'', JStr ''DEF'')])
            JUndefined JUndefined None)
         (JBytes [72, 105]) sample_jwk None = (evs, Inl (JweInvalid msg)))
   \<and> (\<exists>evs msg. decrypt
         (sample_platform (JObj [(''alg'', JStr ''ECDH-ES''), (''enc'', JStr ''A256GCM''), (''zip'', JStr ''DEF'')]) True)
         sample_aes
         (JObj [(''protected'', JStr ''e30''), (''iv'', JStr ''CA''), (''ciphertext'', JStr ''SGk''),
                (''tag'', JStr ''Bw'')])
         sample_jwk None = (evs, Inl (JweInvalid msg)))"
proof -
  have f: "fe_protectedHeader (sample_encrypter h a b c) = h" for h a b c
    by (simp add: sample_encrypter_def)
  note z = zip_rejection
    [where ph = "JObj [(''alg'', JStr ''ECDH-ES''), (''enc'', JStr ''A256GCM''), (''zip'', JStr ''DEF'')]"
       and sh = JUndefined and uh = JUndefined
       and this = "sample_encrypter
            (JObj [(''alg'', JStr ''ECDH-ES''), (''enc'', JStr ''A256GCM''), (''zip'', JStr ''DEF'')])
            JUndefined JUndefined None"
       and plaintext = "JBytes [72, 105]" and jwk = sample_jwk
       and options = None
       and pf = "sample_platform (JObj [(''alg'', JStr ''ECDH-ES''), (''enc'', JStr ''A256GCM''), (''zip'', JStr ''DEF'')]) True"
       and aes = sample_aes
       and jwe = "JObj [(''protected'', JStr ''e30''), (''iv'', JStr ''CA''), (''ciphertext'', JStr ''SGk''),
                (''tag'', JStr ''Bw'')]"
       and key = sample_jwk and doptions = None]
  from z zip_header show ?thesis unfolding f by blast
qed

theorem zip_encrypt_error_counterexample:
  "has_zip (fe_protectedHeader (sample_encrypter
      (JObj [(''alg'', JStr ''ECDH-ES''), (''enc'', JStr ''A256GCM''), (''zip'', JStr ''DEF'')])
      JUndefined JUndefined None))
   \<and> encrypt (sample_platform JNull True)
       (sample_encrypter
          (JObj [(''alg'', JStr ''ECDH-ES''), (''enc'', JStr ''A256GCM''), (''zip'', JStr ''DEF'')])
          JUndefined JUndefined None)
       (JBytes [72, 105]) sample_jwk None
     = ([Call_createEcdhCurve (JStr ''P-256''), Call_toRawPublicKey sample_jwk],
        Inl (JweInvalid ''Failed to encrypt plaintext''))
   \<and> JweInvalid ''Failed to encrypt plaintext''
       \<noteq> JweNotSupported ''JWE \"zip\" (Compression Algorithm) Header Parameter is not supported.''"
proof -
  have f: "fe_protectedHeader (sample_encrypter h a b c) = h"
    "fe_sharedUnprotectedHeader (sample_encrypter h a b c) = a"
    "fe_unprotectedHeader (sample_encrypter h a b c) = b" for h a b c
    by (simp_all add: sample_encrypter_def)
  show ?thesis
    by (simp add: f zip_header sample_encrypt_merge_fails [where e = "JweNotSupported ''JWE \"zip\" (Compression Algorithm) Header Parameter is not supported.''"])
qed

section \<open>The additional authenticated data given to the AEAD\<close>

lemma encodeBase64Url_Nil_iff: "encodeBase64Url bs = [] \<longleftrightarrow> bs = []"
  by (cases bs rule: encodeBase64Url.cases) simp_all

lemma updateProtectedHeader_aad:
  "updateProtectedHeader this parameters = Inr this' \<Longrightarrow> fe_aad this' = fe_aad this"
  by (auto simp: updateProtectedHeader_def FlattenedEncrypter_protectedHeader_def
      split: if_splits)

lemma encodeAesAad_cases:
  "encodeAesAad p (case aad of None \<Rightarrow> None | Some a \<Rightarrow> Some (encodeBase64Url a))
     = (case aad of
          None \<Rightarrow> TextEncoder_encode p
        | Some a \<Rightarrow> if a = [] then TextEncoder_encode p
                    else TextEncoder_encode (p @ ''.'' @ encodeBase64Url a))"
  by (simp add: encodeAesAad_def encodeBase64Url_Nil_iff split: option.splits)

text \<open>
  C9 (as the code has it). A successful \<^verbatim>\<open>encrypt\<close> ends with the call of the AEAD, and the
  additional authenticated data of that call is: the UTF-8 bytes of the encoded protected
  header when the builder holds no \<open>aad\<close>; the UTF-8 bytes of the encoded protected header,
  a dot and the base64url of \<open>aad\<close> when the builder holds a non-empty \<open>aad\<close>; and the UTF-8
  bytes of the encoded protected header alone, without the dot, when the builder holds the
  empty \<open>aad\<close>. The \<^verbatim>\<open>aad\<close> member of the result is the base64url of the builder's \<open>aad\<close>
  whenever it holds one, the empty one included.
\<close>

theorem encrypt_aead_additional_data:
  assumes "encrypt pf this plaintext jwk options = (evs, Inr (this', jwe))"
  shows "\<exists>enc cek.
      evs \<noteq> []
    \<and> last evs = Call_aes_encrypt enc (ensureUint8Array plaintext) cek
        (case fe_aad this of
           None \<Rightarrow> TextEncoder_encode (jwe_protected jwe)
         | Some a \<Rightarrow>
             if a = [] then TextEncoder_encode (jwe_protected jwe)
             else TextEncoder_encode (jwe_protected jwe @ ''.'' @ encodeBase64Url a))
    \<and> jwe_aad jwe = map_option encodeBase64Url (fe_aad this)"
proof -
  from encrypt_success [OF assms] obtain curve ypk alg enc evs1 cek ek parameters where
    upd: "updateProtectedHeader this (JObj parameters) = Inr this'"
    and aad: "jwe_aad jwe = (case fe_aad this' of None \<Rightarrow> None | Some a \<Rightarrow> Some (encodeBase64Url a))"
    and evs: "evs = [Call_createEcdhCurve (get_prop jwk ''crv''), Call_toRawPublicKey jwk] @ evs1
           @ [Call_aes_encrypt enc (ensureUint8Array plaintext) cek
                (encodeAesAad (jwe_protected jwe)
                   (case fe_aad this' of None \<Rightarrow> None | Some a \<Rightarrow> Some (encodeBase64Url a)))]"
    by blast
  have same: "fe_aad this' = fe_aad this" by (rule updateProtectedHeader_aad [OF upd])
  have l: "last evs = Call_aes_encrypt enc (ensureUint8Array plaintext) cek
                (encodeAesAad (jwe_protected jwe)
                   (case fe_aad this of None \<Rightarrow> None | Some a \<Rightarrow> Some (encodeBase64Url a)))"
    unfolding evs same by simp
  have ne: "evs \<noteq> []" unfolding evs by simp
  have m: "jwe_aad jwe = map_option encodeBase64Url (fe_aad this)"
    unfolding aad same by (simp split: option.splits)
  from ne l [unfolded encodeAesAad_cases] m show ?thesis by blast
qed

lemma sample_run_empty_aad:
  "encrypt (sample_platform JNull True)
      (sample_encrypter (JObj [(''alg'', JStr ''ECDH-ES''), (''enc'', JStr ''A256GCM'')])
         JUndefined JUndefined (Some []))
      (JBytes [72, 105]) sample_jwk None
   = ([Call_createEcdhCurve (JStr ''P-256''), Call_toRawPublicKey sample_jwk,
       Call_randomPrivateKey, Call_getPublicKey [1], Call_toJwkPublicKey [2],
       Call_getSharedSecret [1] [3],
       Call_aes_encrypt ''A256GCM'' [72, 105] (replicate 32 0) (TextEncoder_encode ''e30'')],
      Inr (sample_encrypter
             (JObj [(''alg'', JStr ''ECDH-ES''), (''enc'', JStr ''A256GCM''), (''epk'', sample_epk)])
             JUndefined JUndefined (Some []),
           \<lparr>jwe_ciphertext = ''SGk'', jwe_iv = ''CA'', jwe_tag = ''Bw'',
            jwe_protected = ''e30'', jwe_encrypted_key = None, jwe_aad = Some [],
            jwe_unprotected = None, jwe_header = None\<rparr>))"
proof -
  have e: "get_prop (JObj [(''alg'', JStr ''ECDH-ES''), (''enc'', JStr ''A256GCM'')]) ''alg''
             = JStr ''ECDH-ES''"
    "get_prop (JObj [(''alg'', JStr ''ECDH-ES''), (''enc'', JStr ''A256GCM'')]) ''enc''
             = JStr ''A256GCM''"
    by (simp_all add: obj_get_def)
  show ?thesis
    by (simp add: sample_encrypt_run [OF sample_headers(3) sample_headers(4) e]
        encodeAesAad_def js_spread_def b64url_char_def b64url_alphabet_def)
qed

theorem encrypt_aead_additional_data_witness:
  "\<exists>enc cek.
      last [Call_createEcdhCurve (JStr ''P-256''), Call_toRawPublicKey sample_jwk,
            Call_randomPrivateKey, Call_getPublicKey [1], Call_toJwkPublicKey [2],
            Call_getSharedSecret [1] [3],
            Call_aes_encrypt ''A256GCM'' [72, 105] (replicate 32 0) (TextEncoder_encode ''e30'')]
        = Call_aes_encrypt enc [72, 105] cek (TextEncoder_encode ''e30'')"
proof -
  have f: "fe_aad (sample_encrypter h a b c) = c" for h a b c
    by (simp add: sample_encrypter_def)
  from encrypt_aead_additional_data [OF sample_run_empty_aad]
  show ?thesis unfolding f by (simp add: ensureUint8Array_def)
qed

theorem encrypt_empty_aad_omits_separator:
  "encrypt (sample_platform JNull True)
      (sample_encrypter (JObj [(''alg'', JStr ''ECDH-ES''), (''enc'', JStr ''A256GCM'')])
         JUndefined JUndefined (Some []))
      (JBytes [72, 105]) sample_jwk None
   = ([Call_createEcdhCurve (JStr ''P-256''), Call_toRawPublicKey sample_jwk,
       Call_randomPrivateKey, Call_getPublicKey [1], Call_toJwkPublicKey [2],
       Call_getSharedSecret [1] [3],
       Call_aes_encrypt ''A256GCM'' [72, 105] (replicate 32 0) (TextEncoder_encode ''e30'')],
      Inr (sample_encrypter
             (JObj [(''alg'', JStr ''ECDH-ES''), (''enc'', JStr ''A256GCM''), (''epk'', sample_epk)])
             JUndefined JUndefined (Some []),
           \<lparr>jwe_ciphertext = ''SGk'', jwe_iv = ''CA'', jwe_tag = ''Bw'',
            jwe_protected = ''e30'', jwe_encrypted_key = None, jwe_aad = Some [],
            jwe_unprotected = None, jwe_header = None\<rparr>))
   \<and> TextEncoder_encode ''e30'' \<noteq> TextEncoder_encode (''e30'' @ ''.'' @ encodeBase64Url [])"
  by (simp add: sample_run_empty_aad TextEncoder_encode_def)

section \<open>The errors of \<^verbatim>\<open>verify\<close>\<close>

lemma validateCrit_Inl:
  "validateCrit Err d opt ph jh = Inl e \<Longrightarrow> \<exists>m. e = Err m"
  unfolding validateCrit_def Let_def
  by (auto split: if_splits jsval.splits sum.splits dest: validateCrit_loop_Inl)

lemma decodeBase64Url_Inl:
  "decodeBase64Url d v l req = Inl e \<Longrightarrow> \<exists>m. e = JoseInvalid m"
  unfolding decodeBase64Url_def
  by (auto split: if_splits jsval.splits option.splits)

lemma decodeRequiredBase64Url_Inl:
  "decodeRequiredBase64Url d v l = Inl e \<Longrightarrow> \<exists>m. e = JoseInvalid m"
  unfolding decodeRequiredBase64Url_def
  by (auto split: sum.splits option.splits dest: decodeBase64Url_Inl)

lemma parseBase64UrlHeader_Inl:
  "parseBase64UrlHeader pf v l = Inl e \<Longrightarrow> \<exists>m. e = JoseInvalid m"
  unfolding parseBase64UrlHeader_def
  by (auto split: sum.splits option.splits if_splits dest: decodeRequiredBase64Url_Inl)

lemma mergeJwsHeaders_Inl:
  "mergeJwsHeaders ph uh = Inl e \<Longrightarrow> \<exists>m. e = JwsInvalid m"
  unfolding mergeJwsHeaders_def verifyJwsHeaders_def
  by (auto split: sum.splits if_splits)

lemma validateFlattenedJws_Inl:
  "validateFlattenedJws pf jws = Inl e \<Longrightarrow> \<not> is_JwsSignatureVerificationFailed e"
  unfolding validateFlattenedJws_def
  by (auto split: sum.splits if_splits
      dest!: decodeRequiredBase64Url_Inl parseBase64UrlHeader_Inl mergeJwsHeaders_Inl)

lemma parseB64_Inl:
  "parseB64 b S = Inl e \<Longrightarrow> \<not> is_JwsSignatureVerificationFailed e"
  unfolding parseB64_def Let_def
  by (auto split: if_splits jsval.splits)

lemma validateJwsAlg_Inl:
  "validateJwsAlg a x = Inl e \<Longrightarrow> \<not> is_JwsSignatureVerificationFailed e"
  unfolding validateJwsAlg_def
  by (auto split: if_splits jsval.splits)

lemma encodeVerifyTarget_result:
  "encodeVerifyTarget pf p pl b = (evs, r) \<Longrightarrow>
     evs = [] \<and> (\<forall>e. r = Inl e \<longrightarrow> \<not> is_JwsSignatureVerificationFailed e)"
  unfolding encodeVerifyTarget_def
  by (auto simp: throw_def ret_def split: if_splits jsval.splits option.splits)

lemma bnd_lift: "bnd (lift x) f = (case x of Inl e \<Rightarrow> ([], Inl e) | Inr v \<Rightarrow> f v)"
  by (simp add: bnd_def lift_def split: sum.splits prod.splits)

lemma bnd_call:
  "bnd (call ev x) f
     = (case x of None \<Rightarrow> ([ev], Inl (GenericError ''provider''))
        | Some v \<Rightarrow> (ev # fst (f v), snd (f v)))"
  by (simp add: bnd_def call_def split: option.splits prod.splits)

lemma bnd_ret: "bnd ([], Inr x) f = f x"
  by (simp add: bnd_def split: prod.splits)

lemma bnd_pure:
  "m = ([], r) \<Longrightarrow> bnd m f = (case r of Inl e \<Rightarrow> ([], Inl e) | Inr v \<Rightarrow> f v)"
  by (simp add: bnd_def split: sum.splits prod.splits)

lemma verify_body_cases:
  "\<exists>evs r. verify_body pf rb jws key options = (evs, r) \<and>
     ((\<exists>e. r = Inl e \<and> \<not> is_JwsSignatureVerificationFailed e
           \<and> (\<forall>pk t s. Call_verify pk t s \<notin> set evs))
      \<or> (\<exists>curve pk target sg.
            createSignatureCurve pf (get_prop key ''crv'') rb = Some curve
          \<and> sig_toRawPublicKey curve key = Some pk
          \<and> evs = [Call_createSignatureCurve (get_prop key ''crv''), Call_toRawPublicKey key,
                   Call_verify pk target sg]
          \<and> (case sig_verify curve pk target sg of
                None \<Rightarrow> r = Inl (GenericError ''provider'')
              | Some b \<Rightarrow>
                  if b then (\<exists>res. r = Inr res)
                  else r = Inl (JwsSignatureVerificationFailed
                                  ''JWS signature verification failed''))))"
proof (cases "createSignatureCurve pf (get_prop key ''crv'') rb")
  case None
  then show ?thesis by (simp add: verify_body_def bnd_call)
next
  case (Some curve)
  note c = Some
  show ?thesis
  proof (cases "sig_toRawPublicKey curve key")
    case None
    then show ?thesis using c by (simp add: verify_body_def bnd_call)
  next
    case (Some pk)
    note k = Some
    show ?thesis
    proof (cases "validateFlattenedJws pf jws")
      case (Inl e)
      then show ?thesis using c k validateFlattenedJws_Inl [OF Inl]
        by (simp add: verify_body_def bnd_call bnd_lift)
    next
      case (Inr v)
      note v = Inr
      show ?thesis
      proof (cases "validateCrit JwsInvalid (Some [(''b64'', True)])
                  (case options of None \<Rightarrow> None | Some opts \<Rightarrow> vo_crit opts)
                  (vs_parsedProtected v) (vs_joseHeader v)")
        case (Inl e)
        from validateCrit_Inl [OF Inl] have "\<not> is_JwsSignatureVerificationFailed e" by auto
        then show ?thesis using c k v Inl
          by (simp add: verify_body_def bnd_call bnd_lift)
      next
        case (Inr S)
        note S = Inr
        show ?thesis
        proof (cases "parseB64 (get_prop (vs_parsedProtected v) ''b64'') S")
          case (Inl e)
          then show ?thesis using c k v S parseB64_Inl [OF Inl]
            by (simp add: verify_body_def bnd_call bnd_lift)
        next
          case (Inr b64)
          note b = Inr
          show ?thesis
          proof (cases "validateJwsAlg (get_prop (vs_parsedProtected v) ''alg'')
                  (sig_signatureAlgorithmName curve)")
            case (Inl e)
            then show ?thesis using c k v S b validateJwsAlg_Inl [OF Inl]
              by (simp add: verify_body_def bnd_call bnd_lift)
          next
            case (Inr a)
            note a = Inr
            obtain r where t: "encodeVerifyTarget pf
                (case string_field (get_prop jws ''protected'') of None \<Rightarrow> [] | Some p \<Rightarrow> p)
                (get_prop jws ''payload'') b64 = ([], r)"
              and r: "\<forall>e. r = Inl e \<longrightarrow> \<not> is_JwsSignatureVerificationFailed e"
              using encodeVerifyTarget_result
              by (metis surj_pair)
            show ?thesis
            proof (cases r)
              case (Inl e)
              then show ?thesis using c k v S b a r
                by (simp add: verify_body_def bnd_call bnd_lift bnd_pure [OF t])
            next
              case (Inr tp)
              obtain target payload where tp: "tp = (target, payload)" by (cases tp)
              show ?thesis using c k v S b a Inr tp
                by (cases "sig_verify curve pk target (vs_signature v)")
                   (auto simp: verify_body_def bnd_call bnd_lift bnd_pure [OF t] throw_def ret_def)
            qed
          qed
        qed
      qed
    qed
  qed
qed

lemma sample_verify:
  "verify (sample_platform (JObj [(''alg'', JStr ''ES256'')]) verdict) (\<lambda>n. replicate n 0)
      (JObj [(''protected'', JStr ''e30''), (''payload'', JStr ''SGk''),
             (''signature'', JStr ''Bg'')])
      sample_jwk None
   = ([Call_createSignatureCurve (JStr ''P-256''), Call_toRawPublicKey sample_jwk,
       Call_verify [3] (TextEncoder_encode ''e30.SGk'') []],
      if verdict then
        Inr \<lparr>vfr_payload = [], vfr_protectedHeader = Some (JObj [(''alg'', JStr ''ES256'')]),
             vfr_unprotectedHeader = None\<rparr>
      else Inl (JwsSignatureVerificationFailed ''JWS signature verification failed''))"
proof -
  have v: "validateFlattenedJws (sample_platform (JObj [(''alg'', JStr ''ES256'')]) vd)
             (JObj [(''protected'', JStr ''e30''), (''payload'', JStr ''SGk''),
                    (''signature'', JStr ''Bg'')])
           = Inr \<lparr>vs_signature = [], vs_joseHeader = [(''alg'', JStr ''ES256'')],
                  vs_parsedProtected = JObj [(''alg'', JStr ''ES256'')]\<rparr>" for vd
    by (simp add: validateFlattenedJws_def decodeRequiredBase64Url_def decodeBase64Url_def
        parseBase64UrlHeader_def sample_platform_fields obj_get_def mergeJwsHeaders_def
        verifyJwsHeaders_def areDisjoint_def Object_keys_def js_spread_def)
  have c: "validateCrit JwsInvalid (Some [(''b64'', True)]) None
             (JObj [(''alg'', JStr ''ES256'')]) [(''alg'', JStr ''ES256'')] = Inr {}"
    by (simp add: validateCrit_def obj_get_def)
  have a: "validateJwsAlg (JStr ''ES256'') ''ES256'' = Inr ''ES256''"
    by (simp add: validateJwsAlg_def isJwsAlg_def JWS_ALGS_def)
  have s: "sig_toRawPublicKey (sample_signature_curve vd) = (\<lambda>_. Some [3])"
    "sig_verify (sample_signature_curve vd) = (\<lambda>_ _ _. Some vd)"
    "sig_signatureAlgorithmName (sample_signature_curve vd) = ''ES256''" for vd
    by (simp_all add: sample_signature_curve_def)
  have n: "\<not> is_nullish sample_jwk"
    "\<not> is_nullish (JObj [(''protected'', JStr ''e30''), (''payload'', JStr ''SGk''),
             (''signature'', JStr ''Bg'')])"
    by (simp_all add: sample_jwk_def)
  have p: "parseB64 x {} = Inr True" for x
    by (simp add: parseB64_def)
  have t: "encodeVerifyTarget (sample_platform (JObj [(''alg'', JStr ''ES256'')]) vd)
             ''e30'' (JStr ''SGk'') True
           = ret (TextEncoder_encode ''e30.SGk'', [])" for vd
    by (simp add: encodeVerifyTarget_def sample_platform_fields)
  show ?thesis
    by (cases verdict)
       (simp_all add: verify_def verify_body_def sample_jwk_facts sample_platform_fields
        v c a s n p t bnd_call bnd_lift bnd_ret try_catch_def string_field_def
        obj_get_def ret_def throw_def)
qed

lemma verify_classes:
  assumes "\<not> is_nullish jws" and "isPlainObject jws" and "\<not> is_nullish key"
    and "isPlainObject key" and "truthy (get_prop key ''crv'')"
  shows "\<exists>evs r. verify pf rb jws key options = (evs, r) \<and>
     ((r = Inl (JwsInvalid ''Failed to verify JWS signature'')
         \<and> (\<forall>pk t s. Call_verify pk t s \<notin> set evs))
      \<or> (\<exists>curve pk target sg.
            createSignatureCurve pf (get_prop key ''crv'') rb = Some curve
          \<and> sig_toRawPublicKey curve key = Some pk
          \<and> evs = [Call_createSignatureCurve (get_prop key ''crv''), Call_toRawPublicKey key,
                   Call_verify pk target sg]
          \<and> (case sig_verify curve pk target sg of
                None \<Rightarrow> r = Inl (JwsInvalid ''Failed to verify JWS signature'')
              | Some b \<Rightarrow>
                  if b then (\<exists>res. r = Inr res)
                  else r = Inl (JwsSignatureVerificationFailed
                                  ''JWS signature verification failed''))))"
proof -
  have v: "verify pf rb jws key options
             = try_catch (verify_body pf rb jws key options)
                 (\<lambda>error. if is_JwsSignatureVerificationFailed error then throw error
                           else throw (JwsInvalid ''Failed to verify JWS signature''))"
    using assms by (simp add: verify_def)
  from verify_body_cases [of pf rb jws key options] obtain evs r where
    body: "verify_body pf rb jws key options = (evs, r)"
    and cases: "(\<exists>e. r = Inl e \<and> \<not> is_JwsSignatureVerificationFailed e
           \<and> (\<forall>pk t s. Call_verify pk t s \<notin> set evs))
      \<or> (\<exists>curve pk target sg.
            createSignatureCurve pf (get_prop key ''crv'') rb = Some curve
          \<and> sig_toRawPublicKey curve key = Some pk
          \<and> evs = [Call_createSignatureCurve (get_prop key ''crv''), Call_toRawPublicKey key,
                   Call_verify pk target sg]
          \<and> (case sig_verify curve pk target sg of
                None \<Rightarrow> r = Inl (GenericError ''provider'')
              | Some b \<Rightarrow>
                  if b then (\<exists>res. r = Inr res)
                  else r = Inl (JwsSignatureVerificationFailed
                                  ''JWS signature verification failed'')))"
    by blast
  from cases show ?thesis
  proof
    assume "\<exists>e. r = Inl e \<and> \<not> is_JwsSignatureVerificationFailed e
           \<and> (\<forall>pk t s. Call_verify pk t s \<notin> set evs)"
    then obtain e where "r = Inl e" "\<not> is_JwsSignatureVerificationFailed e"
      "\<forall>pk t s. Call_verify pk t s \<notin> set evs" by blast
    then have "verify pf rb jws key options
                 = (evs, Inl (JwsInvalid ''Failed to verify JWS signature''))"
      by (simp add: v body try_catch_def throw_def)
    with \<open>\<forall>pk t s. Call_verify pk t s \<notin> set evs\<close> show ?thesis by blast
  next
    assume "\<exists>curve pk target sg.
            createSignatureCurve pf (get_prop key ''crv'') rb = Some curve
          \<and> sig_toRawPublicKey curve key = Some pk
          \<and> evs = [Call_createSignatureCurve (get_prop key ''crv''), Call_toRawPublicKey key,
                   Call_verify pk target sg]
          \<and> (case sig_verify curve pk target sg of
                None \<Rightarrow> r = Inl (GenericError ''provider'')
              | Some b \<Rightarrow>
                  if b then (\<exists>res. r = Inr res)
                  else r = Inl (JwsSignatureVerificationFailed
                                  ''JWS signature verification failed''))"
    then obtain curve pk target sg where
      c: "createSignatureCurve pf (get_prop key ''crv'') rb = Some curve"
      and k: "sig_toRawPublicKey curve key = Some pk"
      and e: "evs = [Call_createSignatureCurve (get_prop key ''crv''), Call_toRawPublicKey key,
                   Call_verify pk target sg]"
      and r: "case sig_verify curve pk target sg of
                None \<Rightarrow> r = Inl (GenericError ''provider'')
              | Some b \<Rightarrow>
                  if b then (\<exists>res. r = Inr res)
                  else r = Inl (JwsSignatureVerificationFailed
                                  ''JWS signature verification failed'')"
      by blast
    let ?h = "\<lambda>error. if is_JwsSignatureVerificationFailed error then throw error
                           else throw (JwsInvalid ''Failed to verify JWS signature'')"
    have "case sig_verify curve pk target sg of
                None \<Rightarrow> try_catch (evs, r) ?h
                          = (evs, Inl (JwsInvalid ''Failed to verify JWS signature''))
              | Some b \<Rightarrow>
                  if b then (\<exists>res. try_catch (evs, r) ?h = (evs, Inr res))
                  else try_catch (evs, r) ?h
                         = (evs, Inl (JwsSignatureVerificationFailed
                                  ''JWS signature verification failed''))"
      using r by (auto simp: try_catch_def throw_def split: option.splits)
    then have "\<exists>r'. verify pf rb jws key options = (evs, r')
        \<and> (case sig_verify curve pk target sg of
                None \<Rightarrow> r' = Inl (JwsInvalid ''Failed to verify JWS signature'')
              | Some b \<Rightarrow>
                  if b then (\<exists>res. r' = Inr res)
                  else r' = Inl (JwsSignatureVerificationFailed
                                  ''JWS signature verification failed''))"
      unfolding v body by (auto split: option.splits if_splits)
    with c k e show ?thesis by blast
  qed
qed

lemma verify_reaches_primitive:
  assumes "\<not> is_nullish jws" and "isPlainObject jws" and "\<not> is_nullish key"
    and "isPlainObject key" and "truthy (get_prop key ''crv'')"
    and c: "createSignatureCurve pf (get_prop key ''crv'') rb = Some curve"
    and k: "sig_toRawPublicKey curve key = Some pk"
    and v: "validateFlattenedJws pf jws = Inr v"
    and S: "validateCrit JwsInvalid (Some [(''b64'', True)])
            (case options of None \<Rightarrow> None | Some opts \<Rightarrow> vo_crit opts)
            (vs_parsedProtected v) (vs_joseHeader v) = Inr S"
    and b: "parseB64 (get_prop (vs_parsedProtected v) ''b64'') S = Inr b64"
    and a: "validateJwsAlg (get_prop (vs_parsedProtected v) ''alg'')
            (sig_signatureAlgorithmName curve) = Inr a"
    and p: "get_prop jws ''protected'' = JStr prot"
    and t: "if b64 then
              (\<exists>p. get_prop jws ''payload'' = JStr p \<and> decodeB64U pf p = Some pl
                   \<and> target = TextEncoder_encode (prot @ ''.'' @ p))
            else get_prop jws ''payload'' = JBytes pl
                   \<and> target = TextEncoder_encode (prot @ ''.'') @ pl"
  shows "verify pf rb jws key options
          = ([Call_createSignatureCurve (get_prop key ''crv''), Call_toRawPublicKey key,
              Call_verify pk target (vs_signature v)],
             case sig_verify curve pk target (vs_signature v) of
               None \<Rightarrow> Inl (JwsInvalid ''Failed to verify JWS signature'')
             | Some ok \<Rightarrow>
                 if ok then
                   Inr \<lparr>vfr_payload = pl,
                        vfr_protectedHeader = Some (vs_parsedProtected v),
                        vfr_unprotectedHeader =
                          (if get_prop jws ''header'' \<noteq> JUndefined
                           then Some (get_prop jws ''header'') else None)\<rparr>
                 else Inl (JwsSignatureVerificationFailed
                             ''JWS signature verification failed''))"
proof -
  have e: "encodeVerifyTarget pf prot (get_prop jws ''payload'') b64 = ([], Inr (target, pl))"
    using t by (cases b64) (auto simp: encodeVerifyTarget_def ret_def)
  have pp: "get_prop jws ''protected'' \<noteq> JUndefined" using p by simp
  show ?thesis
    using assms(1-5)
    by (cases "sig_verify curve pk target (vs_signature v)")
       (simp_all add: verify_def verify_body_def bnd_call bnd_lift bnd_ret try_catch_def
          throw_def ret_def c k v S b a p pp e string_field_def)
qed

text \<open>
  C8. Once \<^verbatim>\<open>verify\<close> is past the checks of its arguments, a run either fails before the
  signature primitive is called, with the generic error \<open>Failed to verify JWS signature\<close>, or
  it calls the primitive once, as its last provider call, and then: a primitive that raises
  gives the same generic error, a primitive that returns false gives the distinct error
  \<open>JWS signature verification failed\<close>, and a primitive that returns true gives a result.
  A well-formed input does reach the primitive: when the curve is resolved, the key
  converted, and the container, its \<^verbatim>\<open>crit\<close>, its \<^verbatim>\<open>b64\<close> and its \<^verbatim>\<open>alg\<close> pass validation, the
  primitive is called on the signing input, the encoded protected header, a dot and the
  payload (the base64url text of the container when \<^verbatim>\<open>b64\<close> is true, the raw bytes when it is
  false), and the outcome is the one the verdict of the primitive fixes.
\<close>

theorem verify_error_classes:
  assumes "\<not> is_nullish jws" and "isPlainObject jws" and "\<not> is_nullish key"
    and "isPlainObject key" and "truthy (get_prop key ''crv'')"
  shows "(\<exists>evs r. verify pf rb jws key options = (evs, r) \<and>
     ((r = Inl (JwsInvalid ''Failed to verify JWS signature'')
         \<and> (\<forall>pk t s. Call_verify pk t s \<notin> set evs))
      \<or> (\<exists>curve pk target sg.
            createSignatureCurve pf (get_prop key ''crv'') rb = Some curve
          \<and> sig_toRawPublicKey curve key = Some pk
          \<and> evs = [Call_createSignatureCurve (get_prop key ''crv''), Call_toRawPublicKey key,
                   Call_verify pk target sg]
          \<and> (case sig_verify curve pk target sg of
                None \<Rightarrow> r = Inl (JwsInvalid ''Failed to verify JWS signature'')
              | Some b \<Rightarrow>
                  if b then (\<exists>res. r = Inr res)
                  else r = Inl (JwsSignatureVerificationFailed
                                  ''JWS signature verification failed'')))))
   \<and> (createSignatureCurve pf (get_prop key ''crv'') rb = Some curve
        \<and> sig_toRawPublicKey curve key = Some pk
        \<and> validateFlattenedJws pf jws = Inr v
        \<and> validateCrit JwsInvalid (Some [(''b64'', True)])
            (case options of None \<Rightarrow> None | Some opts \<Rightarrow> vo_crit opts)
            (vs_parsedProtected v) (vs_joseHeader v) = Inr S
        \<and> parseB64 (get_prop (vs_parsedProtected v) ''b64'') S = Inr b64
        \<and> validateJwsAlg (get_prop (vs_parsedProtected v) ''alg'')
            (sig_signatureAlgorithmName curve) = Inr a
        \<and> get_prop jws ''protected'' = JStr prot
        \<and> (if b64 then
              (\<exists>p. get_prop jws ''payload'' = JStr p \<and> decodeB64U pf p = Some pl
                   \<and> target = TextEncoder_encode (prot @ ''.'' @ p))
            else get_prop jws ''payload'' = JBytes pl
                   \<and> target = TextEncoder_encode (prot @ ''.'') @ pl) \<longrightarrow>
        verify pf rb jws key options
          = ([Call_createSignatureCurve (get_prop key ''crv''), Call_toRawPublicKey key,
              Call_verify pk target (vs_signature v)],
             case sig_verify curve pk target (vs_signature v) of
               None \<Rightarrow> Inl (JwsInvalid ''Failed to verify JWS signature'')
             | Some ok \<Rightarrow>
                 if ok then
                   Inr \<lparr>vfr_payload = pl,
                        vfr_protectedHeader = Some (vs_parsedProtected v),
                        vfr_unprotectedHeader =
                          (if get_prop jws ''header'' \<noteq> JUndefined
                           then Some (get_prop jws ''header'') else None)\<rparr>
                 else Inl (JwsSignatureVerificationFailed
                             ''JWS signature verification failed'')))"
proof (rule conjI)
  show "\<exists>evs r. verify pf rb jws key options = (evs, r) \<and>
     ((r = Inl (JwsInvalid ''Failed to verify JWS signature'')
         \<and> (\<forall>pk t s. Call_verify pk t s \<notin> set evs))
      \<or> (\<exists>curve pk target sg.
            createSignatureCurve pf (get_prop key ''crv'') rb = Some curve
          \<and> sig_toRawPublicKey curve key = Some pk
          \<and> evs = [Call_createSignatureCurve (get_prop key ''crv''), Call_toRawPublicKey key,
                   Call_verify pk target sg]
          \<and> (case sig_verify curve pk target sg of
                None \<Rightarrow> r = Inl (JwsInvalid ''Failed to verify JWS signature'')
              | Some b \<Rightarrow>
                  if b then (\<exists>res. r = Inr res)
                  else r = Inl (JwsSignatureVerificationFailed
                                  ''JWS signature verification failed''))))"
    by (rule verify_classes [OF assms])
  show "createSignatureCurve pf (get_prop key ''crv'') rb = Some curve
        \<and> sig_toRawPublicKey curve key = Some pk
        \<and> validateFlattenedJws pf jws = Inr v
        \<and> validateCrit JwsInvalid (Some [(''b64'', True)])
            (case options of None \<Rightarrow> None | Some opts \<Rightarrow> vo_crit opts)
            (vs_parsedProtected v) (vs_joseHeader v) = Inr S
        \<and> parseB64 (get_prop (vs_parsedProtected v) ''b64'') S = Inr b64
        \<and> validateJwsAlg (get_prop (vs_parsedProtected v) ''alg'')
            (sig_signatureAlgorithmName curve) = Inr a
        \<and> get_prop jws ''protected'' = JStr prot
        \<and> (if b64 then
              (\<exists>p. get_prop jws ''payload'' = JStr p \<and> decodeB64U pf p = Some pl
                   \<and> target = TextEncoder_encode (prot @ ''.'' @ p))
            else get_prop jws ''payload'' = JBytes pl
                   \<and> target = TextEncoder_encode (prot @ ''.'') @ pl) \<longrightarrow>
        verify pf rb jws key options
          = ([Call_createSignatureCurve (get_prop key ''crv''), Call_toRawPublicKey key,
              Call_verify pk target (vs_signature v)],
             case sig_verify curve pk target (vs_signature v) of
               None \<Rightarrow> Inl (JwsInvalid ''Failed to verify JWS signature'')
             | Some ok \<Rightarrow>
                 if ok then
                   Inr \<lparr>vfr_payload = pl,
                        vfr_protectedHeader = Some (vs_parsedProtected v),
                        vfr_unprotectedHeader =
                          (if get_prop jws ''header'' \<noteq> JUndefined
                           then Some (get_prop jws ''header'') else None)\<rparr>
                 else Inl (JwsSignatureVerificationFailed
                             ''JWS signature verification failed''))"
    using verify_reaches_primitive [OF assms, of pf rb curve pk v options S b64 a prot pl target]
    by blast
qed

lemma sample_detached_arguments:
  "\<not> is_nullish sample_detached_jws" "isPlainObject sample_detached_jws"
  "\<not> is_nullish sample_jwk" "isPlainObject sample_jwk" "truthy (get_prop sample_jwk ''crv'')"
  by (simp_all add: sample_detached_jws_def sample_jwk_def obj_get_def)

lemma sample_detached_wellformed:
  "createSignatureCurve (sample_platform sample_detached_protected False)
       (get_prop sample_jwk ''crv'') (\<lambda>n. replicate n 0) = Some (sample_signature_curve False)
   \<and> sig_toRawPublicKey (sample_signature_curve False) sample_jwk = Some [3]
   \<and> validateFlattenedJws (sample_platform sample_detached_protected False) sample_detached_jws
       = Inr \<lparr>vs_signature = [],
              vs_joseHeader = [(''alg'', JStr ''ES256''), (''b64'', JBool False),
                               (''crit'', JArr [JStr ''b64''])],
              vs_parsedProtected = sample_detached_protected\<rparr>
   \<and> validateCrit JwsInvalid (Some [(''b64'', True)])
       (case None of None \<Rightarrow> None | Some opts \<Rightarrow> vo_crit opts)
       (vs_parsedProtected
          \<lparr>vs_signature = [],
           vs_joseHeader = [(''alg'', JStr ''ES256''), (''b64'', JBool False),
                            (''crit'', JArr [JStr ''b64''])],
           vs_parsedProtected = sample_detached_protected\<rparr>)
       (vs_joseHeader
          \<lparr>vs_signature = [],
           vs_joseHeader = [(''alg'', JStr ''ES256''), (''b64'', JBool False),
                            (''crit'', JArr [JStr ''b64''])],
           vs_parsedProtected = sample_detached_protected\<rparr>) = Inr {''b64''}
   \<and> parseB64 (get_prop (vs_parsedProtected
          \<lparr>vs_signature = [],
           vs_joseHeader = [(''alg'', JStr ''ES256''), (''b64'', JBool False),
                            (''crit'', JArr [JStr ''b64''])],
           vs_parsedProtected = sample_detached_protected\<rparr>) ''b64'') {''b64''} = Inr False
   \<and> validateJwsAlg (get_prop (vs_parsedProtected
          \<lparr>vs_signature = [],
           vs_joseHeader = [(''alg'', JStr ''ES256''), (''b64'', JBool False),
                            (''crit'', JArr [JStr ''b64''])],
           vs_parsedProtected = sample_detached_protected\<rparr>) ''alg'')
       (sig_signatureAlgorithmName (sample_signature_curve False)) = Inr ''ES256''
   \<and> get_prop sample_detached_jws ''protected'' = JStr ''e30''
   \<and> (if False then
         (\<exists>p. get_prop sample_detached_jws ''payload'' = JStr p
              \<and> decodeB64U (sample_platform sample_detached_protected False) p = Some [72, 105]
              \<and> TextEncoder_encode ''e30.'' @ [72, 105] = TextEncoder_encode (''e30'' @ ''.'' @ p))
       else get_prop sample_detached_jws ''payload'' = JBytes [72, 105]
              \<and> TextEncoder_encode ''e30.'' @ [72, 105]
                  = TextEncoder_encode (''e30'' @ ''.'') @ [72, 105])"
proof -
  have v: "validateFlattenedJws (sample_platform sample_detached_protected False)
             sample_detached_jws
       = Inr \<lparr>vs_signature = [],
              vs_joseHeader = [(''alg'', JStr ''ES256''), (''b64'', JBool False),
                               (''crit'', JArr [JStr ''b64''])],
              vs_parsedProtected = sample_detached_protected\<rparr>"
    by (simp add: validateFlattenedJws_def decodeRequiredBase64Url_def decodeBase64Url_def
        parseBase64UrlHeader_def sample_platform_fields obj_get_def mergeJwsHeaders_def
        verifyJwsHeaders_def areDisjoint_def Object_keys_def js_spread_def
        sample_detached_jws_def sample_detached_protected_def)
  have c: "validateCrit JwsInvalid (Some [(''b64'', True)]) None sample_detached_protected
             [(''alg'', JStr ''ES256''), (''b64'', JBool False), (''crit'', JArr [JStr ''b64''])]
           = Inr {''b64''}"
    by (simp add: validateCrit_def default_record_def obj_get_def js_Map_def obj_read_def
        sample_detached_protected_def)
  have r: "parseB64 (get_prop sample_detached_protected ''b64'') {''b64''} = Inr False"
    "validateJwsAlg (get_prop sample_detached_protected ''alg'') ''ES256'' = Inr ''ES256''"
    by (simp_all add: parseB64_def sample_detached_protected_def obj_get_def validateJwsAlg_def
        isJwsAlg_def JWS_ALGS_def)
  show ?thesis
    by (simp add: v c r)
       (simp add: r sample_jwk_def sample_platform_fields sample_signature_curve_def
        sample_detached_jws_def obj_get_def)
qed

theorem verify_error_classes_witness:
  "verify (sample_platform sample_detached_protected False) (\<lambda>n. replicate n 0)
      sample_detached_jws sample_jwk None
     = ([Call_createSignatureCurve (get_prop sample_jwk ''crv''), Call_toRawPublicKey sample_jwk,
         Call_verify [3] (TextEncoder_encode ''e30.'' @ [72, 105]) []],
        Inl (JwsSignatureVerificationFailed ''JWS signature verification failed''))
   \<and> verify (sample_platform (JObj [(''alg'', JStr ''ES256'')]) False) (\<lambda>n. replicate n 0)
        (JObj [(''protected'', JStr ''e30''), (''payload'', JStr ''SGk''),
               (''signature'', JStr ''Bg'')])
        sample_jwk None
      = ([Call_createSignatureCurve (JStr ''P-256''), Call_toRawPublicKey sample_jwk,
          Call_verify [3] (TextEncoder_encode ''e30.SGk'') []],
         Inl (JwsSignatureVerificationFailed ''JWS signature verification failed''))"
proof
  note T = verify_error_classes
    [where jws = sample_detached_jws and key = sample_jwk
       and pf = "sample_platform sample_detached_protected False"
       and rb = "\<lambda>n. replicate n 0" and options = None
       and curve = "sample_signature_curve False" and pk = "[3]"
       and v = "\<lparr>vs_signature = [],
                 vs_joseHeader = [(''alg'', JStr ''ES256''), (''b64'', JBool False),
                                  (''crit'', JArr [JStr ''b64''])],
                 vs_parsedProtected = sample_detached_protected\<rparr>"
       and S = "{''b64''}" and ?b64.0 = False and a = "''ES256''" and prot = "''e30''"
       and pl = "[72, 105]" and target = "TextEncoder_encode ''e30.'' @ [72, 105]"]
  from T [OF sample_detached_arguments, THEN conjunct2, THEN mp, OF sample_detached_wellformed]
  show "verify (sample_platform sample_detached_protected False) (\<lambda>n. replicate n 0)
      sample_detached_jws sample_jwk None
     = ([Call_createSignatureCurve (get_prop sample_jwk ''crv''), Call_toRawPublicKey sample_jwk,
         Call_verify [3] (TextEncoder_encode ''e30.'' @ [72, 105]) []],
        Inl (JwsSignatureVerificationFailed ''JWS signature verification failed''))"
    by (simp add: sample_signature_curve_def)
  show "verify (sample_platform (JObj [(''alg'', JStr ''ES256'')]) False) (\<lambda>n. replicate n 0)
        (JObj [(''protected'', JStr ''e30''), (''payload'', JStr ''SGk''),
               (''signature'', JStr ''Bg'')])
        sample_jwk None
      = ([Call_createSignatureCurve (JStr ''P-256''), Call_toRawPublicKey sample_jwk,
          Call_verify [3] (TextEncoder_encode ''e30.SGk'') []],
         Inl (JwsSignatureVerificationFailed ''JWS signature verification failed''))"
    by (simp add: sample_verify)
qed

section \<open>Precedence of the option set in the \<^verbatim>\<open>crit\<close> rule\<close>

lemma map_of_filter_key:
  "map_of (filter (\<lambda>(k, f). Q k) xs) p = (if Q p then map_of xs p else None)"
  by (induction xs) auto

lemma js_Map_filter:
  "js_Map (filter (\<lambda>(k, f). Q k) xs) p = (if Q p then js_Map xs p else None)"
  by (simp add: js_Map_rev rev_filter map_of_filter_key)

lemma js_Map_override:
  "js_Map (filter (\<lambda>(k, f). k \<notin> fst ` set opt) d @ opt) = js_Map (d @ opt)"
proof
  fix p
  show "js_Map (filter (\<lambda>(k, f). k \<notin> fst ` set opt) d @ opt) p = js_Map (d @ opt) p"
    using js_Map_None [of opt p]
    by (cases "js_Map opt p") (simp_all add: js_Map_append js_Map_filter)
qed

lemma validateCrit_override:
  "validateCrit Err (Some d) (Some opt) ph jh
     = validateCrit Err (Some (filter (\<lambda>(k, f). k \<notin> fst ` set opt) d)) (Some opt) ph jh"
  by (simp only: validateCrit_def default_record_def option.case Let_def js_Map_override)

lemma crit_b64_option:
  assumes "js_Map opt ''b64'' = Some False" and "get_prop ph ''crit'' = JArr [JStr ''b64'']"
    and "obj_get jh ''b64'' \<noteq> JUndefined"
  shows "validateCrit Err (Some [(''b64'', True)]) (Some opt) ph jh = Inr {''b64''}"
proof -
  have m: "js_Map ((''b64'', True) # opt) ''b64'' = Some False"
    using js_Map_append [of "[(''b64'', True)]" opt "''b64''"] assms(1) by simp
  show ?thesis
    using assms(3)
    by (simp add: validateCrit_array [OF assms(2)] default_record_def m
        obj_read_own [OF b64_not_inherited])
qed

lemma crit_b64_default:
  assumes "get_prop ph ''crit'' = JArr [JStr ''b64'']" and "obj_get jh ''b64'' \<noteq> JUndefined"
    and "is_nullish (get_prop ph ''b64'')"
  shows "validateCrit Err (Some [(''b64'', True)]) None ph jh
           = Inl (Err ''\"crit\" (Critical) header parameter \"b64\" MUST be integrity protected'')"
  using assms
  by (simp add: validateCrit_array [OF assms(1)] default_record_def js_Map_def
      obj_read_own [OF b64_not_inherited] prop_read_own [OF b64_not_inherited])

lemma sign_b64_default:
  assumes "\<not> is_nullish payload" and "isUint8Array payload" and "\<not> is_nullish key"
    and "isPlainObject key" and "truthy (get_prop key ''crv'')"
    and "createSignatureCurve pf (get_prop key ''crv'') (fs_randomBytes this) = Some curve"
    and "sig_toRawPrivateKey curve key = Some sk"
    and "mergeJwsHeaders (fs_protectedHeader this) (fs_unprotectedHeader this) = Inr jh"
    and "get_prop (fs_protectedHeader this) ''crit'' = JArr [JStr ''b64'']"
    and "obj_get jh ''b64'' \<noteq> JUndefined"
    and "is_nullish (get_prop (fs_protectedHeader this) ''b64'')"
  shows "sign pf this payload key None
           = ([Call_createSignatureCurve (get_prop key ''crv''), Call_toRawPrivateKey key],
              Inl (JwsInvalid ''Failed to sign payload''))"
  using assms(1-8)
  by (simp add: sign_def sign_body_def bnd_call bnd_lift try_catch_def throw_def
      crit_b64_default [OF assms(9-11)])

lemma sign_b64_option:
  assumes "\<not> is_nullish payload" and "isUint8Array payload" and "\<not> is_nullish key"
    and "isPlainObject key" and "truthy (get_prop key ''crv'')"
    and "createSignatureCurve pf (get_prop key ''crv'') (fs_randomBytes this) = Some curve"
    and "sig_toRawPrivateKey curve key = Some sk"
    and "mergeJwsHeaders (fs_protectedHeader this) (fs_unprotectedHeader this) = Inr jh"
    and "get_prop (fs_protectedHeader this) ''crit'' = JArr [JStr ''b64'']"
    and "obj_get jh ''b64'' \<noteq> JUndefined"
    and "is_nullish (get_prop (fs_protectedHeader this) ''b64'')"
    and "js_Map opt ''b64'' = Some False"
    and "validateJwsAlg (get_prop (fs_protectedHeader this) ''alg'')
           (sig_signatureAlgorithmName curve) = Inr a"
    and "sig_sign curve sk
           (fst (encodeSignTarget pf (fs_protectedHeader this) (ensureUint8Array payload) True))
           = Some sg"
  shows "\<exists>jws. sign pf this payload key (Some \<lparr>so_crit = Some opt\<rparr>)
           = ([Call_createSignatureCurve (get_prop key ''crv''), Call_toRawPrivateKey key,
               Call_sign sk (fst (encodeSignTarget pf (fs_protectedHeader this)
                                    (ensureUint8Array payload) True))],
              Inr jws)"
proof -
  have p: "parseB64 (get_prop (fs_protectedHeader this) ''b64'') {''b64''} = Inr True"
    using assms(11) by (simp add: parseB64_def)
  obtain t p64 pl64 where
    t: "encodeSignTarget pf (fs_protectedHeader this) (ensureUint8Array payload) True
          = (t, p64, pl64)"
    by (cases "encodeSignTarget pf (fs_protectedHeader this) (ensureUint8Array payload) True")
  show ?thesis
    using assms(1-8) assms(13) assms(14)
    by (simp add: sign_def sign_body_def bnd_call bnd_lift try_catch_def throw_def ret_def p t
        crit_b64_option [OF assms(12) assms(9) assms(10)])
qed

lemma verify_b64_default:
  assumes "\<not> is_nullish jws" and "isPlainObject jws" and "\<not> is_nullish key"
    and "isPlainObject key" and "truthy (get_prop key ''crv'')"
    and "createSignatureCurve pf (get_prop key ''crv'') rb = Some curve"
    and "sig_toRawPublicKey curve key = Some pk"
    and "validateFlattenedJws pf jws = Inr v"
    and "get_prop (vs_parsedProtected v) ''crit'' = JArr [JStr ''b64'']"
    and "obj_get (vs_joseHeader v) ''b64'' \<noteq> JUndefined"
    and "is_nullish (get_prop (vs_parsedProtected v) ''b64'')"
  shows "verify pf rb jws key None
           = ([Call_createSignatureCurve (get_prop key ''crv''), Call_toRawPublicKey key],
              Inl (JwsInvalid ''Failed to verify JWS signature''))"
  using assms(1-8)
  by (simp add: verify_def verify_body_def bnd_call bnd_lift try_catch_def throw_def
      crit_b64_default [OF assms(9-11)])

lemma verify_b64_option:
  assumes "\<not> is_nullish jws" and "isPlainObject jws" and "\<not> is_nullish key"
    and "isPlainObject key" and "truthy (get_prop key ''crv'')"
    and "createSignatureCurve pf (get_prop key ''crv'') rb = Some curve"
    and "sig_toRawPublicKey curve key = Some pk"
    and "validateFlattenedJws pf jws = Inr v"
    and "get_prop (vs_parsedProtected v) ''crit'' = JArr [JStr ''b64'']"
    and "obj_get (vs_joseHeader v) ''b64'' \<noteq> JUndefined"
    and "is_nullish (get_prop (vs_parsedProtected v) ''b64'')"
    and "js_Map opt ''b64'' = Some False"
    and "validateJwsAlg (get_prop (vs_parsedProtected v) ''alg'')
           (sig_signatureAlgorithmName curve) = Inr a"
    and "encodeVerifyTarget pf
            (case string_field (get_prop jws ''protected'') of None \<Rightarrow> [] | Some p \<Rightarrow> p)
            (get_prop jws ''payload'') True = ([], Inr (target, decoded))"
    and "sig_verify curve pk target (vs_signature v) = Some True"
  shows "\<exists>res. verify pf rb jws key (Some \<lparr>vo_crit = Some opt\<rparr>)
           = ([Call_createSignatureCurve (get_prop key ''crv''), Call_toRawPublicKey key,
               Call_verify pk target (vs_signature v)],
              Inr res)"
proof -
  have p: "parseB64 (get_prop (vs_parsedProtected v) ''b64'') {''b64''} = Inr True"
    using assms(11) by (simp add: parseB64_def)
  show ?thesis
    using assms(1-8) assms(13) assms(15)
    by (simp add: verify_def verify_body_def bnd_call bnd_lift bnd_ret try_catch_def throw_def
        ret_def p assms(14) crit_b64_option [OF assms(12) assms(9) assms(10)])
qed

text \<open>
  C10. In \<^verbatim>\<open>validateCrit\<close> an entry of the default recognized set whose name the option
  set also has is without effect: the flag of the option set decides. With the default set
  \<open>{b64: true}\<close> of \<^verbatim>\<open>sign\<close> and \<^verbatim>\<open>verify\<close>, a protected \<^verbatim>\<open>crit\<close> of \<open>[b64]\<close> and a \<open>b64\<close> that
  the JOSE header has and the protected header has not: without an option set the rule
  fails and \<^verbatim>\<open>sign\<close> and \<^verbatim>\<open>verify\<close> fail before the signature primitive is called; with an
  option set mapping \<open>b64\<close> to false the rule returns \<open>{b64}\<close>, the name being recognized,
  and \<^verbatim>\<open>sign\<close> and \<^verbatim>\<open>verify\<close> go on to the signature primitive and return a result.
\<close>

theorem crit_option_takes_precedence:
  "validateCrit Err (Some d) (Some opt') ph jh
     = validateCrit Err (Some (filter (\<lambda>(k, f). k \<notin> fst ` set opt') d)) (Some opt') ph jh
   \<and> (get_prop ph ''crit'' = JArr [JStr ''b64''] \<and> obj_get jh ''b64'' \<noteq> JUndefined
        \<and> is_nullish (get_prop ph ''b64'') \<longrightarrow>
        validateCrit Err (Some [(''b64'', True)]) None ph jh
          = Inl (Err ''\"crit\" (Critical) header parameter \"b64\" MUST be integrity protected'')
        \<and> (js_Map opt ''b64'' = Some False \<longrightarrow>
             validateCrit Err (Some [(''b64'', True)]) (Some opt) ph jh = Inr {''b64''}))
   \<and> (\<not> is_nullish payload \<and> isUint8Array payload \<and> \<not> is_nullish skey
        \<and> isPlainObject skey \<and> truthy (get_prop skey ''crv'')
        \<and> createSignatureCurve pf (get_prop skey ''crv'') (fs_randomBytes this) = Some scurve
        \<and> sig_toRawPrivateKey scurve skey = Some sk
        \<and> mergeJwsHeaders (fs_protectedHeader this) (fs_unprotectedHeader this) = Inr sjh
        \<and> get_prop (fs_protectedHeader this) ''crit'' = JArr [JStr ''b64'']
        \<and> obj_get sjh ''b64'' \<noteq> JUndefined
        \<and> is_nullish (get_prop (fs_protectedHeader this) ''b64'') \<longrightarrow>
        sign pf this payload skey None
          = ([Call_createSignatureCurve (get_prop skey ''crv''), Call_toRawPrivateKey skey],
             Inl (JwsInvalid ''Failed to sign payload''))
        \<and> (js_Map opt ''b64'' = Some False
             \<and> validateJwsAlg (get_prop (fs_protectedHeader this) ''alg'')
                 (sig_signatureAlgorithmName scurve) = Inr sa
             \<and> sig_sign scurve sk
                 (fst (encodeSignTarget pf (fs_protectedHeader this) (ensureUint8Array payload)
                         True)) = Some sg \<longrightarrow>
             (\<exists>jws. sign pf this payload skey (Some \<lparr>so_crit = Some opt\<rparr>)
                = ([Call_createSignatureCurve (get_prop skey ''crv''), Call_toRawPrivateKey skey,
                    Call_sign sk (fst (encodeSignTarget pf (fs_protectedHeader this)
                                         (ensureUint8Array payload) True))],
                   Inr jws))))
   \<and> (\<not> is_nullish jws \<and> isPlainObject jws \<and> \<not> is_nullish vkey
        \<and> isPlainObject vkey \<and> truthy (get_prop vkey ''crv'')
        \<and> createSignatureCurve pf (get_prop vkey ''crv'') rb = Some vcurve
        \<and> sig_toRawPublicKey vcurve vkey = Some pk
        \<and> validateFlattenedJws pf jws = Inr v
        \<and> get_prop (vs_parsedProtected v) ''crit'' = JArr [JStr ''b64'']
        \<and> obj_get (vs_joseHeader v) ''b64'' \<noteq> JUndefined
        \<and> is_nullish (get_prop (vs_parsedProtected v) ''b64'') \<longrightarrow>
        verify pf rb jws vkey None
          = ([Call_createSignatureCurve (get_prop vkey ''crv''), Call_toRawPublicKey vkey],
             Inl (JwsInvalid ''Failed to verify JWS signature''))
        \<and> (js_Map opt ''b64'' = Some False
             \<and> validateJwsAlg (get_prop (vs_parsedProtected v) ''alg'')
                 (sig_signatureAlgorithmName vcurve) = Inr va
             \<and> encodeVerifyTarget pf
                 (case string_field (get_prop jws ''protected'') of None \<Rightarrow> [] | Some p \<Rightarrow> p)
                 (get_prop jws ''payload'') True = ([], Inr (target, decoded))
             \<and> sig_verify vcurve pk target (vs_signature v) = Some True \<longrightarrow>
             (\<exists>res. verify pf rb jws vkey (Some \<lparr>vo_crit = Some opt\<rparr>)
                = ([Call_createSignatureCurve (get_prop vkey ''crv''), Call_toRawPublicKey vkey,
                    Call_verify pk target (vs_signature v)],
                   Inr res))))"
  (is "?A \<and> ?B \<and> ?C \<and> ?D")
proof -
  have A: ?A by (rule validateCrit_override)
  have B: ?B using crit_b64_default [of ph jh Err] crit_b64_option [of opt ph jh Err] by blast
  have C: ?C
    using sign_b64_default [of payload skey pf this scurve sk sjh]
      sign_b64_option [of payload skey pf this scurve sk sjh opt sa sg]
    by blast
  have D: ?D
    using verify_b64_default [of jws vkey pf rb vcurve pk v]
      verify_b64_option [of jws vkey pf rb vcurve pk v opt va target decoded]
    by blast
  from A B C D show ?thesis by (intro conjI)
qed

lemma sample_b64_crit:
  "get_prop sample_b64_protected ''crit'' = JArr [JStr ''b64'']
   \<and> obj_get [(''b64'', JBool False), (''alg'', JStr ''ES256''),
               (''crit'', JArr [JStr ''b64''])] ''b64'' \<noteq> JUndefined
   \<and> is_nullish (get_prop sample_b64_protected ''b64'')"
  by (simp add: sample_b64_protected_def obj_get_def)

lemma sample_b64_opt: "js_Map [(''b64'', False)] ''b64'' = Some False"
  by (simp add: js_Map_def)

lemma sample_b64_sign:
  "\<not> is_nullish (JBytes [72, 105]) \<and> isUint8Array (JBytes [72, 105]) \<and> \<not> is_nullish sample_jwk
   \<and> isPlainObject sample_jwk \<and> truthy (get_prop sample_jwk ''crv'')
   \<and> createSignatureCurve (sample_platform sample_b64_protected True)
        (get_prop sample_jwk ''crv'') (fs_randomBytes sample_b64_signer)
        = Some (sample_signature_curve True)
   \<and> sig_toRawPrivateKey (sample_signature_curve True) sample_jwk = Some [4]
   \<and> mergeJwsHeaders (fs_protectedHeader sample_b64_signer)
        (fs_unprotectedHeader sample_b64_signer)
        = Inr [(''b64'', JBool False), (''alg'', JStr ''ES256''), (''crit'', JArr [JStr ''b64''])]
   \<and> get_prop (fs_protectedHeader sample_b64_signer) ''crit'' = JArr [JStr ''b64'']
   \<and> obj_get [(''b64'', JBool False), (''alg'', JStr ''ES256''),
               (''crit'', JArr [JStr ''b64''])] ''b64'' \<noteq> JUndefined
   \<and> is_nullish (get_prop (fs_protectedHeader sample_b64_signer) ''b64'')"
  by (simp add: sample_jwk_def sample_platform_fields sample_signature_curve_def
      sample_b64_signer_def sample_b64_protected_def obj_get_def mergeJwsHeaders_def
      verifyJwsHeaders_def areDisjoint_def Object_keys_def js_spread_def)

lemma sample_b64_sign_option:
  "js_Map [(''b64'', False)] ''b64'' = Some False
   \<and> validateJwsAlg (get_prop (fs_protectedHeader sample_b64_signer) ''alg'')
        (sig_signatureAlgorithmName (sample_signature_curve True)) = Inr ''ES256''
   \<and> sig_sign (sample_signature_curve True) [4]
        (fst (encodeSignTarget (sample_platform sample_b64_protected True)
                (fs_protectedHeader sample_b64_signer) (ensureUint8Array (JBytes [72, 105]))
                True)) = Some [6]"
  by (simp add: js_Map_def sample_signature_curve_def sample_b64_signer_def
      sample_b64_protected_def obj_get_def validateJwsAlg_def isJwsAlg_def JWS_ALGS_def)

lemma sample_b64_validate:
  "validateFlattenedJws (sample_platform sample_b64_protected True) sample_b64_jws
     = Inr \<lparr>vs_signature = [],
            vs_joseHeader = [(''b64'', JBool False), (''alg'', JStr ''ES256''),
                             (''crit'', JArr [JStr ''b64''])],
            vs_parsedProtected = sample_b64_protected\<rparr>"
  by (simp add: validateFlattenedJws_def decodeRequiredBase64Url_def decodeBase64Url_def
      parseBase64UrlHeader_def sample_platform_fields obj_get_def mergeJwsHeaders_def
      verifyJwsHeaders_def areDisjoint_def Object_keys_def js_spread_def sample_b64_jws_def
      sample_b64_protected_def)

lemma sample_b64_verify:
  "\<not> is_nullish sample_b64_jws \<and> isPlainObject sample_b64_jws \<and> \<not> is_nullish sample_jwk
   \<and> isPlainObject sample_jwk \<and> truthy (get_prop sample_jwk ''crv'')
   \<and> createSignatureCurve (sample_platform sample_b64_protected True)
        (get_prop sample_jwk ''crv'') (\<lambda>n. replicate n 0)
        = Some (sample_signature_curve True)
   \<and> sig_toRawPublicKey (sample_signature_curve True) sample_jwk = Some [3]
   \<and> validateFlattenedJws (sample_platform sample_b64_protected True) sample_b64_jws
        = Inr \<lparr>vs_signature = [],
               vs_joseHeader = [(''b64'', JBool False), (''alg'', JStr ''ES256''),
                                (''crit'', JArr [JStr ''b64''])],
               vs_parsedProtected = sample_b64_protected\<rparr>
   \<and> get_prop (vs_parsedProtected
        \<lparr>vs_signature = [],
         vs_joseHeader = [(''b64'', JBool False), (''alg'', JStr ''ES256''),
                          (''crit'', JArr [JStr ''b64''])],
         vs_parsedProtected = sample_b64_protected\<rparr>) ''crit'' = JArr [JStr ''b64'']
   \<and> obj_get (vs_joseHeader
        \<lparr>vs_signature = [],
         vs_joseHeader = [(''b64'', JBool False), (''alg'', JStr ''ES256''),
                          (''crit'', JArr [JStr ''b64''])],
         vs_parsedProtected = sample_b64_protected\<rparr>) ''b64'' \<noteq> JUndefined
   \<and> is_nullish (get_prop (vs_parsedProtected
        \<lparr>vs_signature = [],
         vs_joseHeader = [(''b64'', JBool False), (''alg'', JStr ''ES256''),
                          (''crit'', JArr [JStr ''b64''])],
         vs_parsedProtected = sample_b64_protected\<rparr>) ''b64'')"
  by (simp add: sample_b64_validate sample_b64_crit)
     (simp add: sample_jwk_def sample_platform_fields sample_signature_curve_def
      sample_b64_jws_def obj_get_def)

lemma sample_b64_verify_option:
  "js_Map [(''b64'', False)] ''b64'' = Some False
   \<and> validateJwsAlg (get_prop (vs_parsedProtected
        \<lparr>vs_signature = [],
         vs_joseHeader = [(''b64'', JBool False), (''alg'', JStr ''ES256''),
                          (''crit'', JArr [JStr ''b64''])],
         vs_parsedProtected = sample_b64_protected\<rparr>) ''alg'')
        (sig_signatureAlgorithmName (sample_signature_curve True)) = Inr ''ES256''
   \<and> encodeVerifyTarget (sample_platform sample_b64_protected True)
        (case string_field (get_prop sample_b64_jws ''protected'') of None \<Rightarrow> [] | Some p \<Rightarrow> p)
        (get_prop sample_b64_jws ''payload'') True
        = ([], Inr (TextEncoder_encode ''e30.SGk'', []))
   \<and> sig_verify (sample_signature_curve True) [3] (TextEncoder_encode ''e30.SGk'')
        (vs_signature
          \<lparr>vs_signature = [],
           vs_joseHeader = [(''b64'', JBool False), (''alg'', JStr ''ES256''),
                            (''crit'', JArr [JStr ''b64''])],
           vs_parsedProtected = sample_b64_protected\<rparr>) = Some True"
  by (simp add: js_Map_def sample_signature_curve_def sample_b64_protected_def obj_get_def
      validateJwsAlg_def isJwsAlg_def JWS_ALGS_def encodeVerifyTarget_def sample_b64_jws_def
      string_field_def sample_platform_fields ret_def)

theorem crit_option_takes_precedence_witness:
  "validateCrit JwsInvalid (Some [(''b64'', True)]) None sample_b64_protected
      [(''b64'', JBool False), (''alg'', JStr ''ES256''), (''crit'', JArr [JStr ''b64''])]
     = Inl (JwsInvalid ''\"crit\" (Critical) header parameter \"b64\" MUST be integrity protected'')
   \<and> validateCrit JwsInvalid (Some [(''b64'', True)]) (Some [(''b64'', False)])
       sample_b64_protected
       [(''b64'', JBool False), (''alg'', JStr ''ES256''), (''crit'', JArr [JStr ''b64''])]
     = Inr {''b64''}
   \<and> sign (sample_platform sample_b64_protected True) sample_b64_signer (JBytes [72, 105])
       sample_jwk None
     = ([Call_createSignatureCurve (get_prop sample_jwk ''crv''), Call_toRawPrivateKey sample_jwk],
        Inl (JwsInvalid ''Failed to sign payload''))
   \<and> (\<exists>jws. sign (sample_platform sample_b64_protected True) sample_b64_signer
              (JBytes [72, 105]) sample_jwk (Some \<lparr>so_crit = Some [(''b64'', False)]\<rparr>)
        = ([Call_createSignatureCurve (get_prop sample_jwk ''crv''),
            Call_toRawPrivateKey sample_jwk,
            Call_sign [4] (fst (encodeSignTarget (sample_platform sample_b64_protected True)
                                  (fs_protectedHeader sample_b64_signer)
                                  (ensureUint8Array (JBytes [72, 105])) True))],
           Inr jws))
   \<and> verify (sample_platform sample_b64_protected True) (\<lambda>n. replicate n 0) sample_b64_jws
       sample_jwk None
     = ([Call_createSignatureCurve (get_prop sample_jwk ''crv''), Call_toRawPublicKey sample_jwk],
        Inl (JwsInvalid ''Failed to verify JWS signature''))
   \<and> (\<exists>res. verify (sample_platform sample_b64_protected True) (\<lambda>n. replicate n 0)
              sample_b64_jws sample_jwk (Some \<lparr>vo_crit = Some [(''b64'', False)]\<rparr>)
        = ([Call_createSignatureCurve (get_prop sample_jwk ''crv''),
            Call_toRawPublicKey sample_jwk,
            Call_verify [3] (TextEncoder_encode ''e30.SGk'')
              (vs_signature
                \<lparr>vs_signature = [],
                 vs_joseHeader = [(''b64'', JBool False), (''alg'', JStr ''ES256''),
                                  (''crit'', JArr [JStr ''b64''])],
                 vs_parsedProtected = sample_b64_protected\<rparr>)],
           Inr res))"
  using crit_option_takes_precedence
    [where Err = JwsInvalid and d = "[(''b64'', True)]" and opt' = "[(''b64'', False)]"
       and opt = "[(''b64'', False)]" and ph = sample_b64_protected
       and jh = "[(''b64'', JBool False), (''alg'', JStr ''ES256''),
                  (''crit'', JArr [JStr ''b64''])]"
       and pf = "sample_platform sample_b64_protected True" and this = sample_b64_signer
       and payload = "JBytes [72, 105]" and skey = sample_jwk
       and scurve = "sample_signature_curve True" and sk = "[4]"
       and sjh = "[(''b64'', JBool False), (''alg'', JStr ''ES256''),
                   (''crit'', JArr [JStr ''b64''])]"
       and sa = "''ES256''" and sg = "[6]"
       and jws = sample_b64_jws and vkey = sample_jwk and rb = "\<lambda>n. replicate n 0"
       and vcurve = "sample_signature_curve True" and pk = "[3]"
       and v = "\<lparr>vs_signature = [],
                 vs_joseHeader = [(''b64'', JBool False), (''alg'', JStr ''ES256''),
                                  (''crit'', JArr [JStr ''b64''])],
                 vs_parsedProtected = sample_b64_protected\<rparr>"
       and va = "''ES256''" and target = "TextEncoder_encode ''e30.SGk''" and decoded = "[]"]
    sample_b64_crit sample_b64_opt sample_b64_sign sample_b64_sign_option
    sample_b64_verify sample_b64_verify_option
  by blast

end
